theory Spec2Isabelle
  imports Complex_Main "HOL-Library.Extended_Nat"
begin

section \<open>Numbers, vectors and colours\<close>

text \<open>
  The trail and ribbon components (ProperRibbons, OptimizedRibbons, SpeedTrails,
  SpeedRibbons) compute with JavaScript numbers and with \<^verbatim>\<open>THREE.Vector3\<close>. Numbers are
  modelled as reals: rounding, NaN and signed zeros of IEEE doubles are outside the model.
  The vector operations below follow the three.js library: \<^verbatim>\<open>normalize()\<close> is
  \<^verbatim>\<open>divideScalar(length() || 1)\<close>, so it returns the zero vector on the zero vector, and
  \<^verbatim>\<open>divideScalar(s)\<close> is \<^verbatim>\<open>multiplyScalar(1 / s)\<close>.
\<close>

datatype vec3 = Vector3 (vx: real) (vy: real) (vz: real)

definition vlength :: "vec3 \<Rightarrow> real" where
  "vlength v = sqrt (vx v * vx v + vy v * vy v + vz v * vz v)"

definition addv :: "vec3 \<Rightarrow> vec3 \<Rightarrow> vec3" where
  "addv a b = Vector3 (vx a + vx b) (vy a + vy b) (vz a + vz b)"

definition subVectors :: "vec3 \<Rightarrow> vec3 \<Rightarrow> vec3" where
  "subVectors a b = Vector3 (vx a - vx b) (vy a - vy b) (vz a - vz b)"

definition multiplyScalar :: "vec3 \<Rightarrow> real \<Rightarrow> vec3" where
  "multiplyScalar v s = Vector3 (vx v * s) (vy v * s) (vz v * s)"

definition divideScalar :: "vec3 \<Rightarrow> real \<Rightarrow> vec3" where
  "divideScalar v s = multiplyScalar v (1 / s)"

definition negate :: "vec3 \<Rightarrow> vec3" where
  "negate v = Vector3 (- vx v) (- vy v) (- vz v)"

definition normalize :: "vec3 \<Rightarrow> vec3" where
  "normalize v = divideScalar v (if vlength v = 0 then 1 else vlength v)"

definition crossVectors :: "vec3 \<Rightarrow> vec3 \<Rightarrow> vec3" where
  "crossVectors a b =
     Vector3 (vy a * vz b - vz a * vy b)
             (vz a * vx b - vx a * vz b)
             (vx a * vy b - vy a * vx b)"

definition distanceTo :: "vec3 \<Rightarrow> vec3 \<Rightarrow> real" where
  "distanceTo a b = vlength (subVectors a b)"

definition zeroVector :: vec3 where
  "zeroVector = Vector3 0 0 0"

definition upAxis :: vec3 where
  "upAxis = Vector3 0 1 0"

text \<open>The three components of a vector or of a colour, as they are pushed into a flat
  attribute array.\<close>

definition xyz :: "vec3 \<Rightarrow> real list" where
  "xyz v = [vx v, vy v, vz v]"

section \<open>Trail points, geometry and frames\<close>

record trailPoint =
  position :: vec3
  velocity :: vec3
  timestamp :: real

text \<open>A \<^verbatim>\<open>BufferGeometry\<close> as the array-building variants fill it: the flat position and
  colour attributes and the triangle index list. A JavaScript array holds any number, so an
  index is an integer that may be negative. \<^verbatim>\<open>new THREE.BufferGeometry()\<close> has no
  attribute and no index.\<close>

record geometry =
  positions :: "real list"
  colors :: "real list"
  indices :: "int list"

definition emptyGeometry :: geometry where
  "emptyGeometry = \<lparr>positions = [], colors = [], indices = []\<rparr>"

definition vertexCount :: "geometry \<Rightarrow> nat" where
  "vertexCount g = length (positions g) div 3"

text \<open>One call of the \<^verbatim>\<open>useFrame\<close> callback of a component that reads \<^verbatim>\<open>Date.now()\<close>:
  the props it sees, the frame delta, and the clock readings in the order the callback
  takes them: for the timestamp of a recorded point, for the pruning filter, and inside the
  rebuild (one reading per ribbon index and path index).\<close>

record frame =
  enabled :: bool
  spherePosition :: "vec3 option"
  delta :: real
  nowRecord :: real
  nowPrune :: real
  nowBuild :: "nat \<Rightarrow> nat \<Rightarrow> real"

section \<open>ProperRibbons\<close>

definition PR_RIBBON_COUNT :: nat where "PR_RIBBON_COUNT = 6"
definition PR_MAX_TRAIL_LENGTH :: nat where "PR_MAX_TRAIL_LENGTH = 15"
definition PR_RIBBON_WIDTH :: real where "PR_RIBBON_WIDTH = 0.2"
definition PR_MOVEMENT_THRESHOLD :: real where "PR_MOVEMENT_THRESHOLD = 0.02"
definition PR_TRAIL_LIFETIME :: real where "PR_TRAIL_LIFETIME = 3000"

record PR_state =
  PR_trailHistory :: "trailPoint list"
  PR_lastPosition :: vec3
  PR_lastVelocity :: vec3
  PR_ribbonMeshes :: "geometry option list"

subsection \<open>Spawn points (getBackSpawnPoints)\<close>

text \<open>\<^verbatim>\<open>getBackSpawnPoints\<close>, with the vectors it hands to \<^verbatim>\<open>normalize()\<close> collected in
  call order as a second result.\<close>

definition PR_getBackSpawnPoints_trace :: "vec3 \<Rightarrow> vec3 \<Rightarrow> vec3 list \<times> vec3 list" where
  "PR_getBackSpawnPoints_trace pos vel =
     (let moving = (vlength vel > 0.001);
          backDirection = (if moving then negate (normalize vel) else Vector3 0 0 (- 1));
          rightArg = crossVectors backDirection upAxis;
          rightVector = normalize rightArg;
          upArg = crossVectors rightVector backDirection;
          upVector = normalize upArg;
          spawnPoints =
            map (\<lambda>i.
              let angle = (real i / real PR_RIBBON_COUNT) * pi * 2;
                  radius = 1.1;
                  offset = addv (multiplyScalar rightVector (cos angle * radius * 0.7))
                                (multiplyScalar upVector (sin angle * radius * 0.4))
              in addv (addv pos (multiplyScalar backDirection (radius * 0.8))) offset)
            [0 ..< PR_RIBBON_COUNT]
      in (spawnPoints, (if moving then [vel] else []) @ [rightArg, upArg]))"

definition PR_getBackSpawnPoints :: "vec3 \<Rightarrow> vec3 \<Rightarrow> vec3 list" where
  "PR_getBackSpawnPoints pos vel = fst (PR_getBackSpawnPoints_trace pos vel)"

definition PR_normalized :: "vec3 \<Rightarrow> vec3 \<Rightarrow> vec3 list" where
  "PR_normalized pos vel = snd (PR_getBackSpawnPoints_trace pos vel)"

subsection \<open>Ribbon geometry (updateRibbons)\<close>

text \<open>The path of one ribbon: for each trail point the spawn point of this ribbon index,
  when there is one, with the point's timestamp.\<close>

definition PR_ribbonPath :: "trailPoint list \<Rightarrow> nat \<Rightarrow> (vec3 \<times> real) list" where
  "PR_ribbonPath trail ribbonIndex =
     concat (map (\<lambda>tp.
        let backPoints = PR_getBackSpawnPoints (position tp) (velocity tp)
        in if ribbonIndex < length backPoints
           then [(backPoints ! ribbonIndex, timestamp tp)] else [])
      trail)"

definition PR_progress :: "nat \<Rightarrow> nat \<Rightarrow> real" where
  "PR_progress n i = real i / (real n - 1)"

definition PR_alpha :: "real \<Rightarrow> (vec3 \<times> real) list \<Rightarrow> (nat \<Rightarrow> real) \<Rightarrow> nat \<Rightarrow> real" where
  "PR_alpha lifetime path now i =
     (let progress = PR_progress (length path) i;
          age = now i - snd (path ! i);
          ageFade = max 0 (1 - age / lifetime);
          positionFade = max 0.1 (1 - progress * 0.8)
      in ageFade * positionFade)"

definition PR_direction :: "(vec3 \<times> real) list \<Rightarrow> nat \<Rightarrow> vec3" where
  "PR_direction path i =
     (if i + 1 < length path
        then normalize (subVectors (fst (path ! (i + 1))) (fst (path ! i)))
      else if i > 0
        then normalize (subVectors (fst (path ! i)) (fst (path ! (i - 1))))
      else Vector3 0 0 1)"

definition PR_width :: "(vec3 \<times> real) list \<Rightarrow> nat \<Rightarrow> vec3" where
  "PR_width path i =
     multiplyScalar (normalize (crossVectors (PR_direction path i) upAxis))
       (PR_RIBBON_WIDTH * 0.5 * (1 - PR_progress (length path) i * 0.3))"

text \<open>The body of the loop over the path, with the lifetime that divides the age as a
  parameter (\<^verbatim>\<open>updateRibbons\<close> passes the constant). The point is skipped when its alpha is
  below 0.01; otherwise two vertices and their colours are pushed, and for \<open>i > 0\<close> two
  triangles that join them to the two vertices pushed before.\<close>

definition PR_pathStep :: "real \<Rightarrow> (vec3 \<times> real) list \<Rightarrow> vec3 \<Rightarrow> (nat \<Rightarrow> real) \<Rightarrow> geometry \<Rightarrow> nat \<Rightarrow> geometry" where
  "PR_pathStep lifetime path color now g i =
     (let alpha = PR_alpha lifetime path now i in
      if alpha < 0.01 then g
      else
        let p = fst (path ! i);
            width = PR_width path i;
            leftEdge = subVectors p width;
            rightEdge = addv p width;
            vertIndex = int (length (positions g) div 3);
            c = multiplyScalar color alpha;
            prevIndex = vertIndex - 2
        in \<lparr>positions = positions g @ xyz leftEdge @ xyz rightEdge,
            colors = colors g @ xyz c @ xyz c,
            indices = indices g @
              (if i > 0
               then [prevIndex, prevIndex + 1, vertIndex, prevIndex + 1, vertIndex + 1, vertIndex]
               else [])\<rparr>)"

definition PR_buildRibbon :: "real \<Rightarrow> vec3 \<Rightarrow> (nat \<Rightarrow> real) \<Rightarrow> trailPoint list \<Rightarrow> nat \<Rightarrow> geometry" where
  "PR_buildRibbon lifetime color now trail ribbonIndex =
     (let path = PR_ribbonPath trail ribbonIndex
      in foldl (PR_pathStep lifetime path color now) emptyGeometry [0 ..< length path])"

text \<open>\<^verbatim>\<open>updateRibbons\<close>: nothing happens on a trail of fewer than two points; otherwise
  every mesh that exists gets the geometry built for its index, unless that geometry has
  no position at all, in which case the mesh keeps its old one.\<close>

definition PR_updateRibbons :: "(nat \<Rightarrow> vec3) \<Rightarrow> (nat \<Rightarrow> nat \<Rightarrow> real) \<Rightarrow> PR_state \<Rightarrow> PR_state" where
  "PR_updateRibbons materials now s =
     (let trail = PR_trailHistory s in
      if length trail < 2 then s
      else s\<lparr>PR_ribbonMeshes :=
        map (\<lambda>(ribbonIndex, mesh).
          case mesh of
            None \<Rightarrow> None
          | Some old \<Rightarrow>
              let g = PR_buildRibbon PR_TRAIL_LIFETIME (materials ribbonIndex) (now ribbonIndex)
                        trail ribbonIndex
              in if length (positions g) > 0 then Some g else Some old)
        (List.enumerate 0 (PR_ribbonMeshes s))\<rparr>)"

subsection \<open>The frame callback and the effects\<close>

text \<open>The recording branch of \<^verbatim>\<open>useFrame\<close>: the velocity, the new point at the front,
  the cut to the maximum length and the update of the last position.\<close>

definition PR_record :: "vec3 \<Rightarrow> real \<Rightarrow> real \<Rightarrow> PR_state \<Rightarrow> PR_state" where
  "PR_record p dt now s =
     (let distance = distanceTo p (PR_lastPosition s) in
      if distance > PR_MOVEMENT_THRESHOLD then
        let vel = (if dt > 0 then divideScalar (subVectors p (PR_lastPosition s)) dt
                   else zeroVector);
            pushed = \<lparr>position = p, velocity = vel, timestamp = now\<rparr> # PR_trailHistory s;
            limited = (if length pushed > PR_MAX_TRAIL_LENGTH
                       then take PR_MAX_TRAIL_LENGTH pushed else pushed)
        in s\<lparr>PR_trailHistory := limited, PR_lastPosition := p, PR_lastVelocity := vel\<rparr>
      else s)"

definition PR_prune :: "real \<Rightarrow> PR_state \<Rightarrow> PR_state" where
  "PR_prune currentTime s =
     s\<lparr>PR_trailHistory :=
        filter (\<lambda>point. currentTime - timestamp point < PR_TRAIL_LIFETIME) (PR_trailHistory s)\<rparr>"

definition PR_useFrame :: "(nat \<Rightarrow> vec3) \<Rightarrow> frame \<Rightarrow> PR_state \<Rightarrow> PR_state" where
  "PR_useFrame materials f s =
     (case spherePosition f of
        None \<Rightarrow> s
      | Some p \<Rightarrow>
          if \<not> enabled f then s
          else
            let s1 = PR_record p (delta f) (nowRecord f) s;
                s2 = PR_prune (nowPrune f) s1
            in if length (PR_trailHistory s2) \<ge> 2
               then PR_updateRibbons materials (nowBuild f) s2 else s2)"


text \<open>The effect that runs when the \<^verbatim>\<open>spherePosition\<close> prop changes.\<close>

definition PR_initEffect :: "vec3 option \<Rightarrow> real \<Rightarrow> PR_state \<Rightarrow> PR_state" where
  "PR_initEffect sp now s =
     (case sp of
        None \<Rightarrow> s
      | Some p \<Rightarrow>
          if PR_trailHistory s = []
          then s\<lparr>PR_trailHistory :=
                   PR_trailHistory s @ [\<lparr>position = p, velocity = zeroVector, timestamp = now\<rparr>],
                 PR_lastPosition := p\<rparr>
          else s)"

section \<open>OptimizedRibbons (pooled buffers)\<close>

definition OR_RIBBON_COUNT :: nat where "OR_RIBBON_COUNT = 4"
definition OR_MAX_TRAIL_POINTS :: nat where "OR_MAX_TRAIL_POINTS = 20"
definition OR_RIBBON_WIDTH :: real where "OR_RIBBON_WIDTH = 0.25"
definition OR_SPAWN_DISTANCE :: real where "OR_SPAWN_DISTANCE = 0.8"
definition OR_TRAIL_LIFETIME :: real where "OR_TRAIL_LIFETIME = 3500"
definition OR_MOVEMENT_THRESHOLD :: real where "OR_MOVEMENT_THRESHOLD = 0.03"
definition OR_UPDATE_FREQUENCY :: nat where "OR_UPDATE_FREQUENCY = 3"

text \<open>A typed array has a fixed length: a write past its end is dropped, which is what
  \<open>xs[k := v]\<close> does. \<open>writeAt xs k vs\<close> stores \<open>vs\<close> at the indices \<open>k, k + 1, \<dots>\<close>.
  A \<^verbatim>\<open>Uint16Array\<close> keeps a stored number modulo \<open>2 ^ 16\<close>.\<close>

fun writeAt :: "'a list \<Rightarrow> nat \<Rightarrow> 'a list \<Rightarrow> 'a list" where
  "writeAt xs k [] = xs"
| "writeAt xs k (v # vs) = writeAt (xs[k := v]) (Suc k) vs"

definition uint16 :: "nat \<Rightarrow> nat" where
  "uint16 v = v mod 65536"

text \<open>The pooled \<^verbatim>\<open>geometryBuffers\<close> shared by all ribbons, and a pooled geometry: its
  attribute arrays and the count of its draw range (\<open>\<infinity>\<close> until \<^verbatim>\<open>setDrawRange\<close> is called).\<close>

record OR_buffers =
  buf_positions :: "real list"
  buf_colors :: "real list"
  buf_indices :: "nat list"

record OR_geometry =
  geo_position :: "real list"
  geo_color :: "real list"
  geo_index :: "nat list"
  geo_drawCount :: enat

record OR_state =
  OR_trailHistory :: "trailPoint list"
  OR_lastPosition :: vec3
  OR_lastVelocity :: vec3
  OR_frameCounter :: nat
  OR_isInitialized :: bool
  OR_geometryBuffers :: OR_buffers
  OR_ribbonGeometries :: "OR_geometry list"

text \<open>One call of the frame callback of OptimizedRibbons, which reads
  \<^verbatim>\<open>performance.now()\<close>: once for the timestamp of the point it stores, once for the
  pruning filter and once in each call of \<^verbatim>\<open>updateRibbonGeometry\<close>.\<close>

record OR_frame =
  OR_enabled :: bool
  OR_mode :: string
  OR_spherePosition :: "vec3 option"
  OR_delta :: real
  OR_nowRecord :: real
  OR_nowPrune :: real
  OR_nowBuild :: "nat \<Rightarrow> real"

subsection \<open>Recording (updateTrailHistory)\<close>

definition OR_updateTrailHistory :: "vec3 \<Rightarrow> real \<Rightarrow> real \<Rightarrow> OR_state \<Rightarrow> bool \<times> OR_state" where
  "OR_updateTrailHistory newPosition dt now s =
     (let distance = distanceTo newPosition (OR_lastPosition s) in
      if distance < OR_MOVEMENT_THRESHOLD then (False, s)
      else
        let diff = subVectors newPosition (OR_lastPosition s);
            vel = (if dt > 0 then divideScalar diff dt else diff);
            pushed = \<lparr>position = newPosition, velocity = vel, timestamp = now\<rparr>
                       # OR_trailHistory s;
            limited = (if length pushed > OR_MAX_TRAIL_POINTS
                       then take OR_MAX_TRAIL_POINTS pushed else pushed)
        in (True, s\<lparr>OR_trailHistory := limited,
                     OR_lastPosition := newPosition,
                     OR_lastVelocity := vel\<rparr>))"

subsection \<open>Spawn offsets (calculateSpawnOffset)\<close>

definition spawnAngles :: "(real \<times> real) list" where
  "spawnAngles = [(pi * 1.2, 0.2), (pi * 0.8, 0.2), (pi * 0.8, - 0.15), (pi * 1.2, - 0.15)]"

text \<open>\<^verbatim>\<open>Math.atan2(y, x)\<close> on reals and \<^verbatim>\<open>THREE.MathUtils.lerp\<close>.\<close>

definition atan2 :: "real \<Rightarrow> real \<Rightarrow> real" where
  "atan2 y x =
     (if x > 0 then arctan (y / x)
      else if x < 0 then (if y \<ge> 0 then arctan (y / x) + pi else arctan (y / x) - pi)
      else if y > 0 then pi / 2
      else if y < 0 then - (pi / 2)
      else 0)"

definition lerp :: "real \<Rightarrow> real \<Rightarrow> real \<Rightarrow> real" where
  "lerp a b t = (1 - t) * a + t * b"

definition OR_calculateSpawnOffset :: "vec3 \<Rightarrow> nat \<Rightarrow> vec3" where
  "OR_calculateSpawnOffset vel ribbonIndex =
     (let (angle, height) = spawnAngles ! ribbonIndex;
          spawnDistance = OR_SPAWN_DISTANCE;
          velocityLength = vlength vel;
          velocityStrength = min (velocityLength / 0.1) 1.0;
          staticX = cos angle * spawnDistance;
          staticZ = sin angle * spawnDistance
      in if velocityLength > 0.001 then
           let velNorm = normalize vel;
               movementYaw = atan2 (vx velNorm) (vz velNorm);
               localX = cos angle * spawnDistance;
               localZ = sin angle * spawnDistance;
               rotatedX = localX * cos movementYaw - localZ * sin movementYaw;
               rotatedZ = localX * sin movementYaw + localZ * cos movementYaw;
               finalX = lerp staticX rotatedX velocityStrength;
               finalZ = lerp staticZ rotatedZ velocityStrength
           in Vector3 finalX height finalZ
         else Vector3 staticX height staticZ)"

subsection \<open>Ribbon geometry (updateRibbonGeometry)\<close>

text \<open>The state of the loop over the segments: the pooled arrays and the two counters.\<close>

record OR_cursor =
  cur_buffers :: OR_buffers
  cur_vertexCount :: nat
  cur_indexCount :: nat

definition OR_ageFade :: "real \<Rightarrow> real \<Rightarrow> trailPoint list \<Rightarrow> nat \<Rightarrow> real" where
  "OR_ageFade lifetime currentTime trail i =
     max 0 (1 - (currentTime - timestamp (trail ! i)) / lifetime)"

definition OR_progress :: "trailPoint list \<Rightarrow> nat \<Rightarrow> real" where
  "OR_progress trail i = real i / (real (length trail) - 1)"

definition OR_alpha :: "real \<Rightarrow> real \<Rightarrow> trailPoint list \<Rightarrow> nat \<Rightarrow> real" where
  "OR_alpha lifetime currentTime trail i =
     (let positionFade = max 0.1 (1 - OR_progress trail i * 0.8)
      in OR_ageFade lifetime currentTime trail i * positionFade * 0.8)"

definition OR_center :: "trailPoint list \<Rightarrow> nat \<Rightarrow> nat \<Rightarrow> vec3" where
  "OR_center trail ribbonIndex i =
     addv (position (trail ! i)) (OR_calculateSpawnOffset (velocity (trail ! i)) ribbonIndex)"

text \<open>The body of the loop, with the lifetime that divides the age as a parameter
  (\<^verbatim>\<open>updateRibbonGeometry\<close> passes the constant): a segment from point \<open>i\<close> to point
  \<open>i + 1\<close>, skipped when the age
  fade of point \<open>i\<close> is at most 0.01; otherwise four vertices, their colours and six
  indices are written at the counters, which advance by four and six.\<close>

definition OR_segmentStep :: "real \<Rightarrow> vec3 \<Rightarrow> real \<Rightarrow> trailPoint list \<Rightarrow> nat \<Rightarrow> OR_cursor \<Rightarrow> nat \<Rightarrow> OR_cursor" where
  "OR_segmentStep lifetime color currentTime trail ribbonIndex cur i =
     (if OR_ageFade lifetime currentTime trail i \<le> 0.01 then cur
      else
        let alpha = OR_alpha lifetime currentTime trail i;
            c = OR_center trail ribbonIndex i;
            c2 = OR_center trail ribbonIndex (i + 1);
            dir = normalize (subVectors c2 c);
            width = OR_RIBBON_WIDTH * 0.5 * (1 - OR_progress trail i * 0.3);
            widthX = vz dir * width;
            widthZ = - vx dir * width;
            vc = cur_vertexCount cur;
            ic = cur_indexCount cur;
            baseIndex = vc;
            tempColor = multiplyScalar color alpha;
            b = cur_buffers cur
        in \<lparr>cur_buffers =
              \<lparr>buf_positions = writeAt (buf_positions b) (vc * 3)
                 [vx c - widthX, vy c, vz c - widthZ,
                  vx c + widthX, vy c, vz c + widthZ,
                  vx c2 - widthX, vy c2, vz c2 - widthZ,
                  vx c2 + widthX, vy c2, vz c2 + widthZ],
               buf_colors = writeAt (buf_colors b) (vc * 3)
                 (xyz tempColor @ xyz tempColor @ xyz tempColor @ xyz tempColor),
               buf_indices = writeAt (buf_indices b) ic
                 (map uint16 [baseIndex, baseIndex + 1, baseIndex + 2,
                              baseIndex + 1, baseIndex + 3, baseIndex + 2])\<rparr>,
            cur_vertexCount = vc + 4,
            cur_indexCount = ic + 6\<rparr>)"

definition OR_buildRibbon :: "real \<Rightarrow> vec3 \<Rightarrow> real \<Rightarrow> trailPoint list \<Rightarrow> nat \<Rightarrow> OR_buffers \<Rightarrow> OR_cursor" where
  "OR_buildRibbon lifetime color currentTime trail ribbonIndex b =
     foldl (OR_segmentStep lifetime color currentTime trail ribbonIndex)
       \<lparr>cur_buffers = b, cur_vertexCount = 0, cur_indexCount = 0\<rparr>
       [0 ..< length trail - 1]"

text \<open>\<^verbatim>\<open>updateRibbonGeometry\<close>: nothing happens on a trail of fewer than two points;
  otherwise the loop fills the pooled arrays, the valid prefix is copied into the
  geometry of this ribbon and its draw range is set to the number of indices written, or
  to zero when no vertex was written. The frame callback calls it for the ribbon indices
  below \<open>RIBBON_COUNT\<close>, after the effect that creates one geometry for each; the model
  says nothing of an index without a corner in \<open>spawnAngles\<close> or without a geometry,
  where the JavaScript throws.\<close>

definition OR_updateRibbonGeometry :: "(nat \<Rightarrow> vec3) \<Rightarrow> real \<Rightarrow> nat \<Rightarrow> OR_state \<Rightarrow> OR_state" where
  "OR_updateRibbonGeometry materials currentTime ribbonIndex s =
     (let trail = OR_trailHistory s in
      if length trail < 2 then s
      else
        let geo = OR_ribbonGeometries s ! ribbonIndex;
            cur = OR_buildRibbon OR_TRAIL_LIFETIME (materials ribbonIndex) currentTime trail ribbonIndex
                    (OR_geometryBuffers s);
            b = cur_buffers cur;
            vc = cur_vertexCount cur;
            ic = cur_indexCount cur;
            geo' = (if vc > 0
                    then \<lparr>geo_position = writeAt (geo_position geo) 0 (take (vc * 3) (buf_positions b)),
                          geo_color = writeAt (geo_color geo) 0 (take (vc * 3) (buf_colors b)),
                          geo_index = writeAt (geo_index geo) 0 (take ic (buf_indices b)),
                          geo_drawCount = enat ic\<rparr>
                    else geo\<lparr>geo_drawCount := 0\<rparr>)
        in s\<lparr>OR_geometryBuffers := b,
             OR_ribbonGeometries := (OR_ribbonGeometries s)[ribbonIndex := geo']\<rparr>)"

subsection \<open>The frame callback and the effect\<close>

definition OR_prune :: "real \<Rightarrow> OR_state \<Rightarrow> OR_state" where
  "OR_prune currentTime s =
     s\<lparr>OR_trailHistory :=
        filter (\<lambda>point. currentTime - timestamp point < OR_TRAIL_LIFETIME) (OR_trailHistory s)\<rparr>"

definition OR_updateAll :: "(nat \<Rightarrow> vec3) \<Rightarrow> (nat \<Rightarrow> real) \<Rightarrow> OR_state \<Rightarrow> OR_state" where
  "OR_updateAll materials now s =
     foldl (\<lambda>st i. OR_updateRibbonGeometry materials (now i) i st) s [0 ..< OR_RIBBON_COUNT]"

definition OR_useFrame :: "(nat \<Rightarrow> vec3) \<Rightarrow> OR_frame \<Rightarrow> OR_state \<Rightarrow> OR_state" where
  "OR_useFrame materials f s =
     (case OR_spherePosition f of
        None \<Rightarrow> s
      | Some p \<Rightarrow>
          if \<not> OR_enabled f \<or> OR_mode f = ''off'' then s
          else if \<not> OR_isInitialized s then
            s\<lparr>OR_trailHistory := OR_trailHistory s @
                  [\<lparr>position = p, velocity = zeroVector, timestamp = OR_nowRecord f\<rparr>],
               OR_lastPosition := p,
               OR_isInitialized := True\<rparr>
          else
            let s1 = s\<lparr>OR_frameCounter := OR_frameCounter s + 1\<rparr>;
                (trailUpdated, s2) = OR_updateTrailHistory p (OR_delta f) (OR_nowRecord f) s1
            in if OR_frameCounter s2 mod OR_UPDATE_FREQUENCY = 0 \<or> trailUpdated
               then OR_updateAll materials (OR_nowBuild f) (OR_prune (OR_nowPrune f) s2)
               else s2)"


section \<open>SpeedTrails\<close>

definition ST_MAX_TRAIL_POINTS :: nat where "ST_MAX_TRAIL_POINTS = 25"
definition ST_RIBBON_COUNT :: nat where "ST_RIBBON_COUNT = 8"
definition ST_RIBBON_WIDTH :: real where "ST_RIBBON_WIDTH = 0.2"
definition ST_SPAWN_DISTANCE :: real where "ST_SPAWN_DISTANCE = 1.1"
definition ST_TRAIL_LIFETIME :: real where "ST_TRAIL_LIFETIME = 2500"

record ST_state =
  ST_trailHistory :: "trailPoint list"
  ST_lastPosition :: vec3
  ST_currentVelocity :: vec3
  ST_ribbonMeshes :: "geometry option list"

subsection \<open>Spawn points (getSpawnPoints)\<close>

text \<open>\<^verbatim>\<open>getSpawnPoints\<close>, with the vectors it hands to \<^verbatim>\<open>normalize()\<close> collected in call
  order as a second result.\<close>

definition ST_getSpawnPoints_trace :: "vec3 \<Rightarrow> vec3 \<Rightarrow> nat \<Rightarrow> vec3 list \<times> vec3 list" where
  "ST_getSpawnPoints_trace pos vel count =
     (if vlength vel < 0.001 then
        (map (\<lambda>i.
           let angle = (real i / real count) * pi * 2;
               x = cos angle * ST_SPAWN_DISTANCE;
               z = sin angle * ST_SPAWN_DISTANCE
           in addv pos (Vector3 x 0 z))
         [0 ..< count], [])
      else
        let backwardDir = negate (normalize vel);
            rightArg = crossVectors backwardDir upAxis;
            rightDir = normalize rightArg;
            upArg = crossVectors rightDir backwardDir;
            upDir = normalize upArg;
            spawnPoints =
              map (\<lambda>i.
                let angle = (real i / real count) * pi * 2;
                    radius = ST_SPAWN_DISTANCE;
                    ringOffset = addv (multiplyScalar rightDir (cos angle * radius))
                                      (multiplyScalar upDir (sin angle * radius * 0.5))
                in addv (addv pos (multiplyScalar backwardDir (radius * 0.8))) ringOffset)
              [0 ..< count]
        in (spawnPoints, [vel, rightArg, upArg]))"

definition ST_getSpawnPoints :: "vec3 \<Rightarrow> vec3 \<Rightarrow> nat \<Rightarrow> vec3 list" where
  "ST_getSpawnPoints pos vel count = fst (ST_getSpawnPoints_trace pos vel count)"

definition ST_normalized :: "vec3 \<Rightarrow> vec3 \<Rightarrow> nat \<Rightarrow> vec3 list" where
  "ST_normalized pos vel count = snd (ST_getSpawnPoints_trace pos vel count)"

subsection \<open>Ribbon geometry (updateTrailRibbons)\<close>

text \<open>A path point of SpeedTrails keeps the velocity of its trail point.\<close>

record ST_pathPoint =
  pp_position :: vec3
  pp_timestamp :: real
  pp_velocity :: vec3

definition ST_ribbonPath :: "trailPoint list \<Rightarrow> nat \<Rightarrow> ST_pathPoint list" where
  "ST_ribbonPath trail ribbonIndex =
     concat (map (\<lambda>tp.
        let spawnPoints = ST_getSpawnPoints (position tp) (velocity tp) ST_RIBBON_COUNT
        in if ribbonIndex < length spawnPoints
           then [\<lparr>pp_position = spawnPoints ! ribbonIndex,
                  pp_timestamp = timestamp tp,
                  pp_velocity = velocity tp\<rparr>]
           else [])
      trail)"

definition ST_progress :: "nat \<Rightarrow> nat \<Rightarrow> real" where
  "ST_progress n i = real i / (real n - 1)"

definition ST_alpha :: "real \<Rightarrow> ST_pathPoint list \<Rightarrow> (nat \<Rightarrow> real) \<Rightarrow> nat \<Rightarrow> real" where
  "ST_alpha lifetime path now i =
     (let progress = ST_progress (length path) i;
          age = now i - pp_timestamp (path ! i);
          ageFade = max 0 (1 - age / lifetime);
          positionFade = max 0 (1 - progress * 1.2)
      in ageFade * positionFade * 0.8)"

definition ST_direction :: "ST_pathPoint list \<Rightarrow> nat \<Rightarrow> vec3" where
  "ST_direction path i =
     (if i + 1 < length path
        then normalize (subVectors (pp_position (path ! (i + 1))) (pp_position (path ! i)))
      else if i > 0
        then normalize (subVectors (pp_position (path ! i)) (pp_position (path ! (i - 1))))
      else normalize (pp_velocity (path ! i)))"

definition ST_width :: "ST_pathPoint list \<Rightarrow> nat \<Rightarrow> vec3" where
  "ST_width path i =
     multiplyScalar (normalize (crossVectors (ST_direction path i) upAxis))
       (ST_RIBBON_WIDTH * 0.5 * (1 - ST_progress (length path) i * 0.5))"

text \<open>The body of the loop over the path, with the lifetime as a parameter
  (\<^verbatim>\<open>updateTrailRibbons\<close> passes the constant): the point is skipped when its alpha is at
  most 0.01; otherwise two vertices and their colours are pushed, and unless the point is
  the last of the path, two triangles over these two vertices and the two that follow
  them.\<close>

definition ST_pathStep :: "real \<Rightarrow> ST_pathPoint list \<Rightarrow> vec3 \<Rightarrow> (nat \<Rightarrow> real) \<Rightarrow> geometry \<Rightarrow> nat \<Rightarrow> geometry" where
  "ST_pathStep lifetime path color now g i =
     (let alpha = ST_alpha lifetime path now i in
      if alpha \<le> 0.01 then g
      else
        let p = pp_position (path ! i);
            width = ST_width path i;
            leftEdge = subVectors p width;
            rightEdge = addv p width;
            positions' = positions g @ xyz leftEdge @ xyz rightEdge;
            c = multiplyScalar color alpha;
            baseIndex = int (length positions' div 3) - 2
        in \<lparr>positions = positions',
            colors = colors g @ xyz c @ xyz c,
            indices = indices g @
              (if i + 1 < length path \<and> length positions' \<ge> 4
               then [baseIndex, baseIndex + 1, baseIndex + 2,
                     baseIndex + 1, baseIndex + 3, baseIndex + 2]
               else [])\<rparr>)"

definition ST_buildRibbon :: "real \<Rightarrow> vec3 \<Rightarrow> (nat \<Rightarrow> real) \<Rightarrow> trailPoint list \<Rightarrow> nat \<Rightarrow> geometry" where
  "ST_buildRibbon lifetime color now trail ribbonIndex =
     (let path = ST_ribbonPath trail ribbonIndex
      in foldl (ST_pathStep lifetime path color now) emptyGeometry [0 ..< length path])"

definition ST_updateTrailRibbons :: "(nat \<Rightarrow> vec3) \<Rightarrow> (nat \<Rightarrow> nat \<Rightarrow> real) \<Rightarrow> ST_state \<Rightarrow> ST_state" where
  "ST_updateTrailRibbons materials now s =
     (let trail = ST_trailHistory s in
      if length trail < 2 then s
      else s\<lparr>ST_ribbonMeshes :=
        map (\<lambda>(ribbonIndex, mesh).
          case mesh of
            None \<Rightarrow> None
          | Some old \<Rightarrow>
              let g = ST_buildRibbon ST_TRAIL_LIFETIME (materials ribbonIndex) (now ribbonIndex)
                        trail ribbonIndex
              in if length (positions g) > 0 then Some g else Some old)
        (List.enumerate 0 (ST_ribbonMeshes s))\<rparr>)"

subsection \<open>The frame callback and the effects\<close>

definition ST_record :: "vec3 \<Rightarrow> real \<Rightarrow> real \<Rightarrow> ST_state \<Rightarrow> ST_state" where
  "ST_record p dt now s =
     (let distance = distanceTo p (ST_lastPosition s) in
      if distance > 0.001 then
        let vel = (if dt > 0 then divideScalar (subVectors p (ST_lastPosition s)) dt
                   else ST_currentVelocity s);
            pushed = \<lparr>position = p, velocity = vel, timestamp = now\<rparr> # ST_trailHistory s;
            limited = (if length pushed > ST_MAX_TRAIL_POINTS
                       then take ST_MAX_TRAIL_POINTS pushed else pushed)
        in s\<lparr>ST_trailHistory := limited, ST_lastPosition := p, ST_currentVelocity := vel\<rparr>
      else s)"

definition ST_prune :: "real \<Rightarrow> ST_state \<Rightarrow> ST_state" where
  "ST_prune currentTime s =
     s\<lparr>ST_trailHistory :=
        filter (\<lambda>point. currentTime - timestamp point < ST_TRAIL_LIFETIME) (ST_trailHistory s)\<rparr>"

definition ST_useFrame :: "(nat \<Rightarrow> vec3) \<Rightarrow> frame \<Rightarrow> ST_state \<Rightarrow> ST_state" where
  "ST_useFrame materials f s =
     (case spherePosition f of
        None \<Rightarrow> s
      | Some p \<Rightarrow>
          if \<not> enabled f then s
          else ST_updateTrailRibbons materials (nowBuild f)
                 (ST_prune (nowPrune f) (ST_record p (delta f) (nowRecord f) s)))"


text \<open>The effect that runs when the \<^verbatim>\<open>spherePosition\<close> prop changes.\<close>

definition ST_initEffect :: "vec3 option \<Rightarrow> real \<Rightarrow> ST_state \<Rightarrow> ST_state" where
  "ST_initEffect sp now s =
     (case sp of
        None \<Rightarrow> s
      | Some p \<Rightarrow>
          if ST_trailHistory s = []
          then s\<lparr>ST_lastPosition := p,
                 ST_trailHistory :=
                   ST_trailHistory s @ [\<lparr>position = p, velocity = zeroVector, timestamp = now\<rparr>]\<rparr>
          else s)"

section \<open>SpeedRibbons\<close>

definition SR_MAX_TRAIL_LENGTH :: nat where "SR_MAX_TRAIL_LENGTH = 15"
definition SR_RIBBON_WIDTH :: real where "SR_RIBBON_WIDTH = 0.3"
definition SR_RIBBON_COUNT :: nat where "SR_RIBBON_COUNT = 4"
definition SR_RIBBON_OFFSET :: real where "SR_RIBBON_OFFSET = 1.2"
definition SR_MOVEMENT_THRESHOLD :: real where "SR_MOVEMENT_THRESHOLD = 0.01"
definition SR_TRAIL_LIFETIME :: real where "SR_TRAIL_LIFETIME = 4000"

text \<open>A trail point of SpeedRibbons has no velocity.\<close>

record SR_point =
  sr_position :: vec3
  sr_timestamp :: real

record SR_state =
  SR_trailHistory :: "SR_point list"
  SR_lastPosition :: vec3
  SR_geometries :: "geometry list"

definition SR_offsetX :: "nat \<Rightarrow> real" where
  "SR_offsetX i = cos ((real i / real SR_RIBBON_COUNT) * pi * 2) * SR_RIBBON_OFFSET"

definition SR_offsetZ :: "nat \<Rightarrow> real" where
  "SR_offsetZ i = sin ((real i / real SR_RIBBON_COUNT) * pi * 2) * SR_RIBBON_OFFSET"

definition SR_pointStep :: "SR_point list \<Rightarrow> vec3 \<Rightarrow> nat \<Rightarrow> geometry \<Rightarrow> nat \<Rightarrow> geometry" where
  "SR_pointStep trail color ribbonIndex g i =
     (let point = trail ! i;
          ribbonCenter = addv (sr_position point)
             (Vector3 (SR_offsetX ribbonIndex * 0.5) 0.2 (SR_offsetZ ribbonIndex * 0.5));
          direction = (if i + 1 < length trail
                       then normalize (subVectors (sr_position (trail ! (i + 1))) (sr_position point))
                       else Vector3 0 0 1);
          perpendicular = multiplyScalar (normalize (crossVectors direction upAxis))
                            (SR_RIBBON_WIDTH * 0.5);
          leftPos = subVectors ribbonCenter perpendicular;
          rightPos = addv ribbonCenter perpendicular;
          vertIndex = int (length (positions g) div 3);
          prevVertIndex = vertIndex - 2
      in \<lparr>positions = positions g @ xyz leftPos @ xyz rightPos,
          colors = colors g @ xyz color @ xyz color,
          indices = indices g @
            (if i > 0
             then [prevVertIndex, prevVertIndex + 1, vertIndex,
                   prevVertIndex + 1, vertIndex + 1, vertIndex]
             else [])\<rparr>)"

definition SR_updateRibbonGeometries :: "(nat \<Rightarrow> vec3) \<Rightarrow> SR_state \<Rightarrow> SR_state" where
  "SR_updateRibbonGeometries hslColor s =
     (let trail = SR_trailHistory s in
      if length trail < 2 then s
      else s\<lparr>SR_geometries :=
        map (\<lambda>(ribbonIndex, old).
          let g = foldl (SR_pointStep trail (hslColor ribbonIndex) ribbonIndex) emptyGeometry
                    [0 ..< length trail]
          in if length (positions g) > 0 then g else old)
        (List.enumerate 0 (SR_geometries s))\<rparr>)"

definition SR_useFrame :: "(nat \<Rightarrow> vec3) \<Rightarrow> frame \<Rightarrow> SR_state \<Rightarrow> SR_state" where
  "SR_useFrame hslColor f s =
     (case spherePosition f of
        None \<Rightarrow> s
      | Some p \<Rightarrow>
          if \<not> enabled f then s
          else
            let distance = distanceTo p (SR_lastPosition s);
                s1 = (if distance > SR_MOVEMENT_THRESHOLD then
                        let pushed = \<lparr>sr_position = p, sr_timestamp = nowRecord f\<rparr>
                                       # SR_trailHistory s;
                            limited = (if length pushed > SR_MAX_TRAIL_LENGTH
                                       then take SR_MAX_TRAIL_LENGTH pushed else pushed)
                        in s\<lparr>SR_trailHistory := limited, SR_lastPosition := p\<rparr>
                      else s);
                previousLength = length (SR_trailHistory s1);
                s2 = s1\<lparr>SR_trailHistory :=
                        filter (\<lambda>point. nowPrune f - sr_timestamp point < SR_TRAIL_LIFETIME)
                          (SR_trailHistory s1)\<rparr>;
                s3 = (if length (SR_trailHistory s2) \<ge> 1
                      then SR_updateRibbonGeometries hslColor s2 else s2)
            in if length (SR_trailHistory s3) \<noteq> previousLength \<or> distance > 0
               then SR_updateRibbonGeometries hslColor s3 else s3)"

definition SR_enabledEffect :: "bool \<Rightarrow> SR_state \<Rightarrow> SR_state" where
  "SR_enabledEffect en s =
     (if \<not> en
      then s\<lparr>SR_trailHistory := [],
             SR_geometries := map (\<lambda>_. emptyGeometry) (SR_geometries s)\<rparr>
      else s)"

section \<open>Example inputs\<close>

text \<open>Concrete trail points and component states on which the theorems below are
  instantiated: a point at rest, a white material, and for each component a state with a
  given trail, the last position at the origin and one geometry per ribbon.\<close>

definition samplePoint :: "real \<Rightarrow> real \<Rightarrow> real \<Rightarrow> real \<Rightarrow> trailPoint" where
  "samplePoint a b c t = \<lparr>position = Vector3 a b c, velocity = zeroVector, timestamp = t\<rparr>"

definition white :: vec3 where
  "white = Vector3 1 1 1"

definition PR_example :: "trailPoint list \<Rightarrow> PR_state" where
  "PR_example trail =
     \<lparr>PR_trailHistory = trail, PR_lastPosition = zeroVector, PR_lastVelocity = zeroVector,
      PR_ribbonMeshes = replicate 6 (Some emptyGeometry)\<rparr>"

definition ST_example :: "trailPoint list \<Rightarrow> ST_state" where
  "ST_example trail =
     \<lparr>ST_trailHistory = trail, ST_lastPosition = zeroVector, ST_currentVelocity = zeroVector,
      ST_ribbonMeshes = replicate 8 (Some emptyGeometry)\<rparr>"

definition SR_example :: "SR_point list \<Rightarrow> SR_state" where
  "SR_example trail =
     \<lparr>SR_trailHistory = trail, SR_lastPosition = zeroVector,
      SR_geometries = replicate 4 emptyGeometry\<rparr>"

definition OR_pool :: OR_buffers where
  "OR_pool = \<lparr>buf_positions = replicate 360 0, buf_colors = replicate 360 0,
              buf_indices = replicate 120 0\<rparr>"

definition OR_freshGeometry :: OR_geometry where
  "OR_freshGeometry = \<lparr>geo_position = replicate 360 0, geo_color = replicate 360 0,
                       geo_index = replicate 120 0, geo_drawCount = \<infinity>\<rparr>"

definition OR_example :: "trailPoint list \<Rightarrow> nat \<Rightarrow> OR_state" where
  "OR_example trail counter =
     \<lparr>OR_trailHistory = trail, OR_lastPosition = zeroVector, OR_lastVelocity = zeroVector,
      OR_frameCounter = counter, OR_isInitialized = True, OR_geometryBuffers = OR_pool,
      OR_ribbonGeometries = replicate 4 OR_freshGeometry\<rparr>"

text \<open>The scenario trail of five points from (0,0,0) to (0,0,4), one unit and 100 ms apart,
  newest first, with any velocities.\<close>

definition scenarioTrail :: "(nat \<Rightarrow> vec3) \<Rightarrow> trailPoint list" where
  "scenarioTrail vel =
     [\<lparr>position = Vector3 0 0 4, velocity = vel 0, timestamp = 400\<rparr>,
      \<lparr>position = Vector3 0 0 3, velocity = vel 1, timestamp = 300\<rparr>,
      \<lparr>position = Vector3 0 0 2, velocity = vel 2, timestamp = 200\<rparr>,
      \<lparr>position = Vector3 0 0 1, velocity = vel 3, timestamp = 100\<rparr>,
      \<lparr>position = Vector3 0 0 0, velocity = vel 4, timestamp = 0\<rparr>]"

text \<open>A trail whose second point is almost as old as the lifetime of OptimizedRibbons, a
  trail whose second point is almost as old as the lifetime of ProperRibbons, a trail of
  two points one above the other, and a trail of two points side by side.\<close>

definition staleTrail :: "trailPoint list" where
  "staleTrail = [samplePoint 0 0 2 100, samplePoint 0 0 1 0, samplePoint 0 0 0 0]"

definition fadedTrail :: "trailPoint list" where
  "fadedTrail = [samplePoint 0 0 1 2900, samplePoint 0 0 0 0]"

definition verticalTrail :: "trailPoint list" where
  "verticalTrail = [samplePoint 0 1 0 0, samplePoint 0 0 0 0]"

definition levelTrail :: "trailPoint list" where
  "levelTrail = [samplePoint 1 0 0 100, samplePoint 0 0 0 0]"

text \<open>The two vertices that ProperRibbons pushes for path point \<open>i\<close>, and vertex \<open>k\<close> of a
  flat position array.\<close>

definition PR_edgeVertices :: "(vec3 \<times> real) list \<Rightarrow> nat \<Rightarrow> real list" where
  "PR_edgeVertices path i =
     xyz (subVectors (fst (path ! i)) (PR_width path i))
     @ xyz (addv (fst (path ! i)) (PR_width path i))"

definition vertexAt :: "real list \<Rightarrow> nat \<Rightarrow> vec3" where
  "vertexAt ps k = Vector3 (ps ! (3 * k)) (ps ! (3 * k + 1)) (ps ! (3 * k + 2))"

text \<open>The number of segments that a rebuild of OptimizedRibbons at time \<open>t\<close> writes for a
  trail: the points but the last whose age fade exceeds 0.01. Six indices go with each.\<close>

definition OR_segments :: "real \<Rightarrow> trailPoint list \<Rightarrow> nat" where
  "OR_segments t trail =
     length (filter (\<lambda>i. 0.01 < OR_ageFade OR_TRAIL_LIFETIME t trail i) [0 ..< length trail - 1])"

text \<open>What OptimizedRibbons writes for the segment from point \<open>i\<close> to point \<open>i + 1\<close>: the
  four vertices (the left and the right edge at the centre of point \<open>i\<close>, then at the centre
  of point \<open>i + 1\<close>), the colour of the four vertices, and for the \<open>k\<close>-th segment written the
  six indices of its two triangles.\<close>

definition OR_segmentVertices :: "trailPoint list \<Rightarrow> nat \<Rightarrow> nat \<Rightarrow> real list" where
  "OR_segmentVertices trail ribbonIndex i =
     (let c = OR_center trail ribbonIndex i;
          c2 = OR_center trail ribbonIndex (i + 1);
          dir = normalize (subVectors c2 c);
          width = OR_RIBBON_WIDTH * 0.5 * (1 - OR_progress trail i * 0.3);
          widthX = vz dir * width;
          widthZ = - vx dir * width
      in [vx c - widthX, vy c, vz c - widthZ,
          vx c + widthX, vy c, vz c + widthZ,
          vx c2 - widthX, vy c2, vz c2 - widthZ,
          vx c2 + widthX, vy c2, vz c2 + widthZ])"

definition OR_segmentColors :: "vec3 \<Rightarrow> real \<Rightarrow> real list" where
  "OR_segmentColors color alpha =
     (let tempColor = multiplyScalar color alpha
      in xyz tempColor @ xyz tempColor @ xyz tempColor @ xyz tempColor)"

definition OR_segmentIndices :: "nat \<Rightarrow> nat list" where
  "OR_segmentIndices k =
     map uint16 [4 * k, 4 * k + 1, 4 * k + 2, 4 * k + 1, 4 * k + 3, 4 * k + 2]"

text \<open>A frame of OptimizedRibbons with the sphere at \<open>p\<close> and every clock reading \<open>t\<close>.\<close>

definition OR_frameAt :: "vec3 \<Rightarrow> real \<Rightarrow> OR_frame" where
  "OR_frameAt p t =
     \<lparr>OR_enabled = True, OR_mode = ''both'', OR_spherePosition = Some p, OR_delta = 0.016,
      OR_nowRecord = t, OR_nowPrune = t, OR_nowBuild = (\<lambda>_. t)\<rparr>"

text \<open>Frames of the components that read \<^verbatim>\<open>Date.now()\<close>, with the sphere at \<open>p\<close> and every
  clock reading \<open>t\<close>, enabled or disabled, and the velocity that the recording branches of
  ProperRibbons and SpeedTrails and \<^verbatim>\<open>updateTrailHistory\<close> of OptimizedRibbons store
  with a new point.\<close>

definition frameAt :: "vec3 \<Rightarrow> real \<Rightarrow> frame" where
  "frameAt p t =
     \<lparr>enabled = True, spherePosition = Some p, delta = 0.016,
      nowRecord = t, nowPrune = t, nowBuild = (\<lambda>_ _. t)\<rparr>"

definition PR_velocity :: "vec3 \<Rightarrow> real \<Rightarrow> PR_state \<Rightarrow> vec3" where
  "PR_velocity p dt s =
     (if dt > 0 then divideScalar (subVectors p (PR_lastPosition s)) dt else zeroVector)"





text \<open>The invariant of a trail buffer at time \<open>now\<close>: at most \<open>maxLen\<close> points, every
  point younger than the lifetime, and the timestamps in order with the newest point at
  the front. \<open>trailBefore\<close> is the part of it that holds between frames: the bound on the
  length, the order of the timestamps, and no timestamp later than the clock.\<close>

definition newestFirst :: "('a \<Rightarrow> real) \<Rightarrow> 'a list \<Rightarrow> bool" where
  "newestFirst ts trail = sorted_wrt (\<lambda>a b. ts b \<le> ts a) trail"

definition trailInvariant :: "('a \<Rightarrow> real) \<Rightarrow> nat \<Rightarrow> real \<Rightarrow> real \<Rightarrow> 'a list \<Rightarrow> bool" where
  "trailInvariant ts maxLen lifetime now trail \<longleftrightarrow>
     length trail \<le> maxLen \<and> (\<forall>pt \<in> set trail. now - ts pt < lifetime) \<and> newestFirst ts trail"

definition trailBefore :: "('a \<Rightarrow> real) \<Rightarrow> nat \<Rightarrow> real \<Rightarrow> 'a list \<Rightarrow> bool" where
  "trailBefore ts maxLen t trail \<longleftrightarrow>
     length trail \<le> maxLen \<and> (\<forall>pt \<in> set trail. ts pt \<le> t) \<and> newestFirst ts trail"

text \<open>The clock does not run backwards: in a sequence of frames each reading for the
  timestamp of a new point is not before the last reading, and the reading for the
  pruning filter of a frame is not before its reading for the timestamp.\<close>

fun ordered :: "real \<Rightarrow> (real \<times> real) list \<Rightarrow> bool" where
  "ordered t [] = True"
| "ordered t ((r, p) # cs) = (t \<le> r \<and> r \<le> p \<and> ordered p cs)"

definition clockOrdered :: "real \<Rightarrow> frame list \<Rightarrow> bool" where
  "clockOrdered t fs = ordered t (map (\<lambda>f. (nowRecord f, nowPrune f)) fs)"

definition OR_clockOrdered :: "real \<Rightarrow> OR_frame list \<Rightarrow> bool" where
  "OR_clockOrdered t fs = ordered t (map (\<lambda>f. (OR_nowRecord f, OR_nowPrune f)) fs)"

text \<open>A frame on which the callback of ProperRibbons, SpeedTrails or SpeedRibbons does
  not return at once, and the state after a sequence of frames.\<close>

definition running :: "frame \<Rightarrow> bool" where
  "running f \<longleftrightarrow> enabled f \<and> spherePosition f \<noteq> None"

definition PR_frames :: "(nat \<Rightarrow> vec3) \<Rightarrow> frame list \<Rightarrow> PR_state \<Rightarrow> PR_state" where
  "PR_frames m fs s = foldl (\<lambda>st f. PR_useFrame m f st) s fs"

definition ST_frames :: "(nat \<Rightarrow> vec3) \<Rightarrow> frame list \<Rightarrow> ST_state \<Rightarrow> ST_state" where
  "ST_frames m fs s = foldl (\<lambda>st f. ST_useFrame m f st) s fs"

definition SR_frames :: "(nat \<Rightarrow> vec3) \<Rightarrow> frame list \<Rightarrow> SR_state \<Rightarrow> SR_state" where
  "SR_frames m fs s = foldl (\<lambda>st f. SR_useFrame m f st) s fs"

definition OR_frames :: "(nat \<Rightarrow> vec3) \<Rightarrow> OR_frame list \<Rightarrow> OR_state \<Rightarrow> OR_state" where
  "OR_frames m fs s = foldl (\<lambda>st f. OR_useFrame m f st) s fs"

text \<open>The frames on which the callback of OptimizedRibbons reaches its pruning filter: it
  runs on an initialised state, and the frame counter becomes a multiple of 3 or the
  position is stored.\<close>

definition OR_prunes :: "OR_frame \<Rightarrow> OR_state \<Rightarrow> bool" where
  "OR_prunes f s \<longleftrightarrow>
     OR_enabled f \<and> OR_mode f \<noteq> ''off'' \<and> OR_isInitialized s
     \<and> (case OR_spherePosition f of
          None \<Rightarrow> False
        | Some p \<Rightarrow> (OR_frameCounter s + 1) mod OR_UPDATE_FREQUENCY = 0
                    \<or> OR_MOVEMENT_THRESHOLD \<le> distanceTo p (OR_lastPosition s))"

text \<open>What holds of OptimizedRibbons between frames: \<open>trailBefore\<close>, and an empty trail
  as long as the first frame has not initialised it.\<close>

definition OR_inv :: "real \<Rightarrow> OR_state \<Rightarrow> bool" where
  "OR_inv t s \<longleftrightarrow>
     trailBefore timestamp OR_MAX_TRAIL_POINTS t (OR_trailHistory s)
     \<and> (\<not> OR_isInitialized s \<longrightarrow> OR_trailHistory s = [])"

text \<open>Two frames a unit and 100 ms apart.\<close>

definition twoFrames :: "frame list" where
  "twoFrames = [frameAt (Vector3 1 0 0) 100, frameAt (Vector3 2 0 0) 200]"

definition OR_twoFrames :: "OR_frame list" where
  "OR_twoFrames = [OR_frameAt (Vector3 1 0 0) 100, OR_frameAt (Vector3 2 0 0) 200]"

section \<open>Shared lemmas\<close>

lemma vlength_zeroVector: "vlength zeroVector = 0"
  by (simp add: vlength_def zeroVector_def)

lemma vlength_x_axis: "vlength (Vector3 a 0 0) = \<bar>a\<bar>"
  by (simp add: vlength_def)

lemma vlength_y_axis: "vlength (Vector3 0 a 0) = \<bar>a\<bar>"
  by (simp add: vlength_def)

lemma upt_0_4: "[0 ..< 4] = [0, 1, 2, 3]"
  by (simp add: upt_rec)

lemma upt_0_5: "[0 ..< 5] = [0, 1, 2, 3, 4]"
  by (simp add: upt_rec)

subsection \<open>Lengths of vectors and writes into typed arrays\<close>

lemma vlength_nonneg: "0 \<le> vlength v"
  by (simp add: vlength_def)

lemma vlength_eq_0_iff: "vlength v = 0 \<longleftrightarrow> v = zeroVector"
proof -
  have "vx v * vx v + vy v * vy v + vz v * vz v = 0 \<longleftrightarrow> vx v = 0 \<and> vy v = 0 \<and> vz v = 0"
    by (smt (verit) mult_eq_0_iff zero_le_square add_nonneg_eq_0_iff add_nonneg_nonneg)
  then show ?thesis
    by (cases v) (simp add: vlength_def zeroVector_def)
qed

lemma vlength_multiplyScalar: "vlength (multiplyScalar v s) = \<bar>s\<bar> * vlength v"
proof -
  have "vx v * s * (vx v * s) + vy v * s * (vy v * s) + vz v * s * (vz v * s)
        = (s * s) * (vx v * vx v + vy v * vy v + vz v * vz v)"
    by (simp add: algebra_simps)
  then show ?thesis
    by (simp add: vlength_def multiplyScalar_def real_sqrt_mult)
qed

lemma vlength_normalize: "v \<noteq> zeroVector \<Longrightarrow> vlength (normalize v) = 1"
  using vlength_nonneg [of v]
  by (simp add: normalize_def divideScalar_def vlength_multiplyScalar vlength_eq_0_iff)

lemma distanceTo_edges: "distanceTo (subVectors p w) (addv p w) = 2 * vlength w"
proof -
  have "subVectors (subVectors p w) (addv p w) = multiplyScalar w (- 2)"
    by (simp add: subVectors_def addv_def multiplyScalar_def)
  then show ?thesis
    by (simp add: distanceTo_def vlength_multiplyScalar)
qed

lemma length_writeAt [simp]: "length (writeAt xs k vs) = length xs"
  by (induction vs arbitrary: xs k) simp_all

lemma nth_writeAt:
  "j < length xs \<Longrightarrow>
   writeAt xs k vs ! j = (if k \<le> j \<and> j < k + length vs then vs ! (j - k) else xs ! j)"
proof (induction vs arbitrary: xs k)
  case Nil
  then show ?case by auto
next
  case (Cons v vs)
  show ?case
  proof (cases "j = k")
    case True
    with Cons show ?thesis by simp
  next
    case False
    with Cons show ?thesis by (auto simp: nth_Cons' Suc_diff_le)
  qed
qed

lemma take_writeAt:
  "length vs \<le> length xs \<Longrightarrow> take (length vs) (writeAt xs 0 vs) = vs"
  by (rule nth_equalityI) (simp_all add: nth_writeAt)

lemma take_writeAt_eq:
  "n = length vs \<Longrightarrow> n \<le> length xs \<Longrightarrow> take n (writeAt xs 0 vs) = vs"
  using take_writeAt [of vs xs] by simp

lemma take_writeAt_append:
  "n = k + length vs \<Longrightarrow> n \<le> length xs \<Longrightarrow> take n (writeAt xs k vs) = take k xs @ vs"
  by (rule nth_equalityI) (auto simp: nth_writeAt nth_append)

lemma drop_writeAt:
  "n = k + length vs \<Longrightarrow> drop n (writeAt xs k vs) = drop n xs"
  by (rule nth_equalityI) (auto simp: nth_writeAt)

subsection \<open>What the loops emit\<close>

lemma PR_fold_positions:
  "positions (foldl (PR_pathStep L path c now) g xs)
     = positions g @ concat (map (PR_edgeVertices path)
                               (filter (\<lambda>i. 0.01 \<le> PR_alpha L path now i) xs))"
  by (induction xs arbitrary: g)
     (simp_all add: PR_pathStep_def Let_def PR_edgeVertices_def not_less)

lemma PR_edgeVertices_length: "length (PR_edgeVertices path i) = 6"
  by (simp add: PR_edgeVertices_def xyz_def)

lemma length_concat_edgeVertices:
  "length (concat (map (PR_edgeVertices path) xs)) = 6 * length xs"
  by (induction xs) (simp_all add: PR_edgeVertices_length)

lemma PR_buildRibbon_positions:
  "positions (PR_buildRibbon L c now trail r)
     = concat (map (PR_edgeVertices (PR_ribbonPath trail r))
         (filter (\<lambda>i. 0.01 \<le> PR_alpha L (PR_ribbonPath trail r) now i)
            [0 ..< length (PR_ribbonPath trail r)]))"
  by (simp add: PR_buildRibbon_def Let_def PR_fold_positions emptyGeometry_def)

lemma PR_getBackSpawnPoints_length: "length (PR_getBackSpawnPoints p v) = PR_RIBBON_COUNT"
  by (simp add: PR_getBackSpawnPoints_def PR_getBackSpawnPoints_trace_def Let_def)

lemma PR_ribbonPath_length:
  "r < PR_RIBBON_COUNT \<Longrightarrow> length (PR_ribbonPath trail r) = length trail"
  by (induction trail) (simp_all add: PR_ribbonPath_def PR_getBackSpawnPoints_length Let_def)

lemma PR_ribbonPath_map:
  "r < PR_RIBBON_COUNT \<Longrightarrow> PR_ribbonPath trail r
     = map (\<lambda>tp. (PR_getBackSpawnPoints (position tp) (velocity tp) ! r, timestamp tp)) trail"
  by (induction trail) (simp_all add: PR_ribbonPath_def PR_getBackSpawnPoints_length Let_def)

lemma OR_fold_counts:
  "cur_vertexCount (foldl (OR_segmentStep L c t trail r) cur xs)
     = cur_vertexCount cur + 4 * length (filter (\<lambda>i. 0.01 < OR_ageFade L t trail i) xs)
   \<and> cur_indexCount (foldl (OR_segmentStep L c t trail r) cur xs)
     = cur_indexCount cur + 6 * length (filter (\<lambda>i. 0.01 < OR_ageFade L t trail i) xs)"
  by (induction xs arbitrary: cur) (simp_all add: OR_segmentStep_def Let_def not_le)

lemma OR_buildRibbon_counts:
  "cur_vertexCount (OR_buildRibbon L c t trail r b)
     = 4 * length (filter (\<lambda>i. 0.01 < OR_ageFade L t trail i) [0 ..< length trail - 1])"
  "cur_indexCount (OR_buildRibbon L c t trail r b)
     = 6 * length (filter (\<lambda>i. 0.01 < OR_ageFade L t trail i) [0 ..< length trail - 1])"
  by (simp_all add: OR_buildRibbon_def OR_fold_counts)

lemma length_concat_segmentVertices:
  "length (concat (map (OR_segmentVertices trail r) xs)) = 12 * length xs"
  by (induction xs) (simp_all add: OR_segmentVertices_def Let_def)

lemma length_concat_segmentColors:
  "length (concat (map (\<lambda>i. OR_segmentColors c (f i)) xs)) = 12 * length xs"
  by (induction xs) (simp_all add: OR_segmentColors_def Let_def xyz_def)

lemma length_concat_segmentIndices:
  "length (concat (map OR_segmentIndices xs)) = 6 * length xs"
  by (induction xs) (simp_all add: OR_segmentIndices_def)

lemma OR_segmentVertices_length: "length (OR_segmentVertices trail r i) = 12"
  by (simp add: OR_segmentVertices_def Let_def)

lemma OR_segmentColors_length: "length (OR_segmentColors c a) = 12"
  by (simp add: OR_segmentColors_def Let_def xyz_def)

lemma OR_segmentIndices_length: "length (OR_segmentIndices k) = 6"
  by (simp add: OR_segmentIndices_def)

lemma OR_segmentStep_skip:
  "\<not> 0.01 < OR_ageFade L t trail i \<Longrightarrow> OR_segmentStep L c t trail r cur i = cur"
  by (simp add: OR_segmentStep_def not_less)

lemma OR_segmentStep_write:
  assumes "0.01 < OR_ageFade L t trail i" and "cur_vertexCount cur = 4 * k"
    and "cur_indexCount cur = 6 * k"
  shows "OR_segmentStep L c t trail r cur i =
     \<lparr>cur_buffers =
        \<lparr>buf_positions = writeAt (buf_positions (cur_buffers cur)) (12 * k)
                            (OR_segmentVertices trail r i),
         buf_colors = writeAt (buf_colors (cur_buffers cur)) (12 * k)
                            (OR_segmentColors c (OR_alpha L t trail i)),
         buf_indices = writeAt (buf_indices (cur_buffers cur)) (6 * k) (OR_segmentIndices k)\<rparr>,
      cur_vertexCount = 4 * (k + 1), cur_indexCount = 6 * (k + 1)\<rparr>"
  using assms
  by (simp add: OR_segmentStep_def Let_def OR_segmentVertices_def OR_segmentColors_def
      OR_segmentIndices_def not_le del: writeAt.simps)


lemma OR_fold_buffers:
  fixes L :: real and c :: vec3 and t :: real and trail :: "trailPoint list" and r :: nat
  defines "P \<equiv> \<lambda>i. 0.01 < OR_ageFade L t trail i"
  assumes "cur_vertexCount cur = 4 * k" and "cur_indexCount cur = 6 * k"
    and "12 * (k + length (filter P xs)) \<le> length (buf_positions (cur_buffers cur))"
    and "12 * (k + length (filter P xs)) \<le> length (buf_colors (cur_buffers cur))"
    and "6 * (k + length (filter P xs)) \<le> length (buf_indices (cur_buffers cur))"
  shows "take (12 * (k + length (filter P xs)))
           (buf_positions (cur_buffers (foldl (OR_segmentStep L c t trail r) cur xs)))
         = take (12 * k) (buf_positions (cur_buffers cur))
           @ concat (map (OR_segmentVertices trail r) (filter P xs))"
    and "take (12 * (k + length (filter P xs)))
           (buf_colors (cur_buffers (foldl (OR_segmentStep L c t trail r) cur xs)))
         = take (12 * k) (buf_colors (cur_buffers cur))
           @ concat (map (\<lambda>i. OR_segmentColors c (OR_alpha L t trail i)) (filter P xs))"
    and "take (6 * (k + length (filter P xs)))
           (buf_indices (cur_buffers (foldl (OR_segmentStep L c t trail r) cur xs)))
         = take (6 * k) (buf_indices (cur_buffers cur))
           @ concat (map OR_segmentIndices [k ..< k + length (filter P xs)])"
  using assms(2-)
proof (induction xs arbitrary: cur k)
  case Nil
  {
    case 1 show ?case by simp
  next
    case 2 show ?case by simp
  next
    case 3 show ?case by simp
  }
next
  case (Cons x xs)
  {
    case 1
    show ?case
    proof (cases "P x")
      case False
      then have st: "OR_segmentStep L c t trail r cur x = cur"
        unfolding P_def by (rule OR_segmentStep_skip)
      show ?thesis using Cons.IH(1) [of cur k] 1 False by (simp add: st)
    next
      case True
      let ?cur = "OR_segmentStep L c t trail r cur x"
      have st: "?cur =
         \<lparr>cur_buffers =
            \<lparr>buf_positions = writeAt (buf_positions (cur_buffers cur)) (12 * k)
                                (OR_segmentVertices trail r x),
             buf_colors = writeAt (buf_colors (cur_buffers cur)) (12 * k)
                                (OR_segmentColors c (OR_alpha L t trail x)),
             buf_indices = writeAt (buf_indices (cur_buffers cur)) (6 * k) (OR_segmentIndices k)\<rparr>,
          cur_vertexCount = 4 * (k + 1), cur_indexCount = 6 * (k + 1)\<rparr>"
        using True 1(1,2) unfolding P_def by (rule OR_segmentStep_write)
      have n: "length (filter P (x # xs)) = Suc (length (filter P xs))" using True by simp
      have ih: "take (12 * (k + 1 + length (filter P xs)))
           (buf_positions (cur_buffers (foldl (OR_segmentStep L c t trail r) ?cur xs)))
         = take (12 * (k + 1)) (buf_positions (cur_buffers ?cur))
           @ concat (map (OR_segmentVertices trail r) (filter P xs))"
        by (rule Cons.IH(1)) (use 1 n in \<open>simp_all add: st\<close>)
      have w: "take (12 * (k + 1)) (buf_positions (cur_buffers ?cur))
                 = take (12 * k) (buf_positions (cur_buffers cur)) @ OR_segmentVertices trail r x"
        using 1(3) n by (simp add: st take_writeAt_append OR_segmentVertices_length)
      show ?thesis using ih w True n by simp
    qed
  next
    case 2
    show ?case
    proof (cases "P x")
      case False
      then have st: "OR_segmentStep L c t trail r cur x = cur"
        unfolding P_def by (rule OR_segmentStep_skip)
      show ?thesis using Cons.IH(2) [of cur k] 2 False by (simp add: st)
    next
      case True
      let ?cur = "OR_segmentStep L c t trail r cur x"
      have st: "?cur =
         \<lparr>cur_buffers =
            \<lparr>buf_positions = writeAt (buf_positions (cur_buffers cur)) (12 * k)
                                (OR_segmentVertices trail r x),
             buf_colors = writeAt (buf_colors (cur_buffers cur)) (12 * k)
                                (OR_segmentColors c (OR_alpha L t trail x)),
             buf_indices = writeAt (buf_indices (cur_buffers cur)) (6 * k) (OR_segmentIndices k)\<rparr>,
          cur_vertexCount = 4 * (k + 1), cur_indexCount = 6 * (k + 1)\<rparr>"
        using True 2(1,2) unfolding P_def by (rule OR_segmentStep_write)
      have n: "length (filter P (x # xs)) = Suc (length (filter P xs))" using True by simp
      have ih: "take (12 * (k + 1 + length (filter P xs)))
           (buf_colors (cur_buffers (foldl (OR_segmentStep L c t trail r) ?cur xs)))
         = take (12 * (k + 1)) (buf_colors (cur_buffers ?cur))
           @ concat (map (\<lambda>i. OR_segmentColors c (OR_alpha L t trail i)) (filter P xs))"
        by (rule Cons.IH(2)) (use 2 n in \<open>simp_all add: st\<close>)
      have w: "take (12 * (k + 1)) (buf_colors (cur_buffers ?cur))
                 = take (12 * k) (buf_colors (cur_buffers cur))
                   @ OR_segmentColors c (OR_alpha L t trail x)"
        using 2(4) n by (simp add: st take_writeAt_append OR_segmentColors_length)
      show ?thesis using ih w True n by simp
    qed
  next
    case 3
    show ?case
    proof (cases "P x")
      case False
      then have st: "OR_segmentStep L c t trail r cur x = cur"
        unfolding P_def by (rule OR_segmentStep_skip)
      show ?thesis using Cons.IH(3) [of cur k] 3 False by (simp add: st)
    next
      case True
      let ?cur = "OR_segmentStep L c t trail r cur x"
      have st: "?cur =
         \<lparr>cur_buffers =
            \<lparr>buf_positions = writeAt (buf_positions (cur_buffers cur)) (12 * k)
                                (OR_segmentVertices trail r x),
             buf_colors = writeAt (buf_colors (cur_buffers cur)) (12 * k)
                                (OR_segmentColors c (OR_alpha L t trail x)),
             buf_indices = writeAt (buf_indices (cur_buffers cur)) (6 * k) (OR_segmentIndices k)\<rparr>,
          cur_vertexCount = 4 * (k + 1), cur_indexCount = 6 * (k + 1)\<rparr>"
        using True 3(1,2) unfolding P_def by (rule OR_segmentStep_write)
      have n: "length (filter P (x # xs)) = Suc (length (filter P xs))" using True by simp
      have ih: "take (6 * (k + 1 + length (filter P xs)))
           (buf_indices (cur_buffers (foldl (OR_segmentStep L c t trail r) ?cur xs)))
         = take (6 * (k + 1)) (buf_indices (cur_buffers ?cur))
           @ concat (map OR_segmentIndices [k + 1 ..< k + 1 + length (filter P xs)])"
        by (rule Cons.IH(3)) (use 3 n in \<open>simp_all add: st\<close>)
      have w: "take (6 * (k + 1)) (buf_indices (cur_buffers ?cur))
                 = take (6 * k) (buf_indices (cur_buffers cur)) @ OR_segmentIndices k"
        using 3(5) n by (simp add: st take_writeAt_append OR_segmentIndices_length)
      have u: "[k ..< k + length (filter P (x # xs))]
                 = k # [k + 1 ..< k + 1 + length (filter P xs)]"
        using n by (simp add: upt_rec)
      show ?thesis using ih w True n unfolding u by simp
    qed
  }
qed

lemma OR_buildRibbon_buffers:
  fixes trail :: "trailPoint list" and L t :: real
  defines "kept \<equiv> filter (\<lambda>i. 0.01 < OR_ageFade L t trail i) [0 ..< length trail - 1]"
  assumes "12 * length kept \<le> length (buf_positions b)"
    and "12 * length kept \<le> length (buf_colors b)"
    and "6 * length kept \<le> length (buf_indices b)"
  shows "take (12 * length kept) (buf_positions (cur_buffers (OR_buildRibbon L c t trail r b)))
           = concat (map (OR_segmentVertices trail r) kept)"
    and "take (12 * length kept) (buf_colors (cur_buffers (OR_buildRibbon L c t trail r b)))
           = concat (map (\<lambda>i. OR_segmentColors c (OR_alpha L t trail i)) kept)"
    and "take (6 * length kept) (buf_indices (cur_buffers (OR_buildRibbon L c t trail r b)))
           = concat (map OR_segmentIndices [0 ..< length kept])"
  using OR_fold_buffers [where k = 0 and L = L and t = t and trail = trail and c = c and r = r
      and cur = "\<lparr>cur_buffers = b, cur_vertexCount = 0, cur_indexCount = 0\<rparr>"
      and xs = "[0 ..< length trail - 1]"] assms(2-)
  unfolding kept_def OR_buildRibbon_def by simp_all

lemma OR_updateRibbonGeometry_contents:
  fixes s :: OR_state and t :: real and r :: nat and m :: "nat \<Rightarrow> vec3"
  defines "trail \<equiv> OR_trailHistory s"
  defines "kept \<equiv> filter (\<lambda>i. 0.01 < OR_ageFade OR_TRAIL_LIFETIME t trail i) [0 ..< length trail - 1]"
  defines "old \<equiv> OR_ribbonGeometries s ! r"
  defines "g \<equiv> OR_ribbonGeometries (OR_updateRibbonGeometry m t r s) ! r"
  assumes two: "2 \<le> length trail" and r: "r < length (OR_ribbonGeometries s)"
    and some: "kept \<noteq> []"
    and pool: "12 * length kept \<le> length (buf_positions (OR_geometryBuffers s))"
      "12 * length kept \<le> length (buf_colors (OR_geometryBuffers s))"
      "6 * length kept \<le> length (buf_indices (OR_geometryBuffers s))"
    and room: "12 * length kept \<le> length (geo_position old)"
      "12 * length kept \<le> length (geo_color old)"
      "6 * length kept \<le> length (geo_index old)"
  shows "geo_drawCount g = enat (6 * length kept)"
    and "take (12 * length kept) (geo_position g) = concat (map (OR_segmentVertices trail r) kept)"
    and "drop (12 * length kept) (geo_position g) = drop (12 * length kept) (geo_position old)"
    and "take (12 * length kept) (geo_color g)
           = concat (map (\<lambda>i. OR_segmentColors (m r) (OR_alpha OR_TRAIL_LIFETIME t trail i)) kept)"
    and "take (6 * length kept) (geo_index g) = concat (map OR_segmentIndices [0 ..< length kept])"
    and "drop (6 * length kept) (geo_index g) = drop (6 * length kept) (geo_index old)"
proof -
  let ?cur = "OR_buildRibbon OR_TRAIL_LIFETIME (m r) t trail r (OR_geometryBuffers s)"
  let ?b = "cur_buffers ?cur"
  have vc: "cur_vertexCount ?cur = 4 * length kept" and ic: "cur_indexCount ?cur = 6 * length kept"
    unfolding kept_def by (simp_all add: OR_buildRibbon_counts)
  have pos: "0 < cur_vertexCount ?cur" using some vc by simp
  have g: "g = \<lparr>geo_position = writeAt (geo_position old) 0 (take (12 * length kept) (buf_positions ?b)),
                geo_color = writeAt (geo_color old) 0 (take (12 * length kept) (buf_colors ?b)),
                geo_index = writeAt (geo_index old) 0 (take (6 * length kept) (buf_indices ?b)),
                geo_drawCount = enat (6 * length kept)\<rparr>"
    using two r pos unfolding g_def old_def trail_def
    by (simp add: OR_updateRibbonGeometry_def Let_def vc [unfolded trail_def] ic [unfolded trail_def]
        del: writeAt.simps)
  note bufs = OR_buildRibbon_buffers [where L = OR_TRAIL_LIFETIME and t = t and trail = trail
      and b = "OR_geometryBuffers s" and c = "m r" and r = r, folded kept_def, OF pool]
  show "geo_drawCount g = enat (6 * length kept)" by (simp add: g)
  show "take (12 * length kept) (geo_position g) = concat (map (OR_segmentVertices trail r) kept)"
    unfolding g bufs(1) using room(1)
    by (simp add: take_writeAt_eq length_concat_segmentVertices del: writeAt.simps)
  show "drop (12 * length kept) (geo_position g) = drop (12 * length kept) (geo_position old)"
    unfolding g bufs(1)
    by (simp add: drop_writeAt length_concat_segmentVertices del: writeAt.simps)
  show "take (12 * length kept) (geo_color g)
           = concat (map (\<lambda>i. OR_segmentColors (m r) (OR_alpha OR_TRAIL_LIFETIME t trail i)) kept)"
    unfolding g bufs(2) using room(2)
    by (simp add: take_writeAt_eq length_concat_segmentColors del: writeAt.simps)
  show "take (6 * length kept) (geo_index g) = concat (map OR_segmentIndices [0 ..< length kept])"
    unfolding g bufs(3) using room(3)
    by (simp add: take_writeAt_eq length_concat_segmentIndices del: writeAt.simps)
  show "drop (6 * length kept) (geo_index g) = drop (6 * length kept) (geo_index old)"
    unfolding g bufs(3)
    by (simp add: drop_writeAt length_concat_segmentIndices del: writeAt.simps)
qed

section \<open>Recording threshold\<close>

text \<open>
  C3, as stated, at OptimizedRibbons: \<^verbatim>\<open>updateTrailHistory\<close> returns early only when the
  distance is strictly below the threshold. At a distance of exactly 0.03 from the last
  recorded position the claim demands a no-op, and the code stores the point and moves the
  last recorded position.
\<close>

theorem C3_counterexample:
  "distanceTo (Vector3 0.03 0 0) (OR_lastPosition (OR_example [] 0)) \<le> OR_MOVEMENT_THRESHOLD
   \<and> OR_trailHistory (snd (OR_updateTrailHistory (Vector3 0.03 0 0) 1 5 (OR_example [] 0)))
       = [\<lparr>position = Vector3 0.03 0 0, velocity = Vector3 0.03 0 0, timestamp = 5\<rparr>]
   \<and> OR_lastPosition (snd (OR_updateTrailHistory (Vector3 0.03 0 0) 1 5 (OR_example [] 0)))
       = Vector3 0.03 0 0"
  by (simp add: OR_updateTrailHistory_def OR_example_def distanceTo_def subVectors_def
      zeroVector_def vlength_x_axis OR_MOVEMENT_THRESHOLD_def OR_MAX_TRAIL_POINTS_def
      divideScalar_def multiplyScalar_def Let_def)

text \<open>
  C3, amended. In ProperRibbons the recording branch of the frame callback changes nothing
  when the distance to the last recorded position is at most 0.02, and when the distance
  exceeds 0.02 it puts the new point at the front of the trail (cut to 15 points) and
  moves the last recorded position. In OptimizedRibbons \<^verbatim>\<open>updateTrailHistory\<close> changes
  nothing and returns false when the distance is below 0.03, and when the distance is at
  least 0.03 it returns true, puts the new point at the front (cut to 20 points) and moves
  the last recorded position.
\<close>

theorem C3_record_threshold:
  "(distanceTo p1 (PR_lastPosition ps1) \<le> PR_MOVEMENT_THRESHOLD
      \<longrightarrow> PR_record p1 dt1 t1 ps1 = ps1)
   \<and> (distanceTo p2 (PR_lastPosition ps2) > PR_MOVEMENT_THRESHOLD
      \<longrightarrow> PR_trailHistory (PR_record p2 dt2 t2 ps2)
            = take PR_MAX_TRAIL_LENGTH
                (\<lparr>position = p2,
                  velocity = (if dt2 > 0 then divideScalar (subVectors p2 (PR_lastPosition ps2)) dt2
                              else zeroVector),
                  timestamp = t2\<rparr> # PR_trailHistory ps2)
          \<and> PR_lastPosition (PR_record p2 dt2 t2 ps2) = p2)
   \<and> (distanceTo q1 (OR_lastPosition os1) < OR_MOVEMENT_THRESHOLD
      \<longrightarrow> OR_updateTrailHistory q1 du1 u1 os1 = (False, os1))
   \<and> (distanceTo q2 (OR_lastPosition os2) \<ge> OR_MOVEMENT_THRESHOLD
      \<longrightarrow> fst (OR_updateTrailHistory q2 du2 u2 os2)
          \<and> OR_trailHistory (snd (OR_updateTrailHistory q2 du2 u2 os2))
            = take OR_MAX_TRAIL_POINTS
                (\<lparr>position = q2,
                  velocity = (if du2 > 0 then divideScalar (subVectors q2 (OR_lastPosition os2)) du2
                              else subVectors q2 (OR_lastPosition os2)),
                  timestamp = u2\<rparr> # OR_trailHistory os2)
          \<and> OR_lastPosition (snd (OR_updateTrailHistory q2 du2 u2 os2)) = q2)"
  by (simp add: PR_record_def OR_updateTrailHistory_def Let_def not_less)

theorem C3_record_threshold_witness:
  "distanceTo (Vector3 0.02 0 0) (PR_lastPosition (PR_example [])) \<le> PR_MOVEMENT_THRESHOLD
   \<and> PR_record (Vector3 0.02 0 0) 1 5 (PR_example []) = PR_example []
   \<and> distanceTo (Vector3 1 0 0) (PR_lastPosition (PR_example [])) > PR_MOVEMENT_THRESHOLD
   \<and> PR_trailHistory (PR_record (Vector3 1 0 0) 1 5 (PR_example []))
       = [\<lparr>position = Vector3 1 0 0, velocity = Vector3 1 0 0, timestamp = 5\<rparr>]
   \<and> distanceTo (Vector3 0.02 0 0) (OR_lastPosition (OR_example [] 0)) < OR_MOVEMENT_THRESHOLD
   \<and> OR_updateTrailHistory (Vector3 0.02 0 0) 1 5 (OR_example [] 0) = (False, OR_example [] 0)
   \<and> distanceTo (Vector3 1 0 0) (OR_lastPosition (OR_example [] 0)) \<ge> OR_MOVEMENT_THRESHOLD
   \<and> OR_trailHistory (snd (OR_updateTrailHistory (Vector3 1 0 0) 1 5 (OR_example [] 0)))
       = [\<lparr>position = Vector3 1 0 0, velocity = Vector3 1 0 0, timestamp = 5\<rparr>]"
  using C3_record_threshold [of "Vector3 0.02 0 0" "PR_example []" 1 5
      "Vector3 1 0 0" "PR_example []" 1 5
      "Vector3 0.02 0 0" "OR_example [] 0" 1 5
      "Vector3 1 0 0" "OR_example [] 0" 1 5]
  by (simp add: distanceTo_def subVectors_def zeroVector_def vlength_x_axis divideScalar_def
      multiplyScalar_def PR_example_def OR_example_def PR_MOVEMENT_THRESHOLD_def
      OR_MOVEMENT_THRESHOLD_def PR_MAX_TRAIL_LENGTH_def OR_MAX_TRAIL_POINTS_def)

section \<open>Trails of fewer than two points\<close>

text \<open>
  C7. On a trail of one point or none, the rebuild of each component returns at its first
  check: the state, and with it every geometry, position, colour and index, is what it
  was, so no triangle is written. This holds for \<^verbatim>\<open>updateRibbons\<close> of ProperRibbons,
  \<^verbatim>\<open>updateRibbonGeometry\<close> of OptimizedRibbons, \<^verbatim>\<open>updateTrailRibbons\<close> of SpeedTrails and
  \<^verbatim>\<open>updateRibbonGeometries\<close> of SpeedRibbons.
\<close>

theorem C7_short_trail_no_geometry:
  "(length (PR_trailHistory ps) \<le> 1 \<longrightarrow> PR_updateRibbons m1 n1 ps = ps)
   \<and> (length (OR_trailHistory os) \<le> 1 \<longrightarrow> OR_updateRibbonGeometry m2 n2 r os = os)
   \<and> (length (ST_trailHistory ts) \<le> 1 \<longrightarrow> ST_updateTrailRibbons m3 n3 ts = ts)
   \<and> (length (SR_trailHistory rs) \<le> 1 \<longrightarrow> SR_updateRibbonGeometries m4 rs = rs)"
  by (simp add: PR_updateRibbons_def OR_updateRibbonGeometry_def ST_updateTrailRibbons_def
      SR_updateRibbonGeometries_def Let_def)

theorem C7_short_trail_no_geometry_witness:
  "length (PR_trailHistory (PR_example [samplePoint 0 0 0 0])) \<le> 1
   \<and> PR_updateRibbons (\<lambda>_. white) (\<lambda>_ _. 10) (PR_example [samplePoint 0 0 0 0])
       = PR_example [samplePoint 0 0 0 0]
   \<and> length (OR_trailHistory (OR_example [samplePoint 0 0 0 0] 0)) \<le> 1
   \<and> OR_updateRibbonGeometry (\<lambda>_. white) 10 0 (OR_example [samplePoint 0 0 0 0] 0)
       = OR_example [samplePoint 0 0 0 0] 0
   \<and> length (ST_trailHistory (ST_example [samplePoint 0 0 0 0])) \<le> 1
   \<and> ST_updateTrailRibbons (\<lambda>_. white) (\<lambda>_ _. 10) (ST_example [samplePoint 0 0 0 0])
       = ST_example [samplePoint 0 0 0 0]
   \<and> length (SR_trailHistory (SR_example [])) \<le> 1
   \<and> SR_updateRibbonGeometries (\<lambda>_. white) (SR_example []) = SR_example []"
  using C7_short_trail_no_geometry [of "PR_example [samplePoint 0 0 0 0]" "\<lambda>_. white" "\<lambda>_ _. 10"
      "OR_example [samplePoint 0 0 0 0] 0" "\<lambda>_. white" 10 0
      "ST_example [samplePoint 0 0 0 0]" "\<lambda>_. white" "\<lambda>_ _. 10"
      "SR_example []" "\<lambda>_. white"]
  by (simp add: PR_example_def OR_example_def ST_example_def SR_example_def)

section \<open>Triangle indices\<close>

text \<open>
  C10 at SpeedTrails. \<^verbatim>\<open>updateTrailRibbons\<close> pushes, with the two vertices of a path point
  that is not the last, two triangles over these two vertices and the two vertices that
  the next path point would push. The last path point has progress 1, so its position
  fade is \<open>max 0 (1 - 1.2) = 0\<close> and it is always skipped. On a trail of two fresh points
  the rebuild of ribbon 0 therefore emits two vertices and six indices, of which 2 and 3
  name no vertex.
\<close>

theorem C10_SpeedTrails_indices_out_of_range:
  "vertexCount (ST_buildRibbon 2500 white (\<lambda>_. 100) [samplePoint 0 0 0 100, samplePoint 0 0 1 0] 0) = 2
   \<and> indices (ST_buildRibbon 2500 white (\<lambda>_. 100) [samplePoint 0 0 0 100, samplePoint 0 0 1 0] 0)
       = [0, 1, 2, 1, 3, 2]"
  by (simp add: ST_buildRibbon_def Let_def ST_pathStep_def ST_alpha_def ST_progress_def
      emptyGeometry_def vertexCount_def xyz_def ST_ribbonPath_def
      samplePoint_def ST_getSpawnPoints_def ST_getSpawnPoints_trace_def ST_RIBBON_COUNT_def
      vlength_zeroVector)

section \<open>The alpha cutoff\<close>

text \<open>
  C4, as stated, at OptimizedRibbons. At time 3458 the second point of the trail has age
  fade 0.012 and position fade 0.6: its combined alpha, 0.0072 (0.00576 with the factor
  0.8 of the component), is below the cutoff 0.01. The loop tests the age fade alone, so
  the segment that starts at this point is emitted like the segment before it: the
  rebuild writes eight vertices, four of them at this point.
\<close>

theorem C4_counterexample:
  "OR_ageFade OR_TRAIL_LIFETIME 3458 staleTrail 1
     * max 0.1 (1 - OR_progress staleTrail 1 * 0.8) < 0.01
   \<and> OR_alpha OR_TRAIL_LIFETIME 3458 staleTrail 1 < 0.01
   \<and> cur_vertexCount (OR_buildRibbon OR_TRAIL_LIFETIME white 3458 staleTrail 0 OR_pool) = 8"
  by (simp add: OR_buildRibbon_counts staleTrail_def samplePoint_def OR_ageFade_def
      OR_alpha_def OR_progress_def OR_TRAIL_LIFETIME_def upt_rec)

text \<open>
  C4, amended. On a trail of two points or more, in ProperRibbons the position array of
  a rebuilt ribbon is the two vertices of each path point whose combined alpha (age fade
  times position fade) is at least 0.01, in path order, and nothing else: a point below
  the cutoff contributes no vertex, and the vertex count is twice the number of points
  at or above it. In OptimizedRibbons the cutoff is on the age fade alone: the rebuild
  writes four vertices, two at the point and two at the point after it, for every point
  but the last whose age fade exceeds 0.01, so the vertex count is four times the number
  of these points.
\<close>

theorem C4_vertices_of_surviving_points:
  "(2 \<le> length trail \<longrightarrow>
      positions (PR_buildRibbon PR_TRAIL_LIFETIME c now trail r)
        = concat (map (PR_edgeVertices (PR_ribbonPath trail r))
            (filter (\<lambda>i. 0.01 \<le> PR_alpha PR_TRAIL_LIFETIME (PR_ribbonPath trail r) now i)
               [0 ..< length (PR_ribbonPath trail r)]))
      \<and> vertexCount (PR_buildRibbon PR_TRAIL_LIFETIME c now trail r)
        = 2 * length (filter (\<lambda>i. 0.01 \<le> PR_alpha PR_TRAIL_LIFETIME (PR_ribbonPath trail r) now i)
                        [0 ..< length (PR_ribbonPath trail r)]))
   \<and> (2 \<le> length trail' \<longrightarrow>
      cur_vertexCount (OR_buildRibbon OR_TRAIL_LIFETIME c' t' trail' r' b)
        = 4 * length (filter (\<lambda>i. 0.01 < OR_ageFade OR_TRAIL_LIFETIME t' trail' i)
                        [0 ..< length trail' - 1]))"
  by (simp add: PR_buildRibbon_positions vertexCount_def length_concat_edgeVertices
      OR_buildRibbon_counts)

theorem C4_vertices_of_surviving_points_witness:
  "2 \<le> length fadedTrail
   \<and> vertexCount (PR_buildRibbon PR_TRAIL_LIFETIME white (\<lambda>_. 2980) fadedTrail 0) = 2
   \<and> positions (PR_buildRibbon PR_TRAIL_LIFETIME white (\<lambda>_. 2980) fadedTrail 0)
       = PR_edgeVertices (PR_ribbonPath fadedTrail 0) 0
   \<and> 2 \<le> length staleTrail
   \<and> cur_vertexCount (OR_buildRibbon OR_TRAIL_LIFETIME white 3458 staleTrail 0 OR_pool) = 8"
proof -
  have two: "2 \<le> length fadedTrail" "2 \<le> length staleTrail"
    by (simp_all add: fadedTrail_def staleTrail_def)
  have len: "length (PR_ribbonPath fadedTrail 0) = 2"
    by (simp add: PR_ribbonPath_length PR_RIBBON_COUNT_def fadedTrail_def)
  have keep: "filter (\<lambda>i. 0.01 \<le> PR_alpha PR_TRAIL_LIFETIME (PR_ribbonPath fadedTrail 0)
                              (\<lambda>_. 2980) i) [0 ..< 2] = [0]"
    by (simp add: PR_alpha_def PR_progress_def PR_ribbonPath_map PR_RIBBON_COUNT_def
        fadedTrail_def samplePoint_def PR_TRAIL_LIFETIME_def upt_rec Let_def)
  have seg: "filter (\<lambda>i. 0.01 < OR_ageFade OR_TRAIL_LIFETIME 3458 staleTrail i)
               [0 ..< length staleTrail - 1] = [0, 1]"
    by (simp add: staleTrail_def samplePoint_def OR_ageFade_def OR_TRAIL_LIFETIME_def upt_rec)
  show ?thesis
    using C4_vertices_of_surviving_points [of fadedTrail white "\<lambda>_. 2980" 0
        staleTrail white 3458 0 OR_pool] two
    unfolding len keep seg by simp
qed

section \<open>The five-point scenario\<close>

lemma PR_updateRibbons_mesh:
  assumes "2 \<le> length (PR_trailHistory s)" and "r < length (PR_ribbonMeshes s)"
    and "PR_ribbonMeshes s ! r = Some old"
    and "positions (PR_buildRibbon PR_TRAIL_LIFETIME (m r) (now r) (PR_trailHistory s) r) \<noteq> []"
  shows "PR_ribbonMeshes (PR_updateRibbons m now s) ! r
           = Some (PR_buildRibbon PR_TRAIL_LIFETIME (m r) (now r) (PR_trailHistory s) r)"
  using assms by (simp add: PR_updateRibbons_def Let_def nth_enumerate_eq)

lemma scenario_kept:
  "filter (\<lambda>i. 0.01 < OR_ageFade OR_TRAIL_LIFETIME 400 (scenarioTrail vel) i)
     [0 ..< length (scenarioTrail vel) - 1] = [0, 1, 2, 3]"
  by (simp add: scenarioTrail_def OR_ageFade_def OR_TRAIL_LIFETIME_def upt_0_4)

lemma scenario_OR_alpha:
  "map (OR_alpha OR_TRAIL_LIFETIME 400 (scenarioTrail vel)) [0 ..< 4]
     = [0.8, 544 / 875, 396 / 875, 256 / 875]"
  by (simp add: scenarioTrail_def OR_ageFade_def OR_alpha_def OR_progress_def
      OR_TRAIL_LIFETIME_def upt_0_4)

lemma scenario_PR_alpha:
  "r < PR_RIBBON_COUNT \<Longrightarrow>
   map (PR_alpha PR_TRAIL_LIFETIME (PR_ribbonPath (scenarioTrail vel) r) (\<lambda>_. 400)) [0 ..< 5]
     = [1, 58 / 75, 14 / 25, 9 / 25, 13 / 75]"
  by (simp add: PR_alpha_def PR_progress_def PR_ribbonPath_map scenarioTrail_def
      PR_TRAIL_LIFETIME_def upt_0_5 Let_def)

lemma scenario_PR_geometry:
  assumes r: "r < PR_RIBBON_COUNT"
  shows "vertexCount (PR_buildRibbon PR_TRAIL_LIFETIME c (\<lambda>_. 400) (scenarioTrail vel) r) = 10"
    and "indices (PR_buildRibbon PR_TRAIL_LIFETIME c (\<lambda>_. 400) (scenarioTrail vel) r)
          = [0, 1, 2, 1, 3, 2,  2, 3, 4, 3, 5, 4,  4, 5, 6, 5, 7, 6,  6, 7, 8, 7, 9, 8]"
    and "positions (PR_buildRibbon PR_TRAIL_LIFETIME c (\<lambda>_. 400) (scenarioTrail vel) r)
          = concat (map (PR_edgeVertices (PR_ribbonPath (scenarioTrail vel) r)) [0 ..< 5])"
proof -
  let ?path = "PR_ribbonPath (scenarioTrail vel) r"
  have len: "length ?path = 5"
    using r by (simp add: PR_ribbonPath_length scenarioTrail_def)
  have each:
    "PR_alpha PR_TRAIL_LIFETIME ?path (\<lambda>_. 400) 0 = 1"
    "PR_alpha PR_TRAIL_LIFETIME ?path (\<lambda>_. 400) (Suc 0) = 58 / 75"
    "PR_alpha PR_TRAIL_LIFETIME ?path (\<lambda>_. 400) 2 = 14 / 25"
    "PR_alpha PR_TRAIL_LIFETIME ?path (\<lambda>_. 400) 3 = 9 / 25"
    "PR_alpha PR_TRAIL_LIFETIME ?path (\<lambda>_. 400) 4 = 13 / 75"
    using scenario_PR_alpha [OF r, of vel] by (simp_all add: upt_0_5)
  show "vertexCount (PR_buildRibbon PR_TRAIL_LIFETIME c (\<lambda>_. 400) (scenarioTrail vel) r) = 10"
    by (simp add: PR_buildRibbon_def Let_def len upt_0_5 PR_pathStep_def each
        emptyGeometry_def vertexCount_def xyz_def)
  show "indices (PR_buildRibbon PR_TRAIL_LIFETIME c (\<lambda>_. 400) (scenarioTrail vel) r)
          = [0, 1, 2, 1, 3, 2,  2, 3, 4, 3, 5, 4,  4, 5, 6, 5, 7, 6,  6, 7, 8, 7, 9, 8]"
    by (simp add: PR_buildRibbon_def Let_def len upt_0_5 PR_pathStep_def each
        emptyGeometry_def xyz_def)
  have keep: "filter (\<lambda>i. 0.01 \<le> PR_alpha PR_TRAIL_LIFETIME ?path (\<lambda>_. 400) i) [0 ..< 5]
                = [0 ..< 5]"
    by (simp add: upt_0_5 each)
  show "positions (PR_buildRibbon PR_TRAIL_LIFETIME c (\<lambda>_. 400) (scenarioTrail vel) r)
          = concat (map (PR_edgeVertices ?path) [0 ..< 5])"
    unfolding PR_buildRibbon_positions len keep ..
qed

lemma scenario_OR_geometry:
  fixes vel m n r
  defines "g \<equiv> OR_ribbonGeometries
                (OR_updateRibbonGeometry m 400 r (OR_example (scenarioTrail vel) n)) ! r"
  assumes r: "r < OR_RIBBON_COUNT"
  shows "geo_drawCount g = 24"
    and "take 24 (geo_index g)
          = [0, 1, 2, 1, 3, 2,  4, 5, 6, 5, 7, 6,  8, 9, 10, 9, 11, 10,  12, 13, 14, 13, 15, 14]"
    and "drop 24 (geo_index g) = replicate 96 0"
    and "take 48 (geo_position g) = concat (map (OR_segmentVertices (scenarioTrail vel) r) [0 ..< 4])"
    and "drop 48 (geo_position g) = replicate 312 0"
    and "take 48 (geo_color g)
          = concat (map (\<lambda>i. OR_segmentColors (m r) (OR_alpha OR_TRAIL_LIFETIME 400 (scenarioTrail vel) i))
                      [0 ..< 4])"
proof -
  let ?s = "OR_example (scenarioTrail vel) n"
  have tr: "OR_trailHistory ?s = scenarioTrail vel" by (simp add: OR_example_def)
  have geo: "OR_ribbonGeometries ?s ! r = OR_freshGeometry"
    using r by (simp add: OR_example_def OR_RIBBON_COUNT_def)
  have kept: "filter (\<lambda>i. 0.01 < OR_ageFade OR_TRAIL_LIFETIME 400 (OR_trailHistory ?s) i)
                [0 ..< length (OR_trailHistory ?s) - 1] = [0, 1, 2, 3]"
    unfolding tr by (rule scenario_kept)
  have u4: "[0, 1, 2, 3] = [0 ..< 4]" by (simp add: upt_0_4)
  note c = OR_updateRibbonGeometry_contents [where s = ?s and t = 400 and r = r and m = m,
      unfolded kept geo, folded g_def, unfolded tr]
  have pre:
    "2 \<le> length (scenarioTrail vel)" "r < length (OR_ribbonGeometries ?s)"
    "12 * length [0::nat, 1, 2, 3] \<le> length (buf_positions (OR_geometryBuffers ?s))"
    "12 * length [0::nat, 1, 2, 3] \<le> length (buf_colors (OR_geometryBuffers ?s))"
    "6 * length [0::nat, 1, 2, 3] \<le> length (buf_indices (OR_geometryBuffers ?s))"
    "12 * length [0::nat, 1, 2, 3] \<le> length (geo_position OR_freshGeometry)"
    "12 * length [0::nat, 1, 2, 3] \<le> length (geo_color OR_freshGeometry)"
    "6 * length [0::nat, 1, 2, 3] \<le> length (geo_index OR_freshGeometry)"
    using r by (simp_all add: scenarioTrail_def OR_example_def OR_pool_def
        OR_freshGeometry_def OR_RIBBON_COUNT_def)
  have ne: "[0::nat, 1, 2, 3] \<noteq> []" by simp
  note d = c [OF pre(1,2) ne pre(3-)]
  show "geo_drawCount g = 24" using d(1) by (simp add: numeral_eq_enat)
  show "take 24 (geo_index g)
          = [0, 1, 2, 1, 3, 2,  4, 5, 6, 5, 7, 6,  8, 9, 10, 9, 11, 10,  12, 13, 14, 13, 15, 14]"
    using d(5) by (simp add: upt_0_4 OR_segmentIndices_def uint16_def)
  show "drop 24 (geo_index g) = replicate 96 0"
    using d(6) by (simp add: OR_freshGeometry_def)
  show "take 48 (geo_position g) = concat (map (OR_segmentVertices (scenarioTrail vel) r) [0 ..< 4])"
    using d(2) by (simp add: upt_0_4)
  show "drop 48 (geo_position g) = replicate 312 0"
    using d(3) by (simp add: OR_freshGeometry_def)
  show "take 48 (geo_color g)
          = concat (map (\<lambda>i. OR_segmentColors (m r) (OR_alpha OR_TRAIL_LIFETIME 400 (scenarioTrail vel) i))
                      [0 ..< 4])"
    using d(4) by (simp add: upt_0_4)
qed

lemma scenario_PR_mesh:
  assumes r: "r < PR_RIBBON_COUNT"
  shows "PR_ribbonMeshes (PR_updateRibbons m (\<lambda>_ _. 400) (PR_example (scenarioTrail vel))) ! r
           = Some (PR_buildRibbon PR_TRAIL_LIFETIME (m r) (\<lambda>_. 400) (scenarioTrail vel) r)"
proof -
  let ?s = "PR_example (scenarioTrail vel)"
  have tr: "PR_trailHistory ?s = scenarioTrail vel" by (simp add: PR_example_def)
  have "vertexCount (PR_buildRibbon PR_TRAIL_LIFETIME (m r) (\<lambda>_. 400) (scenarioTrail vel) r) = 10"
    using r by (rule scenario_PR_geometry)
  then have ne: "positions (PR_buildRibbon PR_TRAIL_LIFETIME (m r) (\<lambda>_. 400)
                   (PR_trailHistory ?s) r) \<noteq> []"
    unfolding tr by (auto simp: vertexCount_def)
  have two: "2 \<le> length (PR_trailHistory ?s)" unfolding tr by (simp add: scenarioTrail_def)
  have mesh: "r < length (PR_ribbonMeshes ?s)" "PR_ribbonMeshes ?s ! r = Some emptyGeometry"
    using r by (simp_all add: PR_example_def PR_RIBBON_COUNT_def)
  show ?thesis
    using PR_updateRibbons_mesh [where now = "\<lambda>_ _. 400" and m = m and r = r and s = ?s,
        OF two mesh ne] unfolding tr .
qed

text \<open>
  C5, as stated, at ProperRibbons: with the scenario trail as the trail history and the
  rebuild at the time of the newest point, \<^verbatim>\<open>updateRibbons\<close> gives mesh 0 a geometry of ten
  vertices, two for each of the five points, not sixteen. The lifetime that divides the
  ages is the constant \<^verbatim>\<open>TRAIL_LIFETIME\<close> of the component, 3000 ms.
\<close>

theorem C5_counterexample:
  "map_option vertexCount
     (PR_ribbonMeshes (PR_updateRibbons (\<lambda>_. white) (\<lambda>_ _. 400)
        (PR_example (scenarioTrail (\<lambda>_. zeroVector)))) ! 0) = Some 10"
proof -
  have r: "(0::nat) < PR_RIBBON_COUNT" by (simp add: PR_RIBBON_COUNT_def)
  show ?thesis
    unfolding scenario_PR_mesh [OF r] by (simp add: scenario_PR_geometry(1) [OF r])
qed

text \<open>
  C5, amended. The trail is the scenario trail, with any velocities, and the rebuild is
  at the time of the newest point; the lifetime is the constant of each component, 3500 ms
  in OptimizedRibbons and 3000 ms in ProperRibbons.

  In OptimizedRibbons the loop counts 16 vertices and 24 indices, and for a ribbon index
  below 4 \<^verbatim>\<open>updateRibbonGeometry\<close> on a fresh component leaves in the geometry of the
  ribbon: a draw range of 24 indices; the 24 indices of four segments over the vertices
  0 to 15; the 16 vertices of the segments from point 0 to point 1, ..., from point 3 to
  point 4; for each segment its four vertex colours, the material colour times the alpha
  of the segment; and nothing else (the rest of the index and position arrays is still
  zero). The alphas of the four segments are 0.8, 544/875, 396/875 and 256/875, strictly
  decreasing from the newest point on.

  In ProperRibbons, for a ribbon index below 6, \<^verbatim>\<open>updateRibbons\<close> gives the mesh a
  geometry of 10 vertices, two for each point, with the 24 indices of four segments, and
  the alphas of the five points are 1, 58/75, 14/25, 9/25 and 13/75, strictly decreasing.
\<close>

theorem C5_scenario:
  fixes vel vel' m m' :: "nat \<Rightarrow> vec3" and n r r' :: nat
  defines "trail \<equiv> scenarioTrail vel"
    and "g \<equiv> OR_ribbonGeometries
                (OR_updateRibbonGeometry m 400 r (OR_example (scenarioTrail vel) n)) ! r"
    and "path \<equiv> PR_ribbonPath (scenarioTrail vel') r'"
    and "h \<equiv> PR_buildRibbon PR_TRAIL_LIFETIME (m' r') (\<lambda>_. 400) (scenarioTrail vel') r'"
  shows
  "cur_vertexCount (OR_buildRibbon OR_TRAIL_LIFETIME (m r) 400 trail r OR_pool) = 16
   \<and> cur_indexCount (OR_buildRibbon OR_TRAIL_LIFETIME (m r) 400 trail r OR_pool) = 24
   \<and> (r < OR_RIBBON_COUNT \<longrightarrow>
        geo_drawCount g = 24
      \<and> take 24 (geo_index g)
          = [0, 1, 2, 1, 3, 2,  4, 5, 6, 5, 7, 6,  8, 9, 10, 9, 11, 10,  12, 13, 14, 13, 15, 14]
      \<and> drop 24 (geo_index g) = replicate 96 0
      \<and> take 48 (geo_position g) = concat (map (OR_segmentVertices trail r) [0 ..< 4])
      \<and> drop 48 (geo_position g) = replicate 312 0
      \<and> take 48 (geo_color g)
          = concat (map (\<lambda>i. OR_segmentColors (m r) (OR_alpha OR_TRAIL_LIFETIME 400 trail i))
                      [0 ..< 4]))
   \<and> map (OR_alpha OR_TRAIL_LIFETIME 400 trail) [0 ..< 4] = [0.8, 544 / 875, 396 / 875, 256 / 875]
   \<and> sorted_wrt (\<lambda>a b. b < a) (map (OR_alpha OR_TRAIL_LIFETIME 400 trail) [0 ..< 4])
   \<and> (r' < PR_RIBBON_COUNT \<longrightarrow>
        PR_ribbonMeshes (PR_updateRibbons m' (\<lambda>_ _. 400) (PR_example (scenarioTrail vel'))) ! r'
          = Some h
      \<and> vertexCount h = 10
      \<and> positions h = concat (map (PR_edgeVertices path) [0 ..< 5])
      \<and> indices h
          = [0, 1, 2, 1, 3, 2,  2, 3, 4, 3, 5, 4,  4, 5, 6, 5, 7, 6,  6, 7, 8, 7, 9, 8]
      \<and> map (PR_alpha PR_TRAIL_LIFETIME path (\<lambda>_. 400)) [0 ..< 5]
          = [1, 58 / 75, 14 / 25, 9 / 25, 13 / 75]
      \<and> sorted_wrt (\<lambda>a b. b < a) (map (PR_alpha PR_TRAIL_LIFETIME path (\<lambda>_. 400)) [0 ..< 5]))"
proof -
  have counts:
    "cur_vertexCount (OR_buildRibbon OR_TRAIL_LIFETIME (m r) 400 trail r OR_pool) = 16"
    "cur_indexCount (OR_buildRibbon OR_TRAIL_LIFETIME (m r) 400 trail r OR_pool) = 24"
    unfolding trail_def OR_buildRibbon_counts scenario_kept by simp_all
  have geo: "r < OR_RIBBON_COUNT \<longrightarrow>
        geo_drawCount g = 24
      \<and> take 24 (geo_index g)
          = [0, 1, 2, 1, 3, 2,  4, 5, 6, 5, 7, 6,  8, 9, 10, 9, 11, 10,  12, 13, 14, 13, 15, 14]
      \<and> drop 24 (geo_index g) = replicate 96 0
      \<and> take 48 (geo_position g) = concat (map (OR_segmentVertices trail r) [0 ..< 4])
      \<and> drop 48 (geo_position g) = replicate 312 0
      \<and> take 48 (geo_color g)
          = concat (map (\<lambda>i. OR_segmentColors (m r) (OR_alpha OR_TRAIL_LIFETIME 400 trail i))
                      [0 ..< 4])"
    unfolding trail_def g_def by (intro impI conjI) (erule scenario_OR_geometry)+
  have alpha: "map (OR_alpha OR_TRAIL_LIFETIME 400 trail) [0 ..< 4]
                 = [0.8, 544 / 875, 396 / 875, 256 / 875]"
    unfolding trail_def by (rule scenario_OR_alpha)
  have srt: "sorted_wrt (\<lambda>a b. b < a) (map (OR_alpha OR_TRAIL_LIFETIME 400 trail) [0 ..< 4])"
    unfolding alpha by simp
  have pr: "r' < PR_RIBBON_COUNT \<longrightarrow>
        PR_ribbonMeshes (PR_updateRibbons m' (\<lambda>_ _. 400) (PR_example (scenarioTrail vel'))) ! r'
          = Some h
      \<and> vertexCount h = 10
      \<and> positions h = concat (map (PR_edgeVertices path) [0 ..< 5])
      \<and> indices h
          = [0, 1, 2, 1, 3, 2,  2, 3, 4, 3, 5, 4,  4, 5, 6, 5, 7, 6,  6, 7, 8, 7, 9, 8]
      \<and> map (PR_alpha PR_TRAIL_LIFETIME path (\<lambda>_. 400)) [0 ..< 5]
          = [1, 58 / 75, 14 / 25, 9 / 25, 13 / 75]
      \<and> sorted_wrt (\<lambda>a b. b < a) (map (PR_alpha PR_TRAIL_LIFETIME path (\<lambda>_. 400)) [0 ..< 5])"
  proof (intro impI)
    assume r: "r' < PR_RIBBON_COUNT"
    have al: "map (PR_alpha PR_TRAIL_LIFETIME path (\<lambda>_. 400)) [0 ..< 5]
                = [1, 58 / 75, 14 / 25, 9 / 25, 13 / 75]"
      unfolding path_def using r by (rule scenario_PR_alpha)
    have s: "sorted_wrt (\<lambda>a b. b < a) (map (PR_alpha PR_TRAIL_LIFETIME path (\<lambda>_. 400)) [0 ..< 5])"
      unfolding al by simp
    show "PR_ribbonMeshes (PR_updateRibbons m' (\<lambda>_ _. 400) (PR_example (scenarioTrail vel'))) ! r'
          = Some h
      \<and> vertexCount h = 10
      \<and> positions h = concat (map (PR_edgeVertices path) [0 ..< 5])
      \<and> indices h
          = [0, 1, 2, 1, 3, 2,  2, 3, 4, 3, 5, 4,  4, 5, 6, 5, 7, 6,  6, 7, 8, 7, 9, 8]
      \<and> map (PR_alpha PR_TRAIL_LIFETIME path (\<lambda>_. 400)) [0 ..< 5]
          = [1, 58 / 75, 14 / 25, 9 / 25, 13 / 75]
      \<and> sorted_wrt (\<lambda>a b. b < a) (map (PR_alpha PR_TRAIL_LIFETIME path (\<lambda>_. 400)) [0 ..< 5])"
      unfolding h_def path_def
      using scenario_PR_mesh [OF r] scenario_PR_geometry [OF r] al s
      unfolding path_def by (intro conjI)
  qed
  show ?thesis by (intro conjI counts geo alpha srt pr)
qed

theorem C5_scenario_witness:
  "(0::nat) < OR_RIBBON_COUNT
   \<and> geo_drawCount (OR_ribbonGeometries (OR_updateRibbonGeometry (\<lambda>_. white) 400 0
         (OR_example (scenarioTrail (\<lambda>_. zeroVector)) 0)) ! 0) = 24
   \<and> take 24 (geo_index (OR_ribbonGeometries (OR_updateRibbonGeometry (\<lambda>_. white) 400 0
         (OR_example (scenarioTrail (\<lambda>_. zeroVector)) 0)) ! 0))
       = [0, 1, 2, 1, 3, 2,  4, 5, 6, 5, 7, 6,  8, 9, 10, 9, 11, 10,  12, 13, 14, 13, 15, 14]
   \<and> (0::nat) < PR_RIBBON_COUNT
   \<and> map_option indices
       (PR_ribbonMeshes (PR_updateRibbons (\<lambda>_. white) (\<lambda>_ _. 400)
          (PR_example (scenarioTrail (\<lambda>_. zeroVector)))) ! 0)
       = Some [0, 1, 2, 1, 3, 2,  2, 3, 4, 3, 5, 4,  4, 5, 6, 5, 7, 6,  6, 7, 8, 7, 9, 8]"
  using C5_scenario [where m = "\<lambda>_. white" and vel = "\<lambda>_. zeroVector" and r = 0 and n = 0
      and m' = "\<lambda>_. white" and vel' = "\<lambda>_. zeroVector" and r' = 0]
  by (simp add: PR_RIBBON_COUNT_def OR_RIBBON_COUNT_def)

section \<open>Normalisation in the spawn-point projectors\<close>

text \<open>
  C2 at a vertical velocity. Both projectors guard the normalisation of the velocity by
  its length, and then normalise the cross product of the backward direction and the up
  axis without a guard. For the velocity (0, 1, 0) the backward direction is (0, -1, 0),
  the cross product is the zero vector, and \<^verbatim>\<open>getBackSpawnPoints\<close> of ProperRibbons and
  \<^verbatim>\<open>getSpawnPoints\<close> of SpeedTrails each hand the zero vector to \<^verbatim>\<open>normalize()\<close> twice;
  the six spawn points of ProperRibbons then coincide.
\<close>

theorem C2_vertical_velocity_normalizes_zero:
  "PR_normalized zeroVector (Vector3 0 1 0) = [Vector3 0 1 0, zeroVector, zeroVector]
   \<and> ST_normalized zeroVector (Vector3 0 1 0) ST_RIBBON_COUNT
       = [Vector3 0 1 0, zeroVector, zeroVector]
   \<and> PR_getBackSpawnPoints zeroVector (Vector3 0 1 0) = replicate 6 (Vector3 0 (- 0.88) 0)"
  by (simp add: PR_normalized_def PR_getBackSpawnPoints_def PR_getBackSpawnPoints_trace_def
      ST_normalized_def ST_getSpawnPoints_trace_def PR_RIBBON_COUNT_def upt_rec Let_def
      vlength_y_axis normalize_def divideScalar_def multiplyScalar_def negate_def
      crossVectors_def upAxis_def zeroVector_def vlength_def addv_def numeral_eq_Suc)

text \<open>The other half of C2 holds: at velocity zero ProperRibbons normalises the two unit
  vectors (1, 0, 0) and (0, 1, 0), SpeedTrails normalises nothing, and the spawn points
  are a function of the position alone.\<close>

lemma zero_velocity_fallback:
  "PR_normalized p zeroVector = [Vector3 1 0 0, Vector3 0 1 0]
   \<and> ST_normalized p zeroVector n = []
   \<and> ST_getSpawnPoints p zeroVector n
       = map (\<lambda>i. addv p (Vector3 (cos ((real i / real n) * pi * 2) * ST_SPAWN_DISTANCE) 0
                                  (sin ((real i / real n) * pi * 2) * ST_SPAWN_DISTANCE)))
           [0 ..< n]"
  by (simp add: PR_normalized_def PR_getBackSpawnPoints_trace_def ST_normalized_def
      ST_getSpawnPoints_def ST_getSpawnPoints_trace_def Let_def zeroVector_def normalize_def
      divideScalar_def multiplyScalar_def negate_def crossVectors_def upAxis_def vlength_def)

section \<open>Trails of two points\<close>

lemma cross_up_zero_iff:
  "crossVectors (normalize v) upAxis = zeroVector \<longleftrightarrow> vx v = 0 \<and> vz v = 0"
proof (cases "vlength v = 0")
  case True
  then have "v = zeroVector" by (simp add: vlength_eq_0_iff)
  then show ?thesis
    by (simp add: crossVectors_def normalize_def divideScalar_def multiplyScalar_def
        upAxis_def zeroVector_def vlength_def)
next
  case False
  then show ?thesis
    by (auto simp: crossVectors_def normalize_def divideScalar_def multiplyScalar_def
        upAxis_def zeroVector_def)
qed

lemma PR_two_points:
  assumes r: "r < PR_RIBBON_COUNT" and len: "length trail = 2"
    and a0: "0.01 \<le> PR_alpha L (PR_ribbonPath trail r) now 0"
    and a1: "0.01 \<le> PR_alpha L (PR_ribbonPath trail r) now 1"
  shows "vertexCount (PR_buildRibbon L c now trail r) = 4"
    and "indices (PR_buildRibbon L c now trail r) = [0, 1, 2, 1, 3, 2]"
    and "positions (PR_buildRibbon L c now trail r)
           = PR_edgeVertices (PR_ribbonPath trail r) 0 @ PR_edgeVertices (PR_ribbonPath trail r) 1"
proof -
  have plen: "length (PR_ribbonPath trail r) = 2"
    using r len by (simp add: PR_ribbonPath_length)
  have upt2: "[0 ..< 2] = [0, Suc 0]" by (simp add: upt_rec)
  show "vertexCount (PR_buildRibbon L c now trail r) = 4"
    unfolding PR_buildRibbon_def Let_def plen upt2 using a0 a1
    by (simp add: PR_pathStep_def Let_def emptyGeometry_def vertexCount_def xyz_def)
  show "indices (PR_buildRibbon L c now trail r) = [0, 1, 2, 1, 3, 2]"
    unfolding PR_buildRibbon_def Let_def plen upt2 using a0 a1
    by (simp add: PR_pathStep_def Let_def emptyGeometry_def xyz_def)
  show "positions (PR_buildRibbon L c now trail r)
           = PR_edgeVertices (PR_ribbonPath trail r) 0 @ PR_edgeVertices (PR_ribbonPath trail r) 1"
    unfolding PR_buildRibbon_def Let_def plen upt2 using a0 a1
    by (simp add: PR_pathStep_def Let_def emptyGeometry_def PR_edgeVertices_def)
qed

lemma vertexAt_edges:
  "vertexAt (PR_edgeVertices path i @ rest) 0 = subVectors (fst (path ! i)) (PR_width path i)"
  "vertexAt (PR_edgeVertices path i @ rest) 1 = addv (fst (path ! i)) (PR_width path i)"
  by (simp_all add: vertexAt_def PR_edgeVertices_def xyz_def nth_append)

lemma PR_width_newest:
  assumes plen: "length path = 2"
    and horiz: "vx (fst (path ! 0)) \<noteq> vx (fst (path ! 1)) \<or> vz (fst (path ! 0)) \<noteq> vz (fst (path ! 1))"
  shows "vlength (PR_width path 0) = PR_RIBBON_WIDTH / 2"
proof -
  let ?d = "subVectors (fst (path ! 1)) (fst (path ! 0))"
  have dir: "PR_direction path 0 = normalize ?d"
    using plen by (simp add: PR_direction_def)
  have "vx ?d \<noteq> 0 \<or> vz ?d \<noteq> 0"
    using horiz by (auto simp: subVectors_def)
  then have "crossVectors (normalize ?d) upAxis \<noteq> zeroVector"
    by (simp add: cross_up_zero_iff)
  then have "vlength (normalize (crossVectors (normalize ?d) upAxis)) = 1"
    by (rule vlength_normalize)
  then show ?thesis
    using plen
    by (simp add: PR_width_def dir vlength_multiplyScalar PR_progress_def PR_RIBBON_WIDTH_def)
qed

lemma OR_two_points:
  assumes len: "length trail = 2"
    and a0: "0.01 < OR_ageFade L t trail 0"
    and capP: "12 \<le> length (buf_positions b)"
    and capI: "6 \<le> length (buf_indices b)"
  shows "cur_vertexCount (OR_buildRibbon L c t trail r b) = 4"
    and "cur_indexCount (OR_buildRibbon L c t trail r b) = 6"
    and "take 6 (buf_indices (cur_buffers (OR_buildRibbon L c t trail r b))) = [0, 1, 2, 1, 3, 2]"
    and "vertexAt (buf_positions (cur_buffers (OR_buildRibbon L c t trail r b))) 0
           = Vector3 (vx (OR_center trail r 0)
                        - vz (normalize (subVectors (OR_center trail r 1) (OR_center trail r 0)))
                          * (OR_RIBBON_WIDTH / 2))
                     (vy (OR_center trail r 0))
                     (vz (OR_center trail r 0)
                        + vx (normalize (subVectors (OR_center trail r 1) (OR_center trail r 0)))
                          * (OR_RIBBON_WIDTH / 2))"
    and "vertexAt (buf_positions (cur_buffers (OR_buildRibbon L c t trail r b))) 1
           = Vector3 (vx (OR_center trail r 0)
                        + vz (normalize (subVectors (OR_center trail r 1) (OR_center trail r 0)))
                          * (OR_RIBBON_WIDTH / 2))
                     (vy (OR_center trail r 0))
                     (vz (OR_center trail r 0)
                        - vx (normalize (subVectors (OR_center trail r 1) (OR_center trail r 0)))
                          * (OR_RIBBON_WIDTH / 2))"
proof -
  have upt1: "[0 ..< length trail - 1] = [0]" using len by (simp add: upt_rec)
  have prog: "OR_progress trail 0 = 0" by (simp add: OR_progress_def)
  have room: "0 < length (buf_positions b)" "Suc 0 < length (buf_positions b)"
    "2 < length (buf_positions b)" "3 < length (buf_positions b)"
    "4 < length (buf_positions b)" "5 < length (buf_positions b)"
    using capP by auto
  show "cur_vertexCount (OR_buildRibbon L c t trail r b) = 4"
    unfolding OR_buildRibbon_def upt1 using a0
    by (simp add: OR_segmentStep_def Let_def)
  show "cur_indexCount (OR_buildRibbon L c t trail r b) = 6"
    unfolding OR_buildRibbon_def upt1 using a0
    by (simp add: OR_segmentStep_def Let_def)
  show "take 6 (buf_indices (cur_buffers (OR_buildRibbon L c t trail r b))) = [0, 1, 2, 1, 3, 2]"
    unfolding OR_buildRibbon_def upt1 using a0 capI
    by (simp add: OR_segmentStep_def Let_def uint16_def take_writeAt_eq del: writeAt.simps)
  show "vertexAt (buf_positions (cur_buffers (OR_buildRibbon L c t trail r b))) 0
           = Vector3 (vx (OR_center trail r 0)
                        - vz (normalize (subVectors (OR_center trail r 1) (OR_center trail r 0)))
                          * (OR_RIBBON_WIDTH / 2))
                     (vy (OR_center trail r 0))
                     (vz (OR_center trail r 0)
                        + vx (normalize (subVectors (OR_center trail r 1) (OR_center trail r 0)))
                          * (OR_RIBBON_WIDTH / 2))"
    unfolding OR_buildRibbon_def upt1 using a0 room
    by (simp add: OR_segmentStep_def Let_def vertexAt_def nth_writeAt prog
        del: writeAt.simps)
  show "vertexAt (buf_positions (cur_buffers (OR_buildRibbon L c t trail r b))) 1
           = Vector3 (vx (OR_center trail r 0)
                        + vz (normalize (subVectors (OR_center trail r 1) (OR_center trail r 0)))
                          * (OR_RIBBON_WIDTH / 2))
                     (vy (OR_center trail r 0))
                     (vz (OR_center trail r 0)
                        - vx (normalize (subVectors (OR_center trail r 1) (OR_center trail r 0)))
                          * (OR_RIBBON_WIDTH / 2))"
    unfolding OR_buildRibbon_def upt1 using a0 room
    by (simp add: OR_segmentStep_def Let_def vertexAt_def nth_writeAt prog
        del: writeAt.simps)
qed

lemma OR_edge_distance:
  "distanceTo (Vector3 (a - dz * h) y (e + dx * h)) (Vector3 (a + dz * h) y (e - dx * h))
     = 2 * \<bar>h\<bar> * sqrt (dx * dx + dz * dz)"
proof -
  have "(a - dz * h - (a + dz * h)) * (a - dz * h - (a + dz * h))
          + (e + dx * h - (e - dx * h)) * (e + dx * h - (e - dx * h))
        = (2 * h) * (2 * h) * (dx * dx + dz * dz)"
    by (simp add: algebra_simps)
  then show ?thesis
    by (simp add: distanceTo_def subVectors_def vlength_def real_sqrt_mult)
qed

lemma level_direction:
  assumes "vy a = vy b" and "a \<noteq> b"
  shows "sqrt (vx (normalize (subVectors b a)) * vx (normalize (subVectors b a))
             + vz (normalize (subVectors b a)) * vz (normalize (subVectors b a))) = 1"
proof -
  have nz: "subVectors b a \<noteq> zeroVector"
    using assms(2) by (cases a; cases b) (auto simp: subVectors_def zeroVector_def)
  have "vy (normalize (subVectors b a)) = 0"
    using assms(1) by (simp add: normalize_def divideScalar_def multiplyScalar_def subVectors_def)
  with vlength_normalize [OF nz] show ?thesis
    by (simp add: vlength_def)
qed

text \<open>
  C6, as stated, at ProperRibbons: two points at rest, one a unit above the other, both
  with alpha above the cutoff. The segment between the two path points is parallel to
  the up axis, its cross product with the up axis is the zero vector, and the width
  vector is zero: the rebuild emits four vertices, and the left and the right vertex at
  the newest point coincide, while the configured width, with taper factor 1 at progress
  0, is 0.2.
\<close>

theorem C6_counterexample:
  "length verticalTrail = 2
   \<and> 0.01 \<le> PR_alpha PR_TRAIL_LIFETIME (PR_ribbonPath verticalTrail 0) (\<lambda>_. 0) 0
   \<and> 0.01 \<le> PR_alpha PR_TRAIL_LIFETIME (PR_ribbonPath verticalTrail 0) (\<lambda>_. 0) 1
   \<and> vertexCount (PR_buildRibbon PR_TRAIL_LIFETIME white (\<lambda>_. 0) verticalTrail 0) = 4
   \<and> distanceTo (vertexAt (positions (PR_buildRibbon PR_TRAIL_LIFETIME white (\<lambda>_. 0) verticalTrail 0)) 0)
                 (vertexAt (positions (PR_buildRibbon PR_TRAIL_LIFETIME white (\<lambda>_. 0) verticalTrail 0)) 1)
       = 0
   \<and> PR_RIBBON_WIDTH * (1 - PR_progress 2 0 * 0.3) = 0.2"
proof -
  have alpha: "0.01 \<le> PR_alpha PR_TRAIL_LIFETIME (PR_ribbonPath verticalTrail 0) (\<lambda>_. 0) 0"
      "0.01 \<le> PR_alpha PR_TRAIL_LIFETIME (PR_ribbonPath verticalTrail 0) (\<lambda>_. 0) 1"
    by (simp_all add: PR_alpha_def PR_progress_def PR_ribbonPath_map PR_RIBBON_COUNT_def
        verticalTrail_def samplePoint_def PR_TRAIL_LIFETIME_def Let_def)
  have len: "length verticalTrail = 2" by (simp add: verticalTrail_def)
  have r: "(0::nat) < PR_RIBBON_COUNT" by (simp add: PR_RIBBON_COUNT_def)
  note two = PR_two_points [OF r len alpha, of white]
  have w: "PR_width (PR_ribbonPath verticalTrail 0) 0 = zeroVector"
    by (simp add: PR_width_def PR_direction_def PR_ribbonPath_map PR_RIBBON_COUNT_def
        verticalTrail_def samplePoint_def PR_getBackSpawnPoints_def
        PR_getBackSpawnPoints_trace_def Let_def vlength_zeroVector upt_rec
        subVectors_def addv_def multiplyScalar_def crossVectors_def normalize_def
        divideScalar_def upAxis_def vlength_def zeroVector_def)
  have d: "distanceTo (vertexAt (positions (PR_buildRibbon PR_TRAIL_LIFETIME white (\<lambda>_. 0) verticalTrail 0)) 0)
                 (vertexAt (positions (PR_buildRibbon PR_TRAIL_LIFETIME white (\<lambda>_. 0) verticalTrail 0)) 1) = 0"
    unfolding two(3) vertexAt_edges distanceTo_edges w by (simp add: vlength_zeroVector)
  show ?thesis
    using len alpha two(1) d by (simp add: PR_RIBBON_WIDTH_def PR_progress_def)
qed

text \<open>
  C6, amended. For a trail of exactly two points: in ProperRibbons, for a ribbon index
  below 6 and both alphas at least 0.01, a rebuild emits four vertices and the indices
  0, 1, 2, 1, 3, 2 of one segment of two triangles, and the distance between the left and
  the right vertex at the newest point is the ribbon width 0.2 whenever the two path
  points differ in x or in z. In OptimizedRibbons, when the age fade of the newest point
  exceeds 0.01 and the pooled arrays have room for the segment, a rebuild writes four
  vertices and the same six indices; the distance between the left and the right vertex
  at the newest point is the ribbon width 0.25 times the horizontal length of the unit
  direction between the two ribbon centres, and so it is the ribbon width whenever the
  centres are distinct and at the same height.
\<close>

theorem C6_two_point_trail:
  fixes trail trail' :: "trailPoint list" and r r' :: nat and t' :: real
    and c c' :: vec3 and now :: "nat \<Rightarrow> real" and b :: OR_buffers
  defines "path \<equiv> PR_ribbonPath trail r"
    and "g \<equiv> PR_buildRibbon PR_TRAIL_LIFETIME c now trail r"
    and "cur \<equiv> OR_buildRibbon OR_TRAIL_LIFETIME c' t' trail' r' b"
    and "c0 \<equiv> OR_center trail' r' 0"
    and "c1 \<equiv> OR_center trail' r' 1"
  defines "d \<equiv> normalize (subVectors c1 c0)"
    and "ps \<equiv> buf_positions (cur_buffers cur)"
  shows
  "(r < PR_RIBBON_COUNT \<and> length trail = 2
      \<and> 0.01 \<le> PR_alpha PR_TRAIL_LIFETIME path now 0 \<and> 0.01 \<le> PR_alpha PR_TRAIL_LIFETIME path now 1
    \<longrightarrow> vertexCount g = 4 \<and> indices g = [0, 1, 2, 1, 3, 2]
        \<and> (vx (fst (path ! 0)) \<noteq> vx (fst (path ! 1)) \<or> vz (fst (path ! 0)) \<noteq> vz (fst (path ! 1))
           \<longrightarrow> distanceTo (vertexAt (positions g) 0) (vertexAt (positions g) 1) = PR_RIBBON_WIDTH))
   \<and> (length trail' = 2 \<and> 0.01 < OR_ageFade OR_TRAIL_LIFETIME t' trail' 0
      \<and> 12 \<le> length (buf_positions b) \<and> 6 \<le> length (buf_indices b)
    \<longrightarrow> cur_vertexCount cur = 4 \<and> cur_indexCount cur = 6
        \<and> take 6 (buf_indices (cur_buffers cur)) = [0, 1, 2, 1, 3, 2]
        \<and> distanceTo (vertexAt ps 0) (vertexAt ps 1)
            = OR_RIBBON_WIDTH * sqrt (vx d * vx d + vz d * vz d)
        \<and> (vy c0 = vy c1 \<and> c0 \<noteq> c1
           \<longrightarrow> distanceTo (vertexAt ps 0) (vertexAt ps 1) = OR_RIBBON_WIDTH))"
proof (intro conjI impI)
  assume h: "r < PR_RIBBON_COUNT \<and> length trail = 2
      \<and> 0.01 \<le> PR_alpha PR_TRAIL_LIFETIME path now 0 \<and> 0.01 \<le> PR_alpha PR_TRAIL_LIFETIME path now 1"
  then have two: "vertexCount g = 4" "indices g = [0, 1, 2, 1, 3, 2]"
      "positions g = PR_edgeVertices path 0 @ PR_edgeVertices path 1"
    unfolding path_def g_def by (simp_all add: PR_two_points)
  show "vertexCount g = 4" by (rule two(1))
  show "indices g = [0, 1, 2, 1, 3, 2]" by (rule two(2))
  assume horiz: "vx (fst (path ! 0)) \<noteq> vx (fst (path ! 1)) \<or> vz (fst (path ! 0)) \<noteq> vz (fst (path ! 1))"
  have plen: "length path = 2"
    using h unfolding path_def by (simp add: PR_ribbonPath_length)
  show "distanceTo (vertexAt (positions g) 0) (vertexAt (positions g) 1) = PR_RIBBON_WIDTH"
    unfolding two(3) vertexAt_edges distanceTo_edges
    using PR_width_newest [OF plen horiz] by simp
next
  assume h: "length trail' = 2 \<and> 0.01 < OR_ageFade OR_TRAIL_LIFETIME t' trail' 0
      \<and> 12 \<le> length (buf_positions b) \<and> 6 \<le> length (buf_indices b)"
  then have len: "length trail' = 2" and a0: "0.01 < OR_ageFade OR_TRAIL_LIFETIME t' trail' 0"
    and capP: "12 \<le> length (buf_positions b)" and capI: "6 \<le> length (buf_indices b)"
    by simp_all
  note two = OR_two_points [OF len a0 capP capI, of c' r', folded cur_def c0_def c1_def d_def ps_def]
  show "cur_vertexCount cur = 4" by (rule two(1))
  show "cur_indexCount cur = 6" by (rule two(2))
  show "take 6 (buf_indices (cur_buffers cur)) = [0, 1, 2, 1, 3, 2]" by (rule two(3))
  show dist: "distanceTo (vertexAt ps 0) (vertexAt ps 1)
            = OR_RIBBON_WIDTH * sqrt (vx d * vx d + vz d * vz d)"
    unfolding two(4) two(5) OR_edge_distance by (simp add: OR_RIBBON_WIDTH_def)
  assume "vy c0 = vy c1 \<and> c0 \<noteq> c1"
  then have "sqrt (vx d * vx d + vz d * vz d) = 1"
    unfolding d_def by (simp add: level_direction)
  with dist show "distanceTo (vertexAt ps 0) (vertexAt ps 1) = OR_RIBBON_WIDTH" by simp
qed

theorem C6_two_point_trail_witness:
  "(0::nat) < PR_RIBBON_COUNT \<and> length levelTrail = 2
   \<and> 0.01 \<le> PR_alpha PR_TRAIL_LIFETIME (PR_ribbonPath levelTrail 0) (\<lambda>_. 100) 0
   \<and> 0.01 \<le> PR_alpha PR_TRAIL_LIFETIME (PR_ribbonPath levelTrail 0) (\<lambda>_. 100) 1
   \<and> vx (fst (PR_ribbonPath levelTrail 0 ! 0)) \<noteq> vx (fst (PR_ribbonPath levelTrail 0 ! 1))
   \<and> vertexCount (PR_buildRibbon PR_TRAIL_LIFETIME white (\<lambda>_. 100) levelTrail 0) = 4
   \<and> distanceTo
         (vertexAt (positions (PR_buildRibbon PR_TRAIL_LIFETIME white (\<lambda>_. 100) levelTrail 0)) 0)
         (vertexAt (positions (PR_buildRibbon PR_TRAIL_LIFETIME white (\<lambda>_. 100) levelTrail 0)) 1)
       = PR_RIBBON_WIDTH
   \<and> 0.01 < OR_ageFade OR_TRAIL_LIFETIME 100 levelTrail 0
   \<and> 12 \<le> length (buf_positions OR_pool) \<and> 6 \<le> length (buf_indices OR_pool)
   \<and> vy (OR_center levelTrail 0 0) = vy (OR_center levelTrail 0 1)
   \<and> OR_center levelTrail 0 0 \<noteq> OR_center levelTrail 0 1
   \<and> cur_vertexCount (OR_buildRibbon OR_TRAIL_LIFETIME white 100 levelTrail 0 OR_pool) = 4
   \<and> distanceTo
         (vertexAt (buf_positions (cur_buffers
            (OR_buildRibbon OR_TRAIL_LIFETIME white 100 levelTrail 0 OR_pool))) 0)
         (vertexAt (buf_positions (cur_buffers
            (OR_buildRibbon OR_TRAIL_LIFETIME white 100 levelTrail 0 OR_pool))) 1)
       = OR_RIBBON_WIDTH"
proof -
  have r: "(0::nat) < PR_RIBBON_COUNT" by (simp add: PR_RIBBON_COUNT_def)
  have len: "length levelTrail = 2" by (simp add: levelTrail_def)
  have alpha: "0.01 \<le> PR_alpha PR_TRAIL_LIFETIME (PR_ribbonPath levelTrail 0) (\<lambda>_. 100) 0"
      "0.01 \<le> PR_alpha PR_TRAIL_LIFETIME (PR_ribbonPath levelTrail 0) (\<lambda>_. 100) 1"
    by (simp_all add: PR_alpha_def PR_progress_def PR_ribbonPath_map PR_RIBBON_COUNT_def
        levelTrail_def samplePoint_def PR_TRAIL_LIFETIME_def Let_def)
  have horiz: "vx (fst (PR_ribbonPath levelTrail 0 ! 0)) \<noteq> vx (fst (PR_ribbonPath levelTrail 0 ! 1))"
    by (simp add: PR_ribbonPath_map PR_RIBBON_COUNT_def levelTrail_def samplePoint_def
        PR_getBackSpawnPoints_def PR_getBackSpawnPoints_trace_def Let_def vlength_zeroVector
        upt_rec addv_def)
  have fade: "0.01 < OR_ageFade OR_TRAIL_LIFETIME 100 levelTrail 0"
    by (simp add: OR_ageFade_def levelTrail_def samplePoint_def OR_TRAIL_LIFETIME_def)
  have cap: "12 \<le> length (buf_positions OR_pool)" "6 \<le> length (buf_indices OR_pool)"
    by (simp_all add: OR_pool_def)
  have level: "vy (OR_center levelTrail 0 0) = vy (OR_center levelTrail 0 1)"
      "OR_center levelTrail 0 0 \<noteq> OR_center levelTrail 0 1"
    by (simp_all add: OR_center_def OR_calculateSpawnOffset_def spawnAngles_def levelTrail_def
        samplePoint_def vlength_zeroVector addv_def Let_def)
  show ?thesis
    using C6_two_point_trail [where r = 0 and trail = levelTrail
        and now = "\<lambda>_. 100" and c = white and trail' = levelTrail
        and t' = 100 and c' = white and r' = 0 and b = OR_pool]
      r len alpha horiz fade cap level
    by blast
qed

section \<open>Subsampling in OptimizedRibbons\<close>

lemma OR_updateRibbonGeometry_keeps:
  "OR_trailHistory (OR_updateRibbonGeometry m t r s) = OR_trailHistory s"
  "OR_lastPosition (OR_updateRibbonGeometry m t r s) = OR_lastPosition s"
  "OR_lastVelocity (OR_updateRibbonGeometry m t r s) = OR_lastVelocity s"
  "OR_frameCounter (OR_updateRibbonGeometry m t r s) = OR_frameCounter s"
  "OR_isInitialized (OR_updateRibbonGeometry m t r s) = OR_isInitialized s"
  "length (OR_ribbonGeometries (OR_updateRibbonGeometry m t r s)) = length (OR_ribbonGeometries s)"
  by (simp_all add: OR_updateRibbonGeometry_def Let_def)

lemma OR_updateRibbonGeometry_other:
  "k \<noteq> r \<Longrightarrow>
   OR_ribbonGeometries (OR_updateRibbonGeometry m t r s) ! k = OR_ribbonGeometries s ! k"
  by (simp add: OR_updateRibbonGeometry_def Let_def)

lemma OR_updateRibbonGeometry_drawCount:
  assumes "2 \<le> length (OR_trailHistory s)" and "r < length (OR_ribbonGeometries s)"
  shows "geo_drawCount (OR_ribbonGeometries (OR_updateRibbonGeometry m t r s) ! r)
           = enat (6 * OR_segments t (OR_trailHistory s))"
proof -
  have "cur_vertexCount (OR_buildRibbon OR_TRAIL_LIFETIME (m r) t (OR_trailHistory s) r
            (OR_geometryBuffers s)) = 0
        \<Longrightarrow> OR_segments t (OR_trailHistory s) = 0"
    by (simp add: OR_buildRibbon_counts OR_segments_def)
  then show ?thesis
    using assms
    by (simp add: OR_updateRibbonGeometry_def Let_def OR_buildRibbon_counts(2) OR_segments_def
        zero_enat_def)
qed

lemma OR_fold_update_keeps:
  "OR_trailHistory (foldl (\<lambda>st i. OR_updateRibbonGeometry m (now i) i st) s xs) = OR_trailHistory s"
  "OR_lastPosition (foldl (\<lambda>st i. OR_updateRibbonGeometry m (now i) i st) s xs) = OR_lastPosition s"
  "OR_lastVelocity (foldl (\<lambda>st i. OR_updateRibbonGeometry m (now i) i st) s xs) = OR_lastVelocity s"
  "OR_frameCounter (foldl (\<lambda>st i. OR_updateRibbonGeometry m (now i) i st) s xs) = OR_frameCounter s"
  "OR_isInitialized (foldl (\<lambda>st i. OR_updateRibbonGeometry m (now i) i st) s xs) = OR_isInitialized s"
  "length (OR_ribbonGeometries (foldl (\<lambda>st i. OR_updateRibbonGeometry m (now i) i st) s xs))
     = length (OR_ribbonGeometries s)"
  by (induction xs arbitrary: s) (simp_all add: OR_updateRibbonGeometry_keeps)

lemma OR_fold_update_other:
  "r \<notin> set xs \<Longrightarrow>
   OR_ribbonGeometries (foldl (\<lambda>st i. OR_updateRibbonGeometry m (now i) i st) s xs) ! r
     = OR_ribbonGeometries s ! r"
proof (induction xs arbitrary: s)
  case Nil
  then show ?case by simp
next
  case (Cons x xs)
  then have "r \<noteq> x" and "r \<notin> set xs" by auto
  with Cons.IH [of "OR_updateRibbonGeometry m (now x) x s"] show ?case
    by (simp add: OR_updateRibbonGeometry_other)
qed

lemma OR_fold_update_drawCount:
  assumes "2 \<le> length (OR_trailHistory s)" and "r < length (OR_ribbonGeometries s)"
    and "distinct xs" and "r \<in> set xs"
  shows "geo_drawCount (OR_ribbonGeometries
            (foldl (\<lambda>st i. OR_updateRibbonGeometry m (now i) i st) s xs) ! r)
           = enat (6 * OR_segments (now r) (OR_trailHistory s))"
  using assms
proof (induction xs arbitrary: s)
  case Nil
  then show ?case by simp
next
  case (Cons x xs)
  let ?s = "OR_updateRibbonGeometry m (now x) x s"
  show ?case
  proof (cases "r = x")
    case True
    then have "r \<notin> set xs" using Cons.prems by simp
    then show ?thesis
      using True Cons.prems OR_fold_update_other [of r xs m now ?s]
      by (simp add: OR_updateRibbonGeometry_drawCount)
  next
    case False
    then have "r \<in> set xs" "distinct xs" using Cons.prems by auto
    with Cons.IH [of ?s] Cons.prems show ?thesis
      by (simp add: OR_updateRibbonGeometry_keeps)
  qed
qed

lemma OR_updateAll_keeps:
  "OR_trailHistory (OR_updateAll m now s) = OR_trailHistory s"
  "OR_lastPosition (OR_updateAll m now s) = OR_lastPosition s"
  "OR_lastVelocity (OR_updateAll m now s) = OR_lastVelocity s"
  "OR_frameCounter (OR_updateAll m now s) = OR_frameCounter s"
  "OR_isInitialized (OR_updateAll m now s) = OR_isInitialized s"
  "length (OR_ribbonGeometries (OR_updateAll m now s)) = length (OR_ribbonGeometries s)"
  by (simp_all add: OR_updateAll_def OR_fold_update_keeps)

lemma OR_updateAll_drawCount:
  assumes "2 \<le> length (OR_trailHistory s)" and "length (OR_ribbonGeometries s) = OR_RIBBON_COUNT"
    and "r < OR_RIBBON_COUNT"
  shows "geo_drawCount (OR_ribbonGeometries (OR_updateAll m now s) ! r)
           = enat (6 * OR_segments (now r) (OR_trailHistory s))"
  unfolding OR_updateAll_def using assms
  by (intro OR_fold_update_drawCount) simp_all

lemma OR_updateAll_short:
  "length (OR_trailHistory s) < 2 \<Longrightarrow> OR_updateAll m now s = s"
  by (simp add: OR_updateAll_def OR_RIBBON_COUNT_def upt_rec OR_updateRibbonGeometry_def numeral_eq_Suc)

lemma OR_useFrame_running:
  assumes "OR_enabled f" "OR_mode f \<noteq> ''off''" "OR_spherePosition f = Some p" "OR_isInitialized s"
  shows "OR_useFrame m f s =
     (let s1 = s\<lparr>OR_frameCounter := OR_frameCounter s + 1\<rparr>;
          res = OR_updateTrailHistory p (OR_delta f) (OR_nowRecord f) s1
      in if (OR_frameCounter s + 1) mod OR_UPDATE_FREQUENCY = 0 \<or> fst res
         then OR_updateAll m (OR_nowBuild f) (OR_prune (OR_nowPrune f) (snd res))
         else snd res)"
  using assms
  by (simp add: OR_useFrame_def Let_def OR_updateTrailHistory_def split: prod.splits)

lemma OR_useFrame_gated:
  fixes f :: OR_frame and s :: OR_state and m :: "nat \<Rightarrow> vec3" and p :: vec3
  defines "moved \<equiv> OR_MOVEMENT_THRESHOLD \<le> distanceTo p (OR_lastPosition s)"
  defines "gate \<equiv> (OR_frameCounter s + 1) mod OR_UPDATE_FREQUENCY = 0 \<or> moved"
    and "recorded \<equiv>
       (if moved
        then take OR_MAX_TRAIL_POINTS
               (\<lparr>position = p,
                 velocity = (if OR_delta f > 0
                             then divideScalar (subVectors p (OR_lastPosition s)) (OR_delta f)
                             else subVectors p (OR_lastPosition s)),
                 timestamp = OR_nowRecord f\<rparr> # OR_trailHistory s)
        else OR_trailHistory s)"
    and "s' \<equiv> OR_useFrame m f s"
  assumes run: "OR_enabled f" "OR_mode f \<noteq> ''off''" "OR_spherePosition f = Some p"
    "OR_isInitialized s"
  shows "OR_frameCounter s' = OR_frameCounter s + 1"
    and "OR_lastPosition s' = (if moved then p else OR_lastPosition s)"
    and "OR_isInitialized s'"
    and "gate \<Longrightarrow> OR_trailHistory s'
            = filter (\<lambda>pt. OR_nowPrune f - timestamp pt < OR_TRAIL_LIFETIME) recorded"
    and "gate \<Longrightarrow> r < OR_RIBBON_COUNT \<Longrightarrow> 2 \<le> length (OR_trailHistory s')
         \<Longrightarrow> length (OR_ribbonGeometries s) = OR_RIBBON_COUNT
         \<Longrightarrow> geo_drawCount (OR_ribbonGeometries s' ! r)
                    = enat (6 * OR_segments (OR_nowBuild f r) (OR_trailHistory s'))"
    and "gate \<Longrightarrow> length (OR_trailHistory s') < 2
         \<Longrightarrow> OR_ribbonGeometries s' = OR_ribbonGeometries s"
    and "\<not> gate \<Longrightarrow> s' = s\<lparr>OR_frameCounter := OR_frameCounter s + 1\<rparr>"
proof -
  let ?s1 = "s\<lparr>OR_frameCounter := OR_frameCounter s + 1\<rparr>"
  let ?res = "OR_updateTrailHistory p (OR_delta f) (OR_nowRecord f) ?s1"
  let ?pruned = "OR_prune (OR_nowPrune f) (snd ?res)"
  have frame: "s' = (if gate then OR_updateAll m (OR_nowBuild f) ?pruned else snd ?res)"
    unfolding s'_def gate_def moved_def using run
    by (simp add: OR_useFrame_running Let_def OR_updateTrailHistory_def not_less)
  have rec_trail: "OR_trailHistory (snd ?res) = recorded"
    unfolding recorded_def moved_def
    by (simp add: OR_updateTrailHistory_def Let_def not_less)
  have rec_counter: "OR_frameCounter (snd ?res) = OR_frameCounter s + 1"
    by (simp add: OR_updateTrailHistory_def Let_def)
  have rec_geos: "OR_ribbonGeometries (snd ?res) = OR_ribbonGeometries s"
    by (simp add: OR_updateTrailHistory_def Let_def)
  have rec_pos: "OR_lastPosition (snd ?res) = (if moved then p else OR_lastPosition s)"
    unfolding moved_def by (simp add: OR_updateTrailHistory_def Let_def not_less)
  have rec_init: "OR_isInitialized (snd ?res)"
    using run by (simp add: OR_updateTrailHistory_def Let_def)
  have still: "\<not> moved \<Longrightarrow> snd ?res = ?s1"
    unfolding moved_def by (simp add: OR_updateTrailHistory_def Let_def not_le)
  show "OR_frameCounter s' = OR_frameCounter s + 1"
    unfolding frame using rec_counter by (simp add: OR_updateAll_keeps OR_prune_def)
  show "OR_lastPosition s' = (if moved then p else OR_lastPosition s)"
    unfolding frame using rec_pos by (simp add: OR_updateAll_keeps OR_prune_def)
  show "OR_isInitialized s'"
    unfolding frame using rec_init by (simp add: OR_updateAll_keeps OR_prune_def)
  show "OR_trailHistory s'
            = filter (\<lambda>pt. OR_nowPrune f - timestamp pt < OR_TRAIL_LIFETIME) recorded"
    if gate
    unfolding frame using that rec_trail by (simp add: OR_updateAll_keeps OR_prune_def)
  show "geo_drawCount (OR_ribbonGeometries s' ! r)
                    = enat (6 * OR_segments (OR_nowBuild f r) (OR_trailHistory s'))"
    if gate and r: "r < OR_RIBBON_COUNT" and two: "2 \<le> length (OR_trailHistory s')"
      and geos: "length (OR_ribbonGeometries s) = OR_RIBBON_COUNT"
  proof -
    have tr: "OR_trailHistory s' = OR_trailHistory ?pruned"
      unfolding frame using \<open>gate\<close> by (simp add: OR_updateAll_keeps)
    have "geo_drawCount (OR_ribbonGeometries (OR_updateAll m (OR_nowBuild f) ?pruned) ! r)
           = enat (6 * OR_segments (OR_nowBuild f r) (OR_trailHistory ?pruned))"
      using two geos r rec_geos unfolding tr
      by (intro OR_updateAll_drawCount) (simp_all add: OR_prune_def)
    then show ?thesis unfolding tr unfolding frame using \<open>gate\<close> by simp
  qed
  show "OR_ribbonGeometries s' = OR_ribbonGeometries s"
    if gate and short: "length (OR_trailHistory s') < 2"
  proof -
    have tr: "OR_trailHistory s' = OR_trailHistory ?pruned"
      unfolding frame using \<open>gate\<close> by (simp add: OR_updateAll_keeps)
    have "OR_updateAll m (OR_nowBuild f) ?pruned = ?pruned"
      using short unfolding tr by (rule OR_updateAll_short)
    then show ?thesis unfolding frame using \<open>gate\<close> rec_geos by (simp add: OR_prune_def)
  qed
  show "s' = ?s1" if "\<not> gate"
  proof -
    from that have "\<not> moved" unfolding gate_def by simp
    with that still show ?thesis unfolding frame by simp
  qed
qed

lemma OR_frameAt_running:
  "OR_enabled (OR_frameAt p t)" "OR_mode (OR_frameAt p t) \<noteq> ''off''"
  "OR_spherePosition (OR_frameAt p t) = Some p"
  by (simp_all add: OR_frameAt_def)

lemma OR_example_simps:
  "OR_trailHistory (OR_example trail n) = trail"
  "OR_lastPosition (OR_example trail n) = zeroVector"
  "OR_frameCounter (OR_example trail n) = n"
  "OR_isInitialized (OR_example trail n)"
  "length (OR_ribbonGeometries (OR_example trail n)) = OR_RIBBON_COUNT"
  by (simp_all add: OR_example_def OR_RIBBON_COUNT_def)

text \<open>
  C8, as stated. On the first tick after initialisation (frame counter 1, not a multiple
  of 3) on which the sphere has moved by a unit, the geometry of ribbon 0 is rebuilt: its
  draw range goes from the initial unlimited range to the six indices of one segment. And
  on a tick on which the frame counter becomes 4 and the sphere has not moved, the trail
  is not pruned: the point recorded at time 0 is still there at time 3510, past the
  lifetime of 3500.
\<close>

theorem C8_counterexample:
  "OR_frameCounter (OR_useFrame (\<lambda>_. white) (OR_frameAt (Vector3 1 0 0) 100)
      (OR_example [samplePoint 0 0 0 0] 0)) = 1
   \<and> geo_drawCount (OR_ribbonGeometries (OR_example [samplePoint 0 0 0 0] 0) ! 0) = \<infinity>
   \<and> geo_drawCount (OR_ribbonGeometries (OR_useFrame (\<lambda>_. white) (OR_frameAt (Vector3 1 0 0) 100)
        (OR_example [samplePoint 0 0 0 0] 0)) ! 0) = 6
   \<and> OR_frameCounter (OR_useFrame (\<lambda>_. white) (OR_frameAt zeroVector 3510)
        (OR_example [samplePoint 0 0 0 0] 3)) = 4
   \<and> OR_trailHistory (OR_useFrame (\<lambda>_. white) (OR_frameAt zeroVector 3510)
        (OR_example [samplePoint 0 0 0 0] 3)) = [samplePoint 0 0 0 0]
   \<and> \<not> (OR_nowPrune (OR_frameAt zeroVector 3510) - timestamp (samplePoint 0 0 0 0)
          < OR_TRAIL_LIFETIME)"
proof -
  let ?f = "OR_frameAt (Vector3 1 0 0) 100" and ?s = "OR_example [samplePoint 0 0 0 0] 0"
  let ?g = "OR_frameAt zeroVector 3510" and ?u = "OR_example [samplePoint 0 0 0 0] 3"
  note fs = OR_useFrame_gated [where f = ?f and s = ?s and p = "Vector3 1 0 0"
      and m = "\<lambda>_. white", OF OR_frameAt_running OR_example_simps(4)]
  have moved: "OR_MOVEMENT_THRESHOLD \<le> distanceTo (Vector3 1 0 0) (OR_lastPosition ?s)"
    by (simp add: OR_example_simps distanceTo_def subVectors_def zeroVector_def vlength_x_axis
        OR_MOVEMENT_THRESHOLD_def)
  have tr: "OR_trailHistory (OR_useFrame (\<lambda>_. white) ?f ?s)
      = [\<lparr>position = Vector3 1 0 0, velocity = Vector3 (1 / 0.016) 0 0, timestamp = 100\<rparr>,
         samplePoint 0 0 0 0]"
    using fs(4) moved
    by (simp add: OR_example_simps OR_frameAt_def OR_MAX_TRAIL_POINTS_def OR_TRAIL_LIFETIME_def
        samplePoint_def divideScalar_def multiplyScalar_def subVectors_def zeroVector_def)
  have seg: "OR_segments 100 (OR_trailHistory (OR_useFrame (\<lambda>_. white) ?f ?s)) = 1"
    unfolding tr by (simp add: OR_segments_def OR_ageFade_def OR_TRAIL_LIFETIME_def upt_rec)
  have c1: "OR_frameCounter (OR_useFrame (\<lambda>_. white) ?f ?s) = 1"
    using fs(1) by (simp add: OR_example_simps)
  have c2: "geo_drawCount (OR_ribbonGeometries ?s ! 0) = \<infinity>"
    by (simp add: OR_example_def OR_freshGeometry_def)
  have len2: "2 \<le> length (OR_trailHistory (OR_useFrame (\<lambda>_. white) ?f ?s))"
    unfolding tr by simp
  have build: "OR_nowBuild ?f 0 = 100" by (simp add: OR_frameAt_def)
  have "geo_drawCount (OR_ribbonGeometries (OR_useFrame (\<lambda>_. white) ?f ?s) ! 0)
          = enat (6 * OR_segments (OR_nowBuild ?f 0) (OR_trailHistory (OR_useFrame (\<lambda>_. white) ?f ?s)))"
    by (rule fs(5)) (use moved len2 in \<open>simp_all add: OR_example_simps OR_RIBBON_COUNT_def\<close>)
  then have c3: "geo_drawCount (OR_ribbonGeometries (OR_useFrame (\<lambda>_. white) ?f ?s) ! 0) = 6"
    unfolding build seg by (simp add: numeral_eq_enat)
  note gs = OR_useFrame_gated [where f = ?g and s = ?u and p = zeroVector
      and m = "\<lambda>_. white", OF OR_frameAt_running OR_example_simps(4)]
  have idle: "OR_useFrame (\<lambda>_. white) ?g ?u = ?u\<lparr>OR_frameCounter := 4\<rparr>"
    using gs(7)
    by (simp add: OR_example_simps distanceTo_def subVectors_def zeroVector_def vlength_def
        OR_MOVEMENT_THRESHOLD_def OR_UPDATE_FREQUENCY_def)
  have c4: "OR_frameCounter (OR_useFrame (\<lambda>_. white) ?g ?u) = 4"
    and c5: "OR_trailHistory (OR_useFrame (\<lambda>_. white) ?g ?u) = [samplePoint 0 0 0 0]"
    unfolding idle by (simp_all add: OR_example_simps)
  have c6: "\<not> (OR_nowPrune ?g - timestamp (samplePoint 0 0 0 0) < OR_TRAIL_LIFETIME)"
    by (simp add: OR_frameAt_def samplePoint_def OR_TRAIL_LIFETIME_def)
  show ?thesis using c1 c2 c3 c4 c5 c6 by blast
qed

text \<open>
  C8, amended. On every tick on which the callback of OptimizedRibbons runs on an
  initialised state, the frame counter advances by one and the position is offered to
  \<^verbatim>\<open>updateTrailHistory\<close>, which stores it, cutting the trail to 20 points, when the sphere
  has moved by at least the threshold. The trail is pruned by age and the geometry of
  every ribbon is rebuilt exactly on the ticks on which the frame counter is a multiple
  of 3 or a point was stored: then the trail is the stored trail without the points of
  age 3500 or more, and, when it has two points or more, the draw range of each of the
  four geometries is six times the number of segments of this trail. On any other tick
  nothing changes but the frame counter.
\<close>

theorem C8_subsampling:
  fixes f :: OR_frame and s :: OR_state and m :: "nat \<Rightarrow> vec3" and p :: vec3
  defines "moved \<equiv> OR_MOVEMENT_THRESHOLD \<le> distanceTo p (OR_lastPosition s)"
  defines "gate \<equiv> (OR_frameCounter s + 1) mod OR_UPDATE_FREQUENCY = 0 \<or> moved"
    and "recorded \<equiv>
       (if moved
        then take OR_MAX_TRAIL_POINTS
               (\<lparr>position = p,
                 velocity = (if OR_delta f > 0
                             then divideScalar (subVectors p (OR_lastPosition s)) (OR_delta f)
                             else subVectors p (OR_lastPosition s)),
                 timestamp = OR_nowRecord f\<rparr> # OR_trailHistory s)
        else OR_trailHistory s)"
    and "s' \<equiv> OR_useFrame m f s"
  shows
  "OR_enabled f \<and> OR_mode f \<noteq> ''off'' \<and> OR_spherePosition f = Some p \<and> OR_isInitialized s
   \<longrightarrow> OR_frameCounter s' = OR_frameCounter s + 1
     \<and> (moved \<longrightarrow> length recorded \<le> OR_MAX_TRAIL_POINTS)
     \<and> (gate \<longrightarrow>
          OR_trailHistory s'
            = filter (\<lambda>pt. OR_nowPrune f - timestamp pt < OR_TRAIL_LIFETIME) recorded
        \<and> (\<forall>r < OR_RIBBON_COUNT.
              2 \<le> length (OR_trailHistory s')
              \<and> length (OR_ribbonGeometries s) = OR_RIBBON_COUNT
              \<longrightarrow> geo_drawCount (OR_ribbonGeometries s' ! r)
                    = enat (6 * OR_segments (OR_nowBuild f r) (OR_trailHistory s'))))
     \<and> (\<not> gate \<longrightarrow> s' = s\<lparr>OR_frameCounter := OR_frameCounter s + 1\<rparr>)"
  unfolding moved_def gate_def recorded_def s'_def
  using OR_useFrame_gated [where f = f and p = p and s = s and m = m]
  by (auto simp: OR_MAX_TRAIL_POINTS_def)

theorem C8_subsampling_witness:
  "OR_enabled (OR_frameAt (Vector3 1 0 0) 100) \<and> OR_mode (OR_frameAt (Vector3 1 0 0) 100) \<noteq> ''off''
   \<and> OR_spherePosition (OR_frameAt (Vector3 1 0 0) 100) = Some (Vector3 1 0 0)
   \<and> OR_isInitialized (OR_example [samplePoint 0 0 0 0] 2)
   \<and> OR_frameCounter (OR_useFrame (\<lambda>_. white) (OR_frameAt (Vector3 1 0 0) 100)
        (OR_example [samplePoint 0 0 0 0] 2)) = 3
   \<and> OR_trailHistory (OR_useFrame (\<lambda>_. white) (OR_frameAt (Vector3 1 0 0) 100)
        (OR_example [samplePoint 0 0 0 0] 2))
      = [\<lparr>position = Vector3 1 0 0, velocity = Vector3 (1 / 0.016) 0 0, timestamp = 100\<rparr>,
         samplePoint 0 0 0 0]"
proof -
  let ?f = "OR_frameAt (Vector3 1 0 0) 100" and ?s = "OR_example [samplePoint 0 0 0 0] 2"
  have hyps: "OR_enabled ?f \<and> OR_mode ?f \<noteq> ''off'' \<and> OR_spherePosition ?f = Some (Vector3 1 0 0)
              \<and> OR_isInitialized ?s"
    by (simp add: OR_frameAt_running OR_example_simps)
  note concl = mp [OF C8_subsampling [where f = ?f and s = ?s and p = "Vector3 1 0 0"
        and m = "\<lambda>_. white"] hyps]
  have counter: "OR_frameCounter (OR_useFrame (\<lambda>_. white) ?f ?s) = 3"
    using conjunct1 [OF concl] by (simp add: OR_example_simps)
  have gate: "(OR_frameCounter ?s + 1) mod OR_UPDATE_FREQUENCY = 0"
    by (simp add: OR_example_simps OR_UPDATE_FREQUENCY_def)
  have moved: "OR_MOVEMENT_THRESHOLD \<le> distanceTo (Vector3 1 0 0) (OR_lastPosition ?s)"
    by (simp add: OR_example_simps distanceTo_def subVectors_def zeroVector_def vlength_x_axis
        OR_MOVEMENT_THRESHOLD_def)
  have "OR_trailHistory (OR_useFrame (\<lambda>_. white) ?f ?s)
      = filter (\<lambda>pt. OR_nowPrune ?f - timestamp pt < OR_TRAIL_LIFETIME)
          (take OR_MAX_TRAIL_POINTS
               (\<lparr>position = Vector3 1 0 0,
                 velocity = (if OR_delta ?f > 0
                             then divideScalar (subVectors (Vector3 1 0 0) (OR_lastPosition ?s))
                                    (OR_delta ?f)
                             else subVectors (Vector3 1 0 0) (OR_lastPosition ?s)),
                 timestamp = OR_nowRecord ?f\<rparr> # OR_trailHistory ?s))"
    using concl gate moved by simp
  then have trail: "OR_trailHistory (OR_useFrame (\<lambda>_. white) ?f ?s)
      = [\<lparr>position = Vector3 1 0 0, velocity = Vector3 (1 / 0.016) 0 0, timestamp = 100\<rparr>,
         samplePoint 0 0 0 0]"
    by (simp add: OR_example_simps OR_frameAt_def OR_MAX_TRAIL_POINTS_def OR_TRAIL_LIFETIME_def
        samplePoint_def divideScalar_def multiplyScalar_def subVectors_def zeroVector_def)
  show ?thesis using hyps counter trail by blast
qed

section \<open>Disabling and resuming\<close>





lemma PR_updateRibbons_trail:
  "PR_trailHistory (PR_updateRibbons m now s) = PR_trailHistory s"
  by (simp add: PR_updateRibbons_def Let_def)



lemma ST_updateTrailRibbons_trail:
  "ST_trailHistory (ST_updateTrailRibbons m now s) = ST_trailHistory s"
  by (simp add: ST_updateTrailRibbons_def Let_def)


lemma initEffect_keeps:
  "PR_trailHistory s \<noteq> [] \<or> sp = None \<Longrightarrow> PR_initEffect sp now s = s"
  "ST_trailHistory t \<noteq> [] \<or> sp = None \<Longrightarrow> ST_initEffect sp now t = t"
  by (auto simp: PR_initEffect_def ST_initEffect_def split: option.splits)

lemma ST_updateTrailRibbons_short:
  "length (ST_trailHistory s) < 2 \<Longrightarrow> ST_updateTrailRibbons m now s = s"
  by (simp add: ST_updateTrailRibbons_def)











section \<open>The trail invariant\<close>

subsection \<open>One step on a trail\<close>

lemma trailBefore_later:
  "trailBefore ts n t trail \<Longrightarrow> t \<le> t' \<Longrightarrow> trailBefore ts n t' trail"
  by (fastforce simp: trailBefore_def)

lemma trailBefore_record:
  assumes "trailBefore ts n t trail" and "t \<le> ts new"
  shows "trailBefore ts n (ts new) (take n (new # trail))"
proof -
  have srt: "newestFirst ts (new # trail)"
    using assms by (fastforce simp: trailBefore_def newestFirst_def)
  have "newestFirst ts (take n (new # trail))"
    using srt unfolding newestFirst_def by (rule sorted_wrt_take)
  moreover have "\<forall>pt \<in> set (take n (new # trail)). ts pt \<le> ts new"
    using assms by (fastforce simp: trailBefore_def dest: in_set_takeD)
  ultimately show ?thesis by (simp add: trailBefore_def)
qed

lemma trailBefore_filter:
  "trailBefore ts n t trail \<Longrightarrow> trailBefore ts n t (filter P trail)"
  unfolding trailBefore_def newestFirst_def
  by (auto intro: sorted_wrt_filter le_trans [OF length_filter_le])

lemma trail_step:
  assumes before: "trailBefore ts n t trail" and clock: "t \<le> ts new" "ts new \<le> tp"
  shows "trailBefore ts n tp
           (filter (\<lambda>pt. tp - ts pt < L) (if moved then take n (new # trail) else trail))"
proof (cases moved)
  case True
  have "trailBefore ts n tp (take n (new # trail))"
    using trailBefore_record [OF before clock(1)] clock(2) by (rule trailBefore_later)
  with True show ?thesis by (simp add: trailBefore_filter)
next
  case False
  have "trailBefore ts n tp trail"
    using before clock by (intro trailBefore_later [OF before]) simp
  with False show ?thesis by (simp add: trailBefore_filter)
qed

lemma trail_step_invariant:
  assumes "trailBefore ts n t trail" and "t \<le> ts new" "ts new \<le> tp"
  shows "trailInvariant ts n L tp
           (filter (\<lambda>pt. tp - ts pt < L) (if moved then take n (new # trail) else trail))"
  using trail_step [OF assms, of L moved]
  by (simp add: trailBefore_def trailInvariant_def)

subsection \<open>Runs of frames\<close>

lemma ordered_append:
  "ordered t (cs @ [(r, p)])
     \<longleftrightarrow> ordered t cs \<and> (if cs = [] then t else snd (last cs)) \<le> r \<and> r \<le> p"
  by (induction t cs rule: ordered.induct) auto

lemma run_invariant:
  fixes step :: "'f \<Rightarrow> 's \<Rightarrow> 's" and clock :: "'f \<Rightarrow> real \<times> real"
  assumes step: "\<And>s f t. J t s \<Longrightarrow> t \<le> fst (clock f) \<Longrightarrow> fst (clock f) \<le> snd (clock f)
                   \<Longrightarrow> J (snd (clock f)) (step f s)"
  shows "ordered t (map clock fs) \<Longrightarrow> J t s
         \<Longrightarrow> J (if fs = [] then t else snd (clock (last fs))) (foldl (\<lambda>st f. step f st) s fs)"
proof (induction fs arbitrary: t s)
  case Nil
  then show ?case by simp
next
  case (Cons f fs)
  obtain r p where c: "clock f = (r, p)" by (cases "clock f")
  from Cons.prems c have o: "t \<le> r" "r \<le> p" "ordered p (map clock fs)" by simp_all
  have "J p (step f s)"
    using step [OF Cons.prems(2), of f] o c by simp
  from Cons.IH [OF o(3) this] show ?case by (cases "fs = []") (simp_all add: c)
qed

subsection \<open>The frame callbacks on their trails\<close>

lemma PR_useFrame_trail:
  "PR_trailHistory (PR_useFrame m f s) =
     (case spherePosition f of
        None \<Rightarrow> PR_trailHistory s
      | Some p \<Rightarrow>
          if \<not> enabled f then PR_trailHistory s
          else filter (\<lambda>pt. nowPrune f - timestamp pt < PR_TRAIL_LIFETIME)
                 (if PR_MOVEMENT_THRESHOLD < distanceTo p (PR_lastPosition s)
                  then take PR_MAX_TRAIL_LENGTH
                         (\<lparr>position = p, velocity = PR_velocity p (delta f) s,
                           timestamp = nowRecord f\<rparr> # PR_trailHistory s)
                  else PR_trailHistory s))"
  by (simp add: PR_useFrame_def PR_record_def PR_prune_def PR_updateRibbons_trail
      PR_velocity_def Let_def split: option.splits)

lemma ST_useFrame_trail:
  "ST_trailHistory (ST_useFrame m f s) =
     (case spherePosition f of
        None \<Rightarrow> ST_trailHistory s
      | Some p \<Rightarrow>
          if \<not> enabled f then ST_trailHistory s
          else filter (\<lambda>pt. nowPrune f - timestamp pt < ST_TRAIL_LIFETIME)
                 (if 0.001 < distanceTo p (ST_lastPosition s)
                  then take ST_MAX_TRAIL_POINTS
                         (\<lparr>position = p,
                           velocity = (if delta f > 0
                                       then divideScalar (subVectors p (ST_lastPosition s)) (delta f)
                                       else ST_currentVelocity s),
                           timestamp = nowRecord f\<rparr> # ST_trailHistory s)
                  else ST_trailHistory s))"
  by (simp add: ST_useFrame_def ST_record_def ST_prune_def ST_updateTrailRibbons_trail
      Let_def split: option.splits)

lemma SR_updateRibbonGeometries_trail:
  "SR_trailHistory (SR_updateRibbonGeometries m s) = SR_trailHistory s"
  by (simp add: SR_updateRibbonGeometries_def Let_def)

lemma SR_useFrame_trail:
  "SR_trailHistory (SR_useFrame m f s) =
     (case spherePosition f of
        None \<Rightarrow> SR_trailHistory s
      | Some p \<Rightarrow>
          if \<not> enabled f then SR_trailHistory s
          else filter (\<lambda>pt. nowPrune f - sr_timestamp pt < SR_TRAIL_LIFETIME)
                 (if SR_MOVEMENT_THRESHOLD < distanceTo p (SR_lastPosition s)
                  then take SR_MAX_TRAIL_LENGTH
                         (\<lparr>sr_position = p, sr_timestamp = nowRecord f\<rparr> # SR_trailHistory s)
                  else SR_trailHistory s))"
  by (simp add: SR_useFrame_def SR_updateRibbonGeometries_trail Let_def split: option.splits)

lemma frame_on_trail:
  assumes shape: "tr' = (case sp of
                           None \<Rightarrow> tr
                         | Some p \<Rightarrow>
                             if \<not> en then tr
                             else filter (\<lambda>pt. tp - ts pt < L)
                                    (if moved p then take n (new p # tr) else tr))"
    and before: "trailBefore ts n t tr"
    and clock: "t \<le> trc" "trc \<le> tp"
    and stamp: "\<And>p. ts (new p) = trc"
  shows "trailBefore ts n tp tr'"
    and "en \<Longrightarrow> sp \<noteq> None \<Longrightarrow> trailInvariant ts n L tp tr'"
proof -
  have later: "trailBefore ts n tp tr"
    using clock by (intro trailBefore_later [OF before]) simp
  have step: "trailBefore ts n tp
                (filter (\<lambda>pt. tp - ts pt < L) (if moved p then take n (new p # tr) else tr))"
    and stepI: "trailInvariant ts n L tp
                (filter (\<lambda>pt. tp - ts pt < L) (if moved p then take n (new p # tr) else tr))"
    for p
    using clock
    by (intro trail_step [OF before] trail_step_invariant [OF before]; simp add: stamp)+
  show "trailBefore ts n tp tr'"
  proof (cases sp)
    case None
    with shape later show ?thesis by simp
  next
    case (Some p)
    with shape later step [of p] show ?thesis by (cases en) simp_all
  qed
  show "trailInvariant ts n L tp tr'" if "en" "sp \<noteq> None"
  proof -
    from that obtain p where "sp = Some p" by auto
    with shape that stepI [of p] show ?thesis by simp
  qed
qed

lemma PR_step:
  assumes "trailBefore timestamp PR_MAX_TRAIL_LENGTH t (PR_trailHistory s)"
    and "t \<le> nowRecord f" "nowRecord f \<le> nowPrune f"
  shows "trailBefore timestamp PR_MAX_TRAIL_LENGTH (nowPrune f) (PR_trailHistory (PR_useFrame m f s))"
    and "running f \<Longrightarrow> trailInvariant timestamp PR_MAX_TRAIL_LENGTH PR_TRAIL_LIFETIME (nowPrune f)
                        (PR_trailHistory (PR_useFrame m f s))"
  using frame_on_trail [OF PR_useFrame_trail assms]
  by (simp_all add: running_def)

lemma ST_step:
  assumes "trailBefore timestamp ST_MAX_TRAIL_POINTS t (ST_trailHistory s)"
    and "t \<le> nowRecord f" "nowRecord f \<le> nowPrune f"
  shows "trailBefore timestamp ST_MAX_TRAIL_POINTS (nowPrune f) (ST_trailHistory (ST_useFrame m f s))"
    and "running f \<Longrightarrow> trailInvariant timestamp ST_MAX_TRAIL_POINTS ST_TRAIL_LIFETIME (nowPrune f)
                        (ST_trailHistory (ST_useFrame m f s))"
  using frame_on_trail [OF ST_useFrame_trail assms]
  by (simp_all add: running_def)

lemma SR_step:
  assumes "trailBefore sr_timestamp SR_MAX_TRAIL_LENGTH t (SR_trailHistory s)"
    and "t \<le> nowRecord f" "nowRecord f \<le> nowPrune f"
  shows "trailBefore sr_timestamp SR_MAX_TRAIL_LENGTH (nowPrune f) (SR_trailHistory (SR_useFrame m f s))"
    and "running f \<Longrightarrow> trailInvariant sr_timestamp SR_MAX_TRAIL_LENGTH SR_TRAIL_LIFETIME (nowPrune f)
                        (SR_trailHistory (SR_useFrame m f s))"
  using frame_on_trail [OF SR_useFrame_trail assms]
  by (simp_all add: running_def)

lemma OR_step:
  assumes inv: "OR_inv t s" and clock: "t \<le> OR_nowRecord f" "OR_nowRecord f \<le> OR_nowPrune f"
  shows "OR_inv (OR_nowPrune f) (OR_useFrame m f s)"
    and "OR_prunes f s \<Longrightarrow>
         trailInvariant timestamp OR_MAX_TRAIL_POINTS OR_TRAIL_LIFETIME (OR_nowPrune f)
           (OR_trailHistory (OR_useFrame m f s))"
proof -
  have before: "trailBefore timestamp OR_MAX_TRAIL_POINTS t (OR_trailHistory s)"
    using inv by (simp add: OR_inv_def)
  have later: "OR_inv (OR_nowPrune f) s"
    using inv clock unfolding OR_inv_def
    by (auto intro: trailBefore_later [where t = t])
  show "OR_inv (OR_nowPrune f) (OR_useFrame m f s)"
  proof (cases "OR_enabled f \<and> OR_mode f \<noteq> ''off'' \<and> OR_spherePosition f \<noteq> None")
    case False
    then have "OR_useFrame m f s = s"
      by (auto simp: OR_useFrame_def split: option.splits)
    with later show ?thesis by simp
  next
    case True
    then obtain p where run: "OR_enabled f" "OR_mode f \<noteq> ''off''" "OR_spherePosition f = Some p"
      by auto
    show ?thesis
    proof (cases "OR_isInitialized s")
      case False
      then have empty: "OR_trailHistory s = []" using inv by (simp add: OR_inv_def)
      have "OR_useFrame m f s
              = s\<lparr>OR_trailHistory := OR_trailHistory s @
                    [\<lparr>position = p, velocity = zeroVector, timestamp = OR_nowRecord f\<rparr>],
                  OR_lastPosition := p, OR_isInitialized := True\<rparr>"
        using run False by (simp add: OR_useFrame_def)
      then show ?thesis
        using clock empty
        by (simp add: OR_inv_def trailBefore_def newestFirst_def OR_MAX_TRAIL_POINTS_def)
    next
      case init: True
      note fs = OR_useFrame_gated [where m = m, OF run init]
      let ?moved = "OR_MOVEMENT_THRESHOLD \<le> distanceTo p (OR_lastPosition s)"
      let ?gate = "(OR_frameCounter s + 1) mod OR_UPDATE_FREQUENCY = 0 \<or> ?moved"
      show ?thesis
      proof (cases ?gate)
        case True
        have "trailBefore timestamp OR_MAX_TRAIL_POINTS (OR_nowPrune f)
                (OR_trailHistory (OR_useFrame m f s))"
          unfolding fs(4) [OF True] using clock
          by (intro trail_step [OF before]) simp_all
        with fs(3) show ?thesis by (simp add: OR_inv_def)
      next
        case False
        from fs(7) [OF False] later show ?thesis by (simp add: OR_inv_def)
      qed
    qed
  qed
  show "trailInvariant timestamp OR_MAX_TRAIL_POINTS OR_TRAIL_LIFETIME (OR_nowPrune f)
           (OR_trailHistory (OR_useFrame m f s))" if pr: "OR_prunes f s"
  proof -
    from pr obtain p where run: "OR_enabled f" "OR_mode f \<noteq> ''off''"
        "OR_spherePosition f = Some p" "OR_isInitialized s"
      and gate: "(OR_frameCounter s + 1) mod OR_UPDATE_FREQUENCY = 0
                 \<or> OR_MOVEMENT_THRESHOLD \<le> distanceTo p (OR_lastPosition s)"
      by (auto simp: OR_prunes_def split: option.splits)
    note fs = OR_useFrame_gated [where m = m, OF run]
    show ?thesis
      unfolding fs(4) [OF gate] using clock
      by (intro trail_step_invariant [OF before]) simp_all
  qed
qed

lemma frames_snoc:
  "PR_frames m (fs @ [f]) s = PR_useFrame m f (PR_frames m fs s)"
  "ST_frames m (fs @ [f]) t = ST_useFrame m f (ST_frames m fs t)"
  "SR_frames m (fs @ [f]) r = SR_useFrame m f (SR_frames m fs r)"
  "OR_frames m (gs @ [g]) u = OR_useFrame m g (OR_frames m gs u)"
  by (simp_all add: PR_frames_def ST_frames_def SR_frames_def OR_frames_def)

lemma clockOrdered_snoc:
  "clockOrdered t (fs @ [f]) \<longleftrightarrow>
     clockOrdered t fs \<and> (if fs = [] then t else nowPrune (last fs)) \<le> nowRecord f
     \<and> nowRecord f \<le> nowPrune f"
  "OR_clockOrdered t (gs @ [g]) \<longleftrightarrow>
     OR_clockOrdered t gs \<and> (if gs = [] then t else OR_nowPrune (last gs)) \<le> OR_nowRecord g
     \<and> OR_nowRecord g \<le> OR_nowPrune g"
  by (simp_all add: clockOrdered_def OR_clockOrdered_def ordered_append last_map)

lemma PR_run:
  assumes "clockOrdered t fs" and "trailBefore timestamp PR_MAX_TRAIL_LENGTH t (PR_trailHistory s)"
  shows "trailBefore timestamp PR_MAX_TRAIL_LENGTH (if fs = [] then t else nowPrune (last fs))
           (PR_trailHistory (PR_frames m fs s))"
  using run_invariant [where J = "\<lambda>t s. trailBefore timestamp PR_MAX_TRAIL_LENGTH t (PR_trailHistory s)"
      and step = "PR_useFrame m" and clock = "\<lambda>f. (nowRecord f, nowPrune f)" and t = t and fs = fs
      and s = s] assms
  by (cases "fs = []") (simp_all add: PR_step(1) clockOrdered_def PR_frames_def)

lemma ST_run:
  assumes "clockOrdered t fs" and "trailBefore timestamp ST_MAX_TRAIL_POINTS t (ST_trailHistory s)"
  shows "trailBefore timestamp ST_MAX_TRAIL_POINTS (if fs = [] then t else nowPrune (last fs))
           (ST_trailHistory (ST_frames m fs s))"
  using run_invariant [where J = "\<lambda>t s. trailBefore timestamp ST_MAX_TRAIL_POINTS t (ST_trailHistory s)"
      and step = "ST_useFrame m" and clock = "\<lambda>f. (nowRecord f, nowPrune f)" and t = t and fs = fs
      and s = s] assms
  by (cases "fs = []") (simp_all add: ST_step(1) clockOrdered_def ST_frames_def)

lemma SR_run:
  assumes "clockOrdered t fs" and "trailBefore sr_timestamp SR_MAX_TRAIL_LENGTH t (SR_trailHistory s)"
  shows "trailBefore sr_timestamp SR_MAX_TRAIL_LENGTH (if fs = [] then t else nowPrune (last fs))
           (SR_trailHistory (SR_frames m fs s))"
  using run_invariant [where J = "\<lambda>t s. trailBefore sr_timestamp SR_MAX_TRAIL_LENGTH t (SR_trailHistory s)"
      and step = "SR_useFrame m" and clock = "\<lambda>f. (nowRecord f, nowPrune f)" and t = t and fs = fs
      and s = s] assms
  by (cases "fs = []") (simp_all add: SR_step(1) clockOrdered_def SR_frames_def)

lemma OR_run:
  assumes "OR_clockOrdered t fs" and "OR_inv t s"
  shows "OR_inv (if fs = [] then t else OR_nowPrune (last fs)) (OR_frames m fs s)"
  using run_invariant [where J = OR_inv
      and step = "OR_useFrame m" and clock = "\<lambda>f. (OR_nowRecord f, OR_nowPrune f)" and t = t
      and fs = fs and s = s] assms
  by (cases "fs = []") (simp_all add: OR_step(1) OR_clockOrdered_def OR_frames_def)

text \<open>
  C1, as stated, at OptimizedRibbons. The trail holds a point recorded at time 0, the
  frame counter is 0 and the sphere has not moved. The frame at time 3600 makes the
  counter 1 and stores nothing, so the callback does not reach its pruning filter: after
  this frame the point is still in the trail, at age 3600, past the lifetime of 3500.
\<close>

theorem C1_counterexample:
  "OR_clockOrdered 0 [OR_frameAt zeroVector 3600]
   \<and> OR_inv 0 (OR_example [samplePoint 0 0 0 0] 0)
   \<and> OR_trailHistory (OR_frames (\<lambda>_. white) [OR_frameAt zeroVector 3600]
        (OR_example [samplePoint 0 0 0 0] 0)) = [samplePoint 0 0 0 0]
   \<and> \<not> trailInvariant timestamp OR_MAX_TRAIL_POINTS OR_TRAIL_LIFETIME
         (OR_nowPrune (last [OR_frameAt zeroVector 3600]))
         (OR_trailHistory (OR_frames (\<lambda>_. white) [OR_frameAt zeroVector 3600]
            (OR_example [samplePoint 0 0 0 0] 0)))"
proof -
  let ?g = "OR_frameAt zeroVector 3600" and ?u = "OR_example [samplePoint 0 0 0 0] 0"
  have c1: "OR_clockOrdered 0 [?g]"
    by (simp add: OR_clockOrdered_def OR_frameAt_def)
  have c2: "OR_inv 0 ?u"
    by (simp add: OR_inv_def OR_example_simps trailBefore_def newestFirst_def samplePoint_def
        OR_MAX_TRAIL_POINTS_def)
  note gs = OR_useFrame_gated [where f = ?g and s = ?u and p = zeroVector
      and m = "\<lambda>_. white", OF OR_frameAt_running OR_example_simps(4)]
  have idle: "OR_useFrame (\<lambda>_. white) ?g ?u = ?u\<lparr>OR_frameCounter := 1\<rparr>"
    using gs(7)
    by (simp add: OR_example_simps distanceTo_def subVectors_def zeroVector_def vlength_def
        OR_MOVEMENT_THRESHOLD_def OR_UPDATE_FREQUENCY_def)
  have c3: "OR_trailHistory (OR_frames (\<lambda>_. white) [?g] ?u) = [samplePoint 0 0 0 0]"
    unfolding OR_frames_def by (simp add: idle OR_example_simps)
  have c4: "\<not> trailInvariant timestamp OR_MAX_TRAIL_POINTS OR_TRAIL_LIFETIME
         (OR_nowPrune (last [?g])) (OR_trailHistory (OR_frames (\<lambda>_. white) [?g] ?u))"
    unfolding c3
    by (simp add: trailInvariant_def OR_frameAt_def samplePoint_def OR_TRAIL_LIFETIME_def)
  show ?thesis using c1 c2 c3 c4 by (intro conjI)
qed

text \<open>
  C1, amended. Take any sequence of frames whose clock readings do not run backwards,
  from a state whose trail has at most the maximum length, timestamps in order with the
  newest at the front and none later than the clock (the empty trail is one). In
  ProperRibbons, SpeedRibbons and SpeedTrails, after each frame on which the callback
  runs, the trail has at most 15, 15 and 25 points, every point is younger than the
  lifetime (3000, 4000 and 2500 ms) at the time of the pruning filter, and the
  timestamps are in order with the newest point at the front. In OptimizedRibbons,
  after each frame the trail has at most 20 points with the timestamps in order, and
  after each frame on which the callback reaches its pruning filter (the frame counter
  becomes a multiple of 3, or a point is stored) every point is younger than 3500 ms.
\<close>

theorem C1_trail_invariant:
  fixes fa fb fc :: "frame list" and gs :: "OR_frame list"
    and sa :: PR_state and sb :: SR_state and sc :: ST_state and u :: OR_state
    and ma mb mc md :: "nat \<Rightarrow> vec3" and ta tb tc td :: real
  shows
  "(fa \<noteq> [] \<and> clockOrdered ta fa \<and> running (last fa)
      \<and> trailBefore timestamp PR_MAX_TRAIL_LENGTH ta (PR_trailHistory sa)
    \<longrightarrow> trailInvariant timestamp PR_MAX_TRAIL_LENGTH PR_TRAIL_LIFETIME (nowPrune (last fa))
          (PR_trailHistory (PR_frames ma fa sa)))
   \<and> (fb \<noteq> [] \<and> clockOrdered tb fb \<and> running (last fb)
      \<and> trailBefore sr_timestamp SR_MAX_TRAIL_LENGTH tb (SR_trailHistory sb)
    \<longrightarrow> trailInvariant sr_timestamp SR_MAX_TRAIL_LENGTH SR_TRAIL_LIFETIME (nowPrune (last fb))
          (SR_trailHistory (SR_frames mb fb sb)))
   \<and> (fc \<noteq> [] \<and> clockOrdered tc fc \<and> running (last fc)
      \<and> trailBefore timestamp ST_MAX_TRAIL_POINTS tc (ST_trailHistory sc)
    \<longrightarrow> trailInvariant timestamp ST_MAX_TRAIL_POINTS ST_TRAIL_LIFETIME (nowPrune (last fc))
          (ST_trailHistory (ST_frames mc fc sc)))
   \<and> (gs \<noteq> [] \<and> OR_clockOrdered td gs \<and> OR_inv td u
    \<longrightarrow> length (OR_trailHistory (OR_frames md gs u)) \<le> OR_MAX_TRAIL_POINTS
        \<and> newestFirst timestamp (OR_trailHistory (OR_frames md gs u))
        \<and> (OR_prunes (last gs) (OR_frames md (butlast gs) u)
           \<longrightarrow> trailInvariant timestamp OR_MAX_TRAIL_POINTS OR_TRAIL_LIFETIME
                 (OR_nowPrune (last gs)) (OR_trailHistory (OR_frames md gs u))))"
proof -
  have pr: "trailInvariant timestamp PR_MAX_TRAIL_LENGTH PR_TRAIL_LIFETIME (nowPrune (last fa))
          (PR_trailHistory (PR_frames ma fa sa))"
    if h: "fa \<noteq> [] \<and> clockOrdered ta fa \<and> running (last fa)
      \<and> trailBefore timestamp PR_MAX_TRAIL_LENGTH ta (PR_trailHistory sa)"
  proof -
    from h have split: "fa = butlast fa @ [last fa]" by simp
    from h have "clockOrdered ta (butlast fa @ [last fa])" by simp
    then have o: "clockOrdered ta (butlast fa)"
        "(if butlast fa = [] then ta else nowPrune (last (butlast fa))) \<le> nowRecord (last fa)"
        "nowRecord (last fa) \<le> nowPrune (last fa)"
      unfolding clockOrdered_snoc by simp_all
    from h have b: "trailBefore timestamp PR_MAX_TRAIL_LENGTH ta (PR_trailHistory sa)" by simp
    have "trailInvariant timestamp PR_MAX_TRAIL_LENGTH PR_TRAIL_LIFETIME (nowPrune (last fa))
            (PR_trailHistory (PR_useFrame ma (last fa) (PR_frames ma (butlast fa) sa)))"
      using h by (intro PR_step(2) [OF PR_run [OF o(1) b] o(2) o(3)]) simp
    then show ?thesis using frames_snoc(1) [of ma "butlast fa" "last fa" sa] split by simp
  qed
  have sr: "trailInvariant sr_timestamp SR_MAX_TRAIL_LENGTH SR_TRAIL_LIFETIME (nowPrune (last fb))
          (SR_trailHistory (SR_frames mb fb sb))"
    if h: "fb \<noteq> [] \<and> clockOrdered tb fb \<and> running (last fb)
      \<and> trailBefore sr_timestamp SR_MAX_TRAIL_LENGTH tb (SR_trailHistory sb)"
  proof -
    from h have split: "fb = butlast fb @ [last fb]" by simp
    from h have "clockOrdered tb (butlast fb @ [last fb])" by simp
    then have o: "clockOrdered tb (butlast fb)"
        "(if butlast fb = [] then tb else nowPrune (last (butlast fb))) \<le> nowRecord (last fb)"
        "nowRecord (last fb) \<le> nowPrune (last fb)"
      unfolding clockOrdered_snoc by simp_all
    from h have b: "trailBefore sr_timestamp SR_MAX_TRAIL_LENGTH tb (SR_trailHistory sb)" by simp
    have "trailInvariant sr_timestamp SR_MAX_TRAIL_LENGTH SR_TRAIL_LIFETIME (nowPrune (last fb))
            (SR_trailHistory (SR_useFrame mb (last fb) (SR_frames mb (butlast fb) sb)))"
      using h by (intro SR_step(2) [OF SR_run [OF o(1) b] o(2) o(3)]) simp
    then show ?thesis using frames_snoc(3) [of mb "butlast fb" "last fb" sb] split by simp
  qed
  have st: "trailInvariant timestamp ST_MAX_TRAIL_POINTS ST_TRAIL_LIFETIME (nowPrune (last fc))
          (ST_trailHistory (ST_frames mc fc sc))"
    if h: "fc \<noteq> [] \<and> clockOrdered tc fc \<and> running (last fc)
      \<and> trailBefore timestamp ST_MAX_TRAIL_POINTS tc (ST_trailHistory sc)"
  proof -
    from h have split: "fc = butlast fc @ [last fc]" by simp
    from h have "clockOrdered tc (butlast fc @ [last fc])" by simp
    then have o: "clockOrdered tc (butlast fc)"
        "(if butlast fc = [] then tc else nowPrune (last (butlast fc))) \<le> nowRecord (last fc)"
        "nowRecord (last fc) \<le> nowPrune (last fc)"
      unfolding clockOrdered_snoc by simp_all
    from h have b: "trailBefore timestamp ST_MAX_TRAIL_POINTS tc (ST_trailHistory sc)" by simp
    have "trailInvariant timestamp ST_MAX_TRAIL_POINTS ST_TRAIL_LIFETIME (nowPrune (last fc))
            (ST_trailHistory (ST_useFrame mc (last fc) (ST_frames mc (butlast fc) sc)))"
      using h by (intro ST_step(2) [OF ST_run [OF o(1) b] o(2) o(3)]) simp
    then show ?thesis using frames_snoc(2) [of mc "butlast fc" "last fc" sc] split by simp
  qed
  have orr: "length (OR_trailHistory (OR_frames md gs u)) \<le> OR_MAX_TRAIL_POINTS
        \<and> newestFirst timestamp (OR_trailHistory (OR_frames md gs u))
        \<and> (OR_prunes (last gs) (OR_frames md (butlast gs) u)
           \<longrightarrow> trailInvariant timestamp OR_MAX_TRAIL_POINTS OR_TRAIL_LIFETIME
                 (OR_nowPrune (last gs)) (OR_trailHistory (OR_frames md gs u)))"
    if h: "gs \<noteq> [] \<and> OR_clockOrdered td gs \<and> OR_inv td u"
  proof -
    from h have split: "gs = butlast gs @ [last gs]" by simp
    from h have "OR_clockOrdered td (butlast gs @ [last gs])" by simp
    then have o: "OR_clockOrdered td (butlast gs)"
        "(if butlast gs = [] then td else OR_nowPrune (last (butlast gs))) \<le> OR_nowRecord (last gs)"
        "OR_nowRecord (last gs) \<le> OR_nowPrune (last gs)"
      unfolding clockOrdered_snoc by simp_all
    from h have b: "OR_inv td u" by simp
    have eq: "OR_frames md gs u = OR_useFrame md (last gs) (OR_frames md (butlast gs) u)"
      using frames_snoc(4) [of md "butlast gs" "last gs" u] split by simp
    note step = OR_step [OF OR_run [OF o(1) b, where m = md] o(2) o(3), where m = md, folded eq]
    from step(1) have "length (OR_trailHistory (OR_frames md gs u)) \<le> OR_MAX_TRAIL_POINTS"
        "newestFirst timestamp (OR_trailHistory (OR_frames md gs u))"
      by (simp_all add: OR_inv_def trailBefore_def)
    with step(2) show ?thesis by simp
  qed
  have pr': "fa \<noteq> [] \<and> clockOrdered ta fa \<and> running (last fa)
      \<and> trailBefore timestamp PR_MAX_TRAIL_LENGTH ta (PR_trailHistory sa)
    \<longrightarrow> trailInvariant timestamp PR_MAX_TRAIL_LENGTH PR_TRAIL_LIFETIME (nowPrune (last fa))
          (PR_trailHistory (PR_frames ma fa sa))"
    by (rule impI) (rule pr)
  have sr': "fb \<noteq> [] \<and> clockOrdered tb fb \<and> running (last fb)
      \<and> trailBefore sr_timestamp SR_MAX_TRAIL_LENGTH tb (SR_trailHistory sb)
    \<longrightarrow> trailInvariant sr_timestamp SR_MAX_TRAIL_LENGTH SR_TRAIL_LIFETIME (nowPrune (last fb))
          (SR_trailHistory (SR_frames mb fb sb))"
    by (rule impI) (rule sr)
  have st': "fc \<noteq> [] \<and> clockOrdered tc fc \<and> running (last fc)
      \<and> trailBefore timestamp ST_MAX_TRAIL_POINTS tc (ST_trailHistory sc)
    \<longrightarrow> trailInvariant timestamp ST_MAX_TRAIL_POINTS ST_TRAIL_LIFETIME (nowPrune (last fc))
          (ST_trailHistory (ST_frames mc fc sc))"
    by (rule impI) (rule st)
  have orr': "gs \<noteq> [] \<and> OR_clockOrdered td gs \<and> OR_inv td u
    \<longrightarrow> length (OR_trailHistory (OR_frames md gs u)) \<le> OR_MAX_TRAIL_POINTS
        \<and> newestFirst timestamp (OR_trailHistory (OR_frames md gs u))
        \<and> (OR_prunes (last gs) (OR_frames md (butlast gs) u)
           \<longrightarrow> trailInvariant timestamp OR_MAX_TRAIL_POINTS OR_TRAIL_LIFETIME
                 (OR_nowPrune (last gs)) (OR_trailHistory (OR_frames md gs u)))"
    by (rule impI) (rule orr)
  show ?thesis
    by (intro conjI pr' sr' st' orr')
qed

theorem C1_trail_invariant_witness:
  "twoFrames \<noteq> [] \<and> clockOrdered 0 twoFrames \<and> running (last twoFrames)
   \<and> trailBefore timestamp PR_MAX_TRAIL_LENGTH 0 (PR_trailHistory (PR_example []))
   \<and> trailInvariant timestamp PR_MAX_TRAIL_LENGTH PR_TRAIL_LIFETIME (nowPrune (last twoFrames))
        (PR_trailHistory (PR_frames (\<lambda>_. white) twoFrames (PR_example [])))
   \<and> trailBefore sr_timestamp SR_MAX_TRAIL_LENGTH 0 (SR_trailHistory (SR_example []))
   \<and> trailInvariant sr_timestamp SR_MAX_TRAIL_LENGTH SR_TRAIL_LIFETIME (nowPrune (last twoFrames))
        (SR_trailHistory (SR_frames (\<lambda>_. white) twoFrames (SR_example [])))
   \<and> trailBefore timestamp ST_MAX_TRAIL_POINTS 0 (ST_trailHistory (ST_example []))
   \<and> trailInvariant timestamp ST_MAX_TRAIL_POINTS ST_TRAIL_LIFETIME (nowPrune (last twoFrames))
        (ST_trailHistory (ST_frames (\<lambda>_. white) twoFrames (ST_example [])))
   \<and> OR_twoFrames \<noteq> [] \<and> OR_clockOrdered 0 OR_twoFrames \<and> OR_inv 0 (OR_example [] 0)
   \<and> OR_prunes (last OR_twoFrames) (OR_frames (\<lambda>_. white) (butlast OR_twoFrames) (OR_example [] 0))
   \<and> trailInvariant timestamp OR_MAX_TRAIL_POINTS OR_TRAIL_LIFETIME (OR_nowPrune (last OR_twoFrames))
        (OR_trailHistory (OR_frames (\<lambda>_. white) OR_twoFrames (OR_example [] 0)))"
proof -
  have f: "twoFrames \<noteq> []" "clockOrdered 0 twoFrames" "running (last twoFrames)"
    by (simp_all add: twoFrames_def clockOrdered_def running_def frameAt_def)
  have start: "trailBefore timestamp PR_MAX_TRAIL_LENGTH 0 (PR_trailHistory (PR_example []))"
    "trailBefore sr_timestamp SR_MAX_TRAIL_LENGTH 0 (SR_trailHistory (SR_example []))"
    "trailBefore timestamp ST_MAX_TRAIL_POINTS 0 (ST_trailHistory (ST_example []))"
    by (simp_all add: trailBefore_def newestFirst_def PR_example_def SR_example_def ST_example_def)
  have g: "OR_twoFrames \<noteq> []" "OR_clockOrdered 0 OR_twoFrames"
    by (simp_all add: OR_twoFrames_def OR_clockOrdered_def OR_frameAt_def)
  have inv: "OR_inv 0 (OR_example [] 0)"
    by (simp add: OR_inv_def trailBefore_def newestFirst_def OR_example_simps)
  let ?g = "OR_frameAt (Vector3 1 0 0) 100" and ?u = "OR_example [] 0"
  note first = OR_useFrame_gated [where f = ?g and s = ?u and p = "Vector3 1 0 0"
      and m = "\<lambda>_. white", OF OR_frameAt_running OR_example_simps(4)]
  have moved: "OR_MOVEMENT_THRESHOLD \<le> distanceTo (Vector3 1 0 0) (OR_lastPosition ?u)"
    by (simp add: OR_example_simps distanceTo_def subVectors_def zeroVector_def vlength_x_axis
        OR_MOVEMENT_THRESHOLD_def)
  have pos: "OR_lastPosition (OR_useFrame (\<lambda>_. white) ?g ?u) = Vector3 1 0 0"
    using first(2) moved by simp
  have prunes: "OR_prunes (last OR_twoFrames)
                  (OR_frames (\<lambda>_. white) (butlast OR_twoFrames) (OR_example [] 0))"
    using first(3)
    by (simp add: OR_twoFrames_def OR_frames_def OR_prunes_def OR_frameAt_running pos
        distanceTo_def subVectors_def vlength_x_axis OR_MOVEMENT_THRESHOLD_def)
  note inst = C1_trail_invariant [where fa = twoFrames and ta = 0 and sa = "PR_example []"
      and ma = "\<lambda>_. white" and fb = twoFrames and tb = 0 and sb = "SR_example []"
      and mb = "\<lambda>_. white" and fc = twoFrames and tc = 0 and sc = "ST_example []"
      and mc = "\<lambda>_. white" and gs = OR_twoFrames and td = 0 and u = "OR_example [] 0"
      and md = "\<lambda>_. white"]
  from inst f start g inv prunes show ?thesis by simp
qed

section \<open>Triangle indices in ProperRibbons, OptimizedRibbons and SpeedRibbons\<close>

text \<open>The three other loops do what the loop of SpeedTrails misses. OptimizedRibbons
  writes the four vertices of a segment together with its six indices; SpeedRibbons skips
  no point and joins each point to the one before it; ProperRibbons joins each emitted
  point to the two vertices pushed before it, which are there because, on a trail with
  the newest point at the front, the skipped points are the last ones of the path.\<close>

subsection \<open>OptimizedRibbons and SpeedRibbons\<close>

lemma uint16_le: "uint16 v \<le> v"
  by (simp add: uint16_def)

lemma OR_segmentStep_indices:
  assumes inv: "\<forall>k < cur_indexCount cur. k < length (buf_indices (cur_buffers cur))
                  \<longrightarrow> buf_indices (cur_buffers cur) ! k < cur_vertexCount cur"
  shows "\<forall>k < cur_indexCount (OR_segmentStep L c t trail r cur i).
           k < length (buf_indices (cur_buffers (OR_segmentStep L c t trail r cur i)))
           \<longrightarrow> buf_indices (cur_buffers (OR_segmentStep L c t trail r cur i)) ! k
                 < cur_vertexCount (OR_segmentStep L c t trail r cur i)"
proof (cases "OR_ageFade L t trail i \<le> 0.01")
  case True
  then show ?thesis using inv by (simp add: OR_segmentStep_def)
next
  case False
  let ?vc = "cur_vertexCount cur" and ?ic = "cur_indexCount cur"
  let ?new = "map uint16 [?vc, ?vc + 1, ?vc + 2, ?vc + 1, ?vc + 3, ?vc + 2]"
  have new: "?new ! j < ?vc + 4" if "j < 6" for j
  proof -
    from that have "j = 0 \<or> j = 1 \<or> j = 2 \<or> j = 3 \<or> j = 4 \<or> j = 5" by arith
    then show ?thesis
      using uint16_le [of ?vc] uint16_le [of "?vc + 1"] uint16_le [of "?vc + 2"]
        uint16_le [of "?vc + 3"]
      by (elim disjE) simp_all
  qed
  have "writeAt (buf_indices (cur_buffers cur)) ?ic ?new ! k < ?vc + 4"
    if k: "k < ?ic + 6" "k < length (buf_indices (cur_buffers cur))" for k
  proof (cases "?ic \<le> k")
    case True
    then have "k - ?ic < 6" using k by arith
    from new [OF this] True k show ?thesis by (simp add: nth_writeAt del: writeAt.simps)
  next
    case False
    then have "k < ?ic" by simp
    with inv k have "buf_indices (cur_buffers cur) ! k < ?vc" by simp
    with False k show ?thesis by (simp add: nth_writeAt del: writeAt.simps)
  qed
  with False show ?thesis
    by (simp add: OR_segmentStep_def Let_def del: writeAt.simps)
qed

lemma OR_fold_indices:
  assumes "\<forall>k < cur_indexCount cur. k < length (buf_indices (cur_buffers cur))
             \<longrightarrow> buf_indices (cur_buffers cur) ! k < cur_vertexCount cur"
  shows "\<forall>k < cur_indexCount (foldl (OR_segmentStep L c t trail r) cur xs).
           k < length (buf_indices (cur_buffers (foldl (OR_segmentStep L c t trail r) cur xs)))
           \<longrightarrow> buf_indices (cur_buffers (foldl (OR_segmentStep L c t trail r) cur xs)) ! k
                 < cur_vertexCount (foldl (OR_segmentStep L c t trail r) cur xs)"
  using assms
proof (induction xs arbitrary: cur)
  case Nil
  then show ?case by simp
next
  case (Cons x xs)
  from Cons.IH [OF OR_segmentStep_indices [OF Cons.prems]] show ?case by simp
qed

lemma OR_indices_in_range:
  "k < cur_indexCount (OR_buildRibbon L c t trail r b)
   \<Longrightarrow> k < length (buf_indices (cur_buffers (OR_buildRibbon L c t trail r b)))
   \<Longrightarrow> buf_indices (cur_buffers (OR_buildRibbon L c t trail r b)) ! k
         < cur_vertexCount (OR_buildRibbon L c t trail r b)"
  using OR_fold_indices [of "\<lparr>cur_buffers = b, cur_vertexCount = 0, cur_indexCount = 0\<rparr>"
      L c t trail r "[0 ..< length trail - 1]"]
  by (simp add: OR_buildRibbon_def)

lemma SR_fold_indices:
  "length (positions (foldl (SR_pointStep trail c r) emptyGeometry [0 ..< j])) = 6 * j
   \<and> (\<forall>x \<in> set (indices (foldl (SR_pointStep trail c r) emptyGeometry [0 ..< j])).
         0 \<le> x \<and> x < 2 * int j)"
proof (induction j)
  case 0
  then show ?case by (simp add: emptyGeometry_def)
next
  case (Suc j)
  then show ?case
    by (auto simp: SR_pointStep_def Let_def xyz_def)
qed

lemma SR_indices_in_range:
  "x \<in> set (indices (foldl (SR_pointStep trail c r) emptyGeometry [0 ..< n]))
   \<Longrightarrow> 0 \<le> x \<and> x < int (vertexCount (foldl (SR_pointStep trail c r) emptyGeometry [0 ..< n]))"
  using SR_fold_indices [of trail c r n] by (simp add: vertexCount_def)

subsection \<open>ProperRibbons\<close>

text \<open>When no point of the path is emitted after a skipped one, every index that the loop
  of ProperRibbons pushes names a vertex pushed before it.\<close>

lemma skipped_stays_skipped:
  assumes closed: "\<And>i. Suc i < n \<Longrightarrow> alpha (Suc i) \<ge> (0.01::real) \<Longrightarrow> alpha i \<ge> 0.01"
    and "alpha j < 0.01" and "j \<le> i" and "i < n"
  shows "alpha i < 0.01"
  using assms(3,4)
proof (induction i)
  case 0
  with assms(2) show ?case by simp
next
  case (Suc i)
  show ?case
  proof (cases "j = Suc i")
    case True
    with assms(2) show ?thesis by simp
  next
    case False
    with Suc have "alpha i < 0.01" by simp
    with closed [of i] Suc.prems show ?thesis by force
  qed
qed

lemma PR_fold_indices:
  assumes closed: "\<And>i. Suc i < length path
            \<Longrightarrow> PR_alpha L path now (Suc i) \<ge> 0.01 \<Longrightarrow> PR_alpha L path now i \<ge> 0.01"
    and "j \<le> length path"
  shows "\<exists>k \<le> j.
           length (positions (foldl (PR_pathStep L path c now) emptyGeometry [0 ..< j])) = 6 * k
           \<and> (\<forall>x \<in> set (indices (foldl (PR_pathStep L path c now) emptyGeometry [0 ..< j])).
                 0 \<le> x \<and> x < 2 * int k)
           \<and> (k < j \<longrightarrow> (\<forall>i. j \<le> i \<and> i < length path \<longrightarrow> PR_alpha L path now i < 0.01))"
  using assms(2)
proof (induction j)
  case 0
  then show ?case by (simp add: emptyGeometry_def)
next
  case (Suc j)
  let ?g = "foldl (PR_pathStep L path c now) emptyGeometry [0 ..< j]"
  from Suc obtain k where k: "k \<le> j" "length (positions ?g) = 6 * k"
      "\<forall>x \<in> set (indices ?g). 0 \<le> x \<and> x < 2 * int k"
      "k < j \<longrightarrow> (\<forall>i. j \<le> i \<and> i < length path \<longrightarrow> PR_alpha L path now i < 0.01)"
    by auto
  have fold: "foldl (PR_pathStep L path c now) emptyGeometry [0 ..< Suc j]
                = PR_pathStep L path c now ?g j"
    by simp
  show ?case
  proof (cases "PR_alpha L path now j < 0.01")
    case True
    then have skip: "PR_pathStep L path c now ?g j = ?g"
      by (simp add: PR_pathStep_def)
    have later: "\<forall>i. Suc j \<le> i \<and> i < length path \<longrightarrow> PR_alpha L path now i < 0.01"
      using skipped_stays_skipped [of "length path" "PR_alpha L path now" j, OF closed True]
      by simp
    show ?thesis
      unfolding fold skip using k later
      by (intro exI [of _ k]) simp
  next
    case False
    with k(4) Suc.prems have kj: "k = j" using k(1) by force
    have "length (positions (PR_pathStep L path c now ?g j)) = 6 * Suc j"
      using False k(2) kj by (simp add: PR_pathStep_def Let_def xyz_def)
    moreover have "\<forall>x \<in> set (indices (PR_pathStep L path c now ?g j)).
                     0 \<le> x \<and> x < 2 * int (Suc j)"
      using False k(2,3) kj by (auto simp: PR_pathStep_def Let_def)
    ultimately show ?thesis
      unfolding fold by (intro exI [of _ "Suc j"]) simp
  qed
qed

lemma PR_indices_in_range:
  assumes "\<And>i. Suc i < length (PR_ribbonPath trail r)
            \<Longrightarrow> PR_alpha L (PR_ribbonPath trail r) now (Suc i) \<ge> 0.01
            \<Longrightarrow> PR_alpha L (PR_ribbonPath trail r) now i \<ge> 0.01"
    and "x \<in> set (indices (PR_buildRibbon L c now trail r))"
  shows "0 \<le> x \<and> x < int (vertexCount (PR_buildRibbon L c now trail r))"
  using PR_fold_indices [of "PR_ribbonPath trail r" L now "length (PR_ribbonPath trail r)" c,
      OF assms(1)] assms(2)
  by (auto simp: PR_buildRibbon_def Let_def vertexCount_def)

text \<open>The trail invariant gives that property: with the newest point at the front and a
  clock that does not run backwards during the rebuild, the alpha does not grow along
  the path.\<close>

lemma PR_alpha_antimono:
  assumes r: "r < PR_RIBBON_COUNT"
    and sorted: "newestFirst timestamp trail"
    and clock: "\<And>i. now i \<le> now (Suc i)"
    and i: "Suc i < length trail"
  shows "PR_alpha PR_TRAIL_LIFETIME (PR_ribbonPath trail r) now (Suc i)
           \<le> PR_alpha PR_TRAIL_LIFETIME (PR_ribbonPath trail r) now i"
proof -
  let ?path = "PR_ribbonPath trail r"
  have len: "length ?path = length trail" using r by (rule PR_ribbonPath_length)
  have ts: "snd (?path ! k) = timestamp (trail ! k)" if "k < length trail" for k
    using that r by (simp add: PR_ribbonPath_map)
  have "timestamp (trail ! Suc i) \<le> timestamp (trail ! i)"
    using sorted i unfolding newestFirst_def
    by (simp add: sorted_wrt_iff_nth_less)
  then have age: "now i - snd (?path ! i) \<le> now (Suc i) - snd (?path ! Suc i)"
    using clock [of i] i by (simp add: ts)
  have fade: "max 0 (1 - (now (Suc i) - snd (?path ! Suc i)) / PR_TRAIL_LIFETIME)
                \<le> max 0 (1 - (now i - snd (?path ! i)) / PR_TRAIL_LIFETIME)"
    using age by (simp add: PR_TRAIL_LIFETIME_def max_def divide_right_mono)
  have n: "0 < real (length trail) - 1" using i by simp
  have "PR_progress (length ?path) i \<le> PR_progress (length ?path) (Suc i)"
    unfolding len PR_progress_def using n by (simp add: divide_right_mono)
  then have pos: "max 0.1 (1 - PR_progress (length ?path) (Suc i) * 0.8)
                    \<le> max 0.1 (1 - PR_progress (length ?path) i * 0.8)"
    by (simp add: max_def)
  show ?thesis
    unfolding PR_alpha_def Let_def
    by (intro mult_mono fade pos) simp_all
qed

lemma PR_indices_in_range_sorted:
  assumes r: "r < PR_RIBBON_COUNT"
    and sorted: "newestFirst timestamp trail"
    and clock: "\<And>i. now i \<le> now (Suc i)"
    and x: "x \<in> set (indices (PR_buildRibbon PR_TRAIL_LIFETIME c now trail r))"
  shows "0 \<le> x \<and> x < int (vertexCount (PR_buildRibbon PR_TRAIL_LIFETIME c now trail r))"
proof (rule PR_indices_in_range [OF _ x])
  fix i
  assume "Suc i < length (PR_ribbonPath trail r)"
    and keep: "0.01 \<le> PR_alpha PR_TRAIL_LIFETIME (PR_ribbonPath trail r) now (Suc i)"
  then have "Suc i < length trail" using r by (simp add: PR_ribbonPath_length)
  from PR_alpha_antimono [where now = now, OF r sorted clock this] keep
  show "0.01 \<le> PR_alpha PR_TRAIL_LIFETIME (PR_ribbonPath trail r) now i" by simp
qed

end
